theory Spec2Isabelle
  imports Complex_Main "HOL-Library.Char_ord"
begin

section \<open>Numbers\<close>

text \<open>
  A JavaScript number is a double or \<^verbatim>\<open>NaN\<close>. A double is modelled by its value,
  a real number, and a result of arithmetic is rounded as IEEE 754 rounds it: to the nearest
  number with 53 significant bits, a tie to the one whose last bit is even. \<open>double x\<close> is
  that rounding of \<open>x\<close>, and \<open>lit x\<close> the number that the decimal literal \<open>x\<close> denotes in
  a program. The exponent is not bounded: beyond the largest double the code has an infinity
  where the model has a large real, and \<^verbatim>\<open>Math.min\<close> and \<^verbatim>\<open>Math.max\<close>
  with the bounds of a confidence give the same for both.
\<close>

datatype number = Num real | NaN

definition roundEven :: "real \<Rightarrow> int" where
  "roundEven q =
     (let f = \<lfloor>q\<rfloor>
      in if q - of_int f < 1 / 2 then f
         else if 1 / 2 < q - of_int f then f + 1
         else if even f then f else f + 1)"

definition double :: "real \<Rightarrow> real" where
  "double x =
     (if x = 0 then 0
      else let u = 2 powi (\<lfloor>log 2 \<bar>x\<bar>\<rfloor> - 52)
           in of_int (roundEven (x / u)) * u)"

definition lit :: "real \<Rightarrow> number" where
  "lit x = Num (double x)"

text \<open>\<^verbatim>\<open>a * b\<close>, \<^verbatim>\<open>Math.min(a, b)\<close>, \<^verbatim>\<open>Math.max(a, b)\<close>,
  \<^verbatim>\<open>a > b\<close> and \<^verbatim>\<open>a < b\<close>: an operation on \<^verbatim>\<open>NaN\<close> gives
  \<^verbatim>\<open>NaN\<close>, and a comparison with \<^verbatim>\<open>NaN\<close> is false.\<close>

fun mul :: "number \<Rightarrow> number \<Rightarrow> number" where
  "mul (Num x) (Num y) = Num (double (x * y))"
| "mul a b = NaN"

fun mathMin :: "number \<Rightarrow> number \<Rightarrow> number" where
  "mathMin (Num x) (Num y) = Num (min x y)"
| "mathMin a b = NaN"

fun mathMax :: "number \<Rightarrow> number \<Rightarrow> number" where
  "mathMax (Num x) (Num y) = Num (max x y)"
| "mathMax a b = NaN"

fun gt :: "number \<Rightarrow> number \<Rightarrow> bool" where
  "gt (Num x) (Num y) = (y < x)"
| "gt a b = False"

fun lt :: "number \<Rightarrow> number \<Rightarrow> bool" where
  "lt (Num x) (Num y) = (x < y)"
| "lt a b = False"

text \<open>A number as a condition: zero and \<^verbatim>\<open>NaN\<close> are falsy.\<close>

fun truthyNumber :: "number \<Rightarrow> bool" where
  "truthyNumber (Num x) = (x \<noteq> 0)"
| "truthyNumber NaN = False"

section \<open>Strings\<close>

text \<open>
  A JavaScript string is modelled as a list of code units below 256 (the type
  \<^typ>\<open>char\<close>). White space is what \<^verbatim>\<open>\s\<close> and
  \<^verbatim>\<open>String.prototype.trim\<close> treat as such in that range.
\<close>

definition isDigit :: "char \<Rightarrow> bool" where
  "isDigit c = (CHR ''0'' \<le> c \<and> c \<le> CHR ''9'')"

definition isSpace :: "char \<Rightarrow> bool" where
  "isSpace c = (c \<in> set [CHR 0x09, CHR 0x0A, CHR 0x0B, CHR 0x0C, CHR 0x0D, CHR 0x20, CHR 0xA0])"

text \<open>Case conversion of a code unit below 256: a letter and its other case differ in
  the bit of value 32 (the sixth argument of \<open>Char\<close>, which lists the bits from the lowest).\<close>

definition isUpper :: "char \<Rightarrow> bool" where
  "isUpper c = ((CHR ''A'' \<le> c \<and> c \<le> CHR ''Z'')
                \<or> (CHR 0xC0 \<le> c \<and> c \<le> CHR 0xDE \<and> c \<noteq> CHR 0xD7))"

definition isLower :: "char \<Rightarrow> bool" where
  "isLower c = ((CHR ''a'' \<le> c \<and> c \<le> CHR ''z'')
                \<or> (CHR 0xE0 \<le> c \<and> c \<le> CHR 0xFE \<and> c \<noteq> CHR 0xF7))"

definition lowerChar :: "char \<Rightarrow> char" where
  "lowerChar c =
     (if isUpper c
      then (case c of Char b0 b1 b2 b3 b4 b5 b6 b7 \<Rightarrow> Char b0 b1 b2 b3 b4 True b6 b7)
      else c)"

definition upperChar :: "char \<Rightarrow> char" where
  "upperChar c =
     (if isLower c
      then (case c of Char b0 b1 b2 b3 b4 b5 b6 b7 \<Rightarrow> Char b0 b1 b2 b3 b4 False b6 b7)
      else c)"

definition toLowerCase :: "string \<Rightarrow> string" where
  "toLowerCase s = map lowerChar s"

definition trim :: "string \<Rightarrow> string" where
  "trim s = rev (dropWhile isSpace (rev (dropWhile isSpace s)))"

fun startsWith :: "string \<Rightarrow> string \<Rightarrow> bool" where
  "startsWith s [] = True"
| "startsWith [] (p # ps) = False"
| "startsWith (c # s) (p # ps) = (c = p \<and> startsWith s ps)"

fun includesStr :: "string \<Rightarrow> string \<Rightarrow> bool" where
  "includesStr [] sub = (sub = [])"
| "includesStr (c # s) sub = (startsWith (c # s) sub \<or> includesStr s sub)"

text \<open>\<^verbatim>\<open>s.split(sep)\<close> for a one-character separator: never the empty array.\<close>

fun split :: "char \<Rightarrow> string \<Rightarrow> string list" where
  "split sep [] = [[]]"
| "split sep (c # s) =
     (if c = sep then [] # split sep s
      else (case split sep s of [] \<Rightarrow> [[c]] | l # ls \<Rightarrow> (c # l) # ls))"

definition firstLine :: "string \<Rightarrow> string" where
  "firstLine s = (case split (CHR 0x0A) s of [] \<Rightarrow> [] | l # _ \<Rightarrow> l)"

text \<open>\<^verbatim>\<open>a || b\<close> on strings: the empty string is falsy.\<close>

definition orElse :: "string \<Rightarrow> string \<Rightarrow> string" where
  "orElse a b = (if a \<noteq> [] then a else b)"

text \<open>
  \<^verbatim>\<open>parseInt\<close> is only ever applied to the text of a \<^verbatim>\<open>(\d+)\<close>
  group; it reads the decimal digits at the front and gives the double nearest to their
  value, which is a whole number again (the value itself below \<open>2 ^ 53\<close>).
\<close>

definition digitVal :: "char \<Rightarrow> nat" where
  "digitVal c = of_char c - 48"

definition parseInt :: "string \<Rightarrow> nat" where
  "parseInt s =
     nat \<lfloor>double (of_nat (foldl (\<lambda>n c. 10 * n + digitVal c) 0 (takeWhile isDigit s)))\<rfloor>"

definition apos :: char where "apos = CHR 0x27"
definition dquote :: char where "dquote = CHR 0x22"
definition newline :: char where "newline = CHR 0x0A"

section \<open>Regular expressions\<close>

text \<open>
  The fragment of the regular expression language that the pattern tables use: literals,
  character classes, greedy \<^verbatim>\<open>*\<close> and \<^verbatim>\<open>+\<close> on a class,
  sequence, alternation, capturing groups and the \<^verbatim>\<open>i\<close> flag. Matching is
  the backtracking search of the language: \<open>matchHere\<close> lists the ways a pattern matches
  at the front of the input in the order backtracking tries them, each with the rest of
  the input and the captures.
\<close>

datatype citem = Ch char | Range char char | Digit | Space

datatype cclass = Dot | Pos "citem list" | Neg "citem list"

datatype regex =
    Lit string
  | Cls cclass
  | Star cclass
  | Plus cclass
  | Seq regex regex
  | Alt regex regex
  | Grp regex

record RegExp =
  source :: regex
  ignoreCase :: bool

fun inItem :: "citem \<Rightarrow> char \<Rightarrow> bool" where
  "inItem (Ch p) c = (c = p)"
| "inItem (Range lo hi) c = (lo \<le> c \<and> c \<le> hi)"
| "inItem Digit c = isDigit c"
| "inItem Space c = isSpace c"

fun inClass :: "cclass \<Rightarrow> char \<Rightarrow> bool" where
  "inClass Dot c = (c \<noteq> CHR 0x0A \<and> c \<noteq> CHR 0x0D)"
| "inClass (Pos items) c = list_ex (\<lambda>i. inItem i c) items"
| "inClass (Neg items) c = (\<not> list_ex (\<lambda>i. inItem i c) items)"

definition classMatch :: "bool \<Rightarrow> cclass \<Rightarrow> char \<Rightarrow> bool" where
  "classMatch ic k c =
     (if ic then
        (case k of
           Neg items \<Rightarrow> \<not> (inClass (Pos items) c \<or> inClass (Pos items) (upperChar c)
                           \<or> inClass (Pos items) (lowerChar c))
         | _ \<Rightarrow> inClass k c \<or> inClass k (upperChar c) \<or> inClass k (lowerChar c))
      else inClass k c)"

fun litMatch :: "bool \<Rightarrow> string \<Rightarrow> string \<Rightarrow> string option" where
  "litMatch ic [] s = Some s"
| "litMatch ic (p # ps) [] = None"
| "litMatch ic (p # ps) (c # s) =
     (if (if ic then upperChar c = upperChar p else c = p) then litMatch ic ps s else None)"

text \<open>The inputs left after a greedy repetition of a class, the longest repetition first.\<close>

fun greedy :: "(char \<Rightarrow> bool) \<Rightarrow> string \<Rightarrow> string list" where
  "greedy p [] = [[]]"
| "greedy p (c # s) = (if p c then greedy p s @ [c # s] else [c # s])"

fun ngroups :: "regex \<Rightarrow> nat" where
  "ngroups (Seq a b) = ngroups a + ngroups b"
| "ngroups (Alt a b) = ngroups a + ngroups b"
| "ngroups (Grp a) = Suc (ngroups a)"
| "ngroups (Lit w) = 0"
| "ngroups (Cls k) = 0"
| "ngroups (Star k) = 0"
| "ngroups (Plus k) = 0"

text \<open>A match array: element 0 is the matched text, element \<open>i\<close> the \<open>i\<close>-th
  group, \<open>None\<close> where JavaScript has \<^verbatim>\<open>undefined\<close>.\<close>

type_synonym captures = "string option list"

fun matchHere :: "bool \<Rightarrow> regex \<Rightarrow> string \<Rightarrow> (string \<times> captures) list" where
  "matchHere ic (Lit w) s = (case litMatch ic w s of None \<Rightarrow> [] | Some r \<Rightarrow> [(r, [])])"
| "matchHere ic (Cls k) s =
     (case s of [] \<Rightarrow> [] | c # r \<Rightarrow> if classMatch ic k c then [(r, [])] else [])"
| "matchHere ic (Star k) s = map (\<lambda>r. (r, [])) (greedy (classMatch ic k) s)"
| "matchHere ic (Plus k) s =
     (case s of [] \<Rightarrow> []
      | c # r \<Rightarrow> if classMatch ic k c then map (\<lambda>r. (r, [])) (greedy (classMatch ic k) r)
                 else [])"
| "matchHere ic (Seq a b) s =
     concat (map (\<lambda>(r, ca). map (\<lambda>(r', cb). (r', ca @ cb)) (matchHere ic b r))
                 (matchHere ic a s))"
| "matchHere ic (Alt a b) s =
     map (\<lambda>(r, ca). (r, ca @ replicate (ngroups b) None)) (matchHere ic a s)
     @ map (\<lambda>(r, cb). (r, replicate (ngroups a) None @ cb)) (matchHere ic b s)"
| "matchHere ic (Grp a) s =
     map (\<lambda>(r, ca). (r, Some (take (length s - length r) s) # ca)) (matchHere ic a s)"

text \<open>The leftmost match, as \<^verbatim>\<open>RegExp.prototype.exec\<close> finds it.\<close>

fun search :: "bool \<Rightarrow> regex \<Rightarrow> string \<Rightarrow> captures option" where
  "search ic r [] =
     (case matchHere ic r [] of [] \<Rightarrow> None | (rest, caps) # _ \<Rightarrow> Some (Some [] # caps))"
| "search ic r (c # s) =
     (case matchHere ic r (c # s) of
        [] \<Rightarrow> search ic r s
      | (rest, caps) # _ \<Rightarrow>
          Some (Some (take (length (c # s) - length rest) (c # s)) # caps))"

text \<open>\<^verbatim>\<open>s.match(re)\<close> for a pattern without the \<^verbatim>\<open>g\<close> flag.\<close>

definition match :: "string \<Rightarrow> RegExp \<Rightarrow> captures option" where
  "match s re = search (ignoreCase re) (source re) s"

text \<open>\<^verbatim>\<open>m[i]\<close>: \<^verbatim>\<open>undefined\<close> beyond the array too.\<close>

definition cap :: "captures \<Rightarrow> nat \<Rightarrow> string option" where
  "cap m i = (if i < length m then m ! i else None)"

text \<open>A value inside a template literal.\<close>

definition tmpl :: "string option \<Rightarrow> string" where
  "tmpl v = (case v of None \<Rightarrow> ''undefined'' | Some s \<Rightarrow> s)"

text \<open>\<^verbatim>\<open>s.replace(re, rep)\<close> for a pattern with the \<^verbatim>\<open>g\<close> flag and a
  replacement without \<^verbatim>\<open>$\<close>: after an empty match the next character is copied.\<close>

function replaceAll :: "regex \<Rightarrow> string \<Rightarrow> string \<Rightarrow> string" where
  "replaceAll r rep s =
     (case matchHere False r s of
        [] \<Rightarrow> (case s of [] \<Rightarrow> [] | c # t \<Rightarrow> c # replaceAll r rep t)
      | (rest, caps) # _ \<Rightarrow>
          if length rest < length s then rep @ replaceAll r rep rest
          else (case s of [] \<Rightarrow> rep | c # t \<Rightarrow> rep @ c # replaceAll r rep t))"
  by pat_completeness auto
termination
  by (relation "measure (\<lambda>(r, rep, s). length s)") auto

declare replaceAll.simps [simp del]

fun seqs :: "regex list \<Rightarrow> regex" where
  "seqs [] = Lit []"
| "seqs [r] = r"
| "seqs (r # rs) = Seq r (seqs rs)"

definition re :: "regex \<Rightarrow> RegExp" where
  "re r = \<lparr>source = r, ignoreCase = False\<rparr>"

definition rei :: "regex \<Rightarrow> RegExp" where
  "rei r = \<lparr>source = r, ignoreCase = True\<rparr>"

definition quote :: cclass where
  "quote = Pos [Ch apos, Ch dquote]"

definition notQuote :: cclass where
  "notQuote = Neg [Ch apos, Ch dquote]"

section \<open>The error classifier (ErrorDetector)\<close>

datatype error_type =
  build_error | dependency_error | config_error | auth_error | network_error | permission_error

datatype severity = low | medium | high | critical

record ErrorContext =
  framework :: "string option"
  nodeVersion :: "string option"
  dependencies :: "(string \<times> string) list option"
  platform :: "string option"

record ErrorSignature =
  type :: error_type
  hash :: string
  message :: string
  file' :: "string option"
  line :: "nat option"
  command :: string
  exitCode :: nat
  context' :: ErrorContext
  severity :: severity
  suggestions :: "string list"

text \<open>\<open>errorPatterns\<close> is a \<^verbatim>\<open>Map\<close>: its entries are kept in insertion order, and
  setting a key that is present replaces the value where it stands.\<close>

record ErrorDetector =
  errorPatterns :: "(string \<times> RegExp) list"
  detectorInitialized :: bool

fun mapSet :: "'k \<Rightarrow> 'v \<Rightarrow> ('k \<times> 'v) list \<Rightarrow> ('k \<times> 'v) list" where
  "mapSet k v [] = [(k, v)]"
| "mapSet k v ((k', v') # m) = (if k' = k then (k, v) # m else (k', v') # mapSet k v m)"

definition newErrorDetector :: ErrorDetector where
  "newErrorDetector = \<lparr>errorPatterns = [], detectorInitialized = False\<rparr>"

definition builtinErrorPatterns :: "(string \<times> RegExp) list" where
  "builtinErrorPatterns =
    [(''missing_dependency'',
        re (seqs [Lit ''Cannot find module '', Cls quote, Grp (Plus notQuote), Cls quote])),
     (''missing_package'',
        re (seqs [Lit (''Module not found: Error: Can'' @ [apos] @ ''t resolve ''),
                  Cls quote, Grp (Plus notQuote), Cls quote])),
     (''peer_dependency'',
        re (seqs [Lit ''requires a peer of '',
                  Grp (seqs [Plus (Neg [Ch (CHR ''@''), Space]), Lit ''@'', Plus (Neg [Space])])])),
     (''version_mismatch'',
        re (seqs [Lit ''version '', Grp (Plus (Neg [Space])), Lit '' of '',
                  Grp (Plus (Neg [Space])), Lit '' is not compatible''])),
     (''typescript_error'', re (seqs [Lit ''error TS'', Grp (Plus (Pos [Digit])), Lit '':''])),
     (''syntax_error'',
        re (seqs [Lit ''SyntaxError: '', Grp (Plus Dot), Lit '' at line '', Grp (Plus (Pos [Digit]))])),
     (''import_error'',
        re (seqs [Lit ''Error: Cannot resolve module '', Cls quote, Grp (Plus notQuote), Cls quote])),
     (''build_failed'', re (Lit ''Build failed with errors'')),
     (''missing_env_var'',
        re (seqs [Cls quote, Grp (Plus (Pos [Range (CHR ''A'') (CHR ''Z''), Ch (CHR ''_'')])),
                  Cls quote, Lit '' is not defined''])),
     (''env_file_missing'', re (seqs [Lit ''ENOENT'', Star Dot, Lit ''.env''])),
     (''invalid_env_value'', re (Lit ''Invalid value for environment variable'')),
     (''network_timeout'',
        re (seqs [Lit ''timeout of '', Grp (Plus (Pos [Digit])), Lit ''ms exceeded''])),
     (''connection_refused'', re (Lit ''ECONNREFUSED'')),
     (''dns_error'', re (Lit ''ENOTFOUND'')),
     (''ssl_error'', re (seqs [Lit ''SSL'', Star Dot, Lit ''error''])),
     (''permission_denied'', re (Lit ''EACCES: permission denied'')),
     (''read_only_filesystem'', re (Lit ''EROFS: read-only file system'')),
     (''file_not_found'', re (Lit ''ENOENT: no such file or directory'')),
     (''auth_failed'', re (Lit ''Authentication failed'')),
     (''token_expired'', rei (seqs [Lit ''token'', Star Dot, Lit ''expired''])),
     (''invalid_token'', rei (seqs [Lit ''invalid'', Star Dot, Lit ''token''])),
     (''unauthorized'', rei (seqs [Lit ''401'', Star Dot, Lit ''unauthorized''])),
     (''vercel_error'', rei (seqs [Lit ''vercel'', Star Dot, Lit ''error''])),
     (''render_error'', rei (seqs [Lit ''render'', Star Dot, Lit ''error''])),
     (''docker_error'', rei (seqs [Lit ''docker'', Star Dot, Lit ''error'']))]"

definition setupErrorPatterns :: "ErrorDetector \<Rightarrow> ErrorDetector" where
  "setupErrorPatterns d =
     d\<lparr>errorPatterns := foldl (\<lambda>m (k, v). mapSet k v m) (errorPatterns d) builtinErrorPatterns\<rparr>"

definition initializeDetector :: "ErrorDetector \<Rightarrow> ErrorDetector" where
  "initializeDetector d = (setupErrorPatterns d)\<lparr>detectorInitialized := True\<rparr>"

definition addErrorPattern :: "string \<Rightarrow> RegExp \<Rightarrow> ErrorDetector \<Rightarrow> ErrorDetector" where
  "addErrorPattern name pattern d = d\<lparr>errorPatterns := mapSet name pattern (errorPatterns d)\<rparr>"

definition removeErrorPattern :: "string \<Rightarrow> ErrorDetector \<Rightarrow> bool \<times> ErrorDetector" where
  "removeErrorPattern name d =
     (name \<in> fst ` set (errorPatterns d),
      d\<lparr>errorPatterns := filter (\<lambda>(k, v). k \<noteq> name) (errorPatterns d)\<rparr>)"

text \<open>The hash is the first 16 hexadecimal digits of the SHA-256 digest of the normalised
  text; the digest function of the \<^verbatim>\<open>crypto\<close> library is the parameter \<open>sha256hex\<close>, from a text to its digest in hexadecimal.\<close>

definition normalize :: "string \<Rightarrow> string" where
  "normalize content =
     trim (toLowerCase
       (replaceAll (seqs [Lit ''at line '', Plus (Pos [Digit])]) ''at line 0''
         (replaceAll (seqs [Lit ''/'', Plus (Neg [Space])]) ''/path''
           (replaceAll (Plus (Pos [Digit])) ''0'' content))))"

definition generateErrorHash :: "(string \<Rightarrow> string) \<Rightarrow> string \<Rightarrow> string" where
  "generateErrorHash sha256hex content = take 16 (sha256hex (normalize content))"

definition extractCommand :: "string \<Rightarrow> string" where
  "extractCommand output =
     (case match output (re (seqs [Lit ''$ '', Grp (Plus (Neg [Ch newline]))])) of
        Some m \<Rightarrow> tmpl (cap m 1)
      | None \<Rightarrow> ''unknown'')"

definition extractExitCode :: "string \<Rightarrow> nat" where
  "extractExitCode output =
     (case match output (re (seqs [Lit ''exited with code '', Grp (Plus (Pos [Digit]))])) of
        Some m \<Rightarrow> parseInt (tmpl (cap m 1))
      | None \<Rightarrow> 1)"

definition extractContext :: "string \<Rightarrow> ErrorContext" where
  "extractContext output =
     \<lparr>framework =
        (if includesStr output ''react'' then Some ''react''
         else if includesStr output ''vue'' then Some ''vue''
         else if includesStr output ''angular'' then Some ''angular''
         else if includesStr output ''next'' then Some ''next''
         else if includesStr output ''nuxt'' then Some ''nuxt''
         else None),
      nodeVersion =
        (case match output
                (re (seqs [Lit ''node v'',
                           Grp (seqs [Plus (Pos [Digit]), Lit ''.'', Plus (Pos [Digit]), Lit ''.'',
                                      Plus (Pos [Digit])])])) of
           Some m \<Rightarrow> cap m 1
         | None \<Rightarrow> None),
      dependencies = None,
      platform =
        (if includesStr output ''vercel'' then Some ''vercel''
         else if includesStr output ''render'' then Some ''render''
         else if includesStr output ''docker'' then Some ''docker''
         else if includesStr output ''github'' then Some ''github''
         else None)\<rparr>"

text \<open>The \<^verbatim>\<open>switch\<close> of \<open>createErrorSignature\<close>: type, severity and suggestions
  of a rule name.\<close>

definition classifyRule ::
  "string \<Rightarrow> captures \<Rightarrow> error_type \<times> severity \<times> string list" where
  "classifyRule errorType m =
    (if errorType = ''missing_dependency'' \<or> errorType = ''missing_package'' then
       (dependency_error, high,
        [''Install missing package: npm install '' @ tmpl (cap m 1),
         ''Check if package is in dependencies vs devDependencies'',
         ''Verify package name spelling''])
     else if errorType = ''peer_dependency'' then
       (dependency_error, medium,
        [''Install peer dependency: npm install '' @ tmpl (cap m 1),
         ''Check package documentation for required peer dependencies''])
     else if errorType = ''version_mismatch'' then
       (dependency_error, high,
        [''Update package versions to compatible ranges'',
         ''Use npm ls to check dependency tree'',
         ''Consider using npm update''])
     else if errorType = ''typescript_error'' \<or> errorType = ''syntax_error'' then
       (build_error, high,
        [''Fix TypeScript/syntax errors in source code'',
         ''Check TypeScript configuration'',
         ''Update TypeScript version if needed''])
     else if errorType = ''missing_env_var'' then
       (config_error, medium,
        [''Set environment variable: '' @ tmpl (cap m 1) @ ''=value'',
         ''Create .env file with required variables'',
         ''Check deployment platform environment settings''])
     else if errorType = ''auth_failed'' \<or> errorType = ''token_expired''
             \<or> errorType = ''invalid_token'' then
       (auth_error, critical,
        [''Refresh authentication token'',
         ''Re-authenticate with platform'',
         ''Check token permissions and scope''])
     else if errorType = ''network_timeout'' \<or> errorType = ''connection_refused''
             \<or> errorType = ''dns_error'' then
       (network_error, medium,
        [''Check internet connection'',
         ''Verify API endpoints are accessible'',
         ''Try again after network issues resolve''])
     else if errorType = ''permission_denied'' \<or> errorType = ''read_only_filesystem'' then
       (permission_error, high,
        [''Check file/folder permissions'',
         ''Run with appropriate user privileges'',
         ''Verify write access to target directory''])
     else
       (build_error, medium, [''Check error logs for more details'', ''Try rebuilding the project'']))"

text \<open>The loop over the lines that looks for a stack frame
  \<^verbatim>\<open>at <file>:<line>:<column>\<close>.\<close>

fun fileAndLine :: "string list \<Rightarrow> string option \<times> nat option" where
  "fileAndLine [] = (None, None)"
| "fileAndLine (lineText # rest) =
     (case match lineText
             (re (seqs [Lit ''at '', Grp (Plus Dot), Lit '':'', Grp (Plus (Pos [Digit])),
                        Lit '':'', Grp (Plus (Pos [Digit]))])) of
        Some fileMatch \<Rightarrow> (cap fileMatch 1, Some (parseInt (tmpl (cap fileMatch 2))))
      | None \<Rightarrow> fileAndLine rest)"

definition createErrorSignature ::
  "(string \<Rightarrow> string) \<Rightarrow> string \<Rightarrow> captures \<Rightarrow> string \<Rightarrow> string list \<Rightarrow> ErrorSignature" where
  "createErrorSignature sha256hex errorType m fullOutput lines =
     (let (ty, sev, sugg) = classifyRule errorType m;
          (f, l) = fileAndLine lines
      in \<lparr>type = ty,
          hash = generateErrorHash sha256hex fullOutput,
          message = orElse (tmpl (cap m 0)) (orElse (firstLine fullOutput) ''Unknown error''),
          file' = f,
          line = l,
          command = extractCommand fullOutput,
          exitCode = extractExitCode fullOutput,
          context' = extractContext fullOutput,
          severity = sev,
          suggestions = sugg\<rparr>)"

definition createGenericErrorSignature ::
  "(string \<Rightarrow> string) \<Rightarrow> string \<Rightarrow> string \<Rightarrow> string list \<Rightarrow> ErrorSignature" where
  "createGenericErrorSignature sha256hex stderr fullOutput lines =
     \<lparr>type = build_error,
      hash = generateErrorHash sha256hex fullOutput,
      message = orElse (firstLine stderr) ''Unknown error'',
      file' = None,
      line = None,
      command = extractCommand fullOutput,
      exitCode = extractExitCode fullOutput,
      context' = extractContext fullOutput,
      severity = medium,
      suggestions =
        [''Check error logs for more details'',
         ''Verify project configuration'',
         ''Try rebuilding the project'']\<rparr>"

text \<open>The loop of \<open>detectError\<close> over the pattern table, in the table's order.\<close>

fun firstPattern :: "(string \<times> RegExp) list \<Rightarrow> string \<Rightarrow> (string \<times> captures) option" where
  "firstPattern [] combinedOutput = None"
| "firstPattern ((errorType, pattern) # rest) combinedOutput =
     (case match combinedOutput pattern of
        Some m \<Rightarrow> Some (errorType, m)
      | None \<Rightarrow> firstPattern rest combinedOutput)"

definition detectError ::
  "(string \<Rightarrow> string) \<Rightarrow> ErrorDetector \<Rightarrow> string \<Rightarrow> string \<Rightarrow> ErrorSignature option" where
  "detectError sha256hex d stderr stdout =
     (if \<not> detectorInitialized d then None
      else
        let combinedOutput = stderr @ [newline] @ stdout;
            lines = split newline combinedOutput
        in case firstPattern (errorPatterns d) combinedOutput of
             Some (errorType, m) \<Rightarrow>
               Some (createErrorSignature sha256hex errorType m combinedOutput lines)
           | None \<Rightarrow>
               if trim stderr \<noteq> [] then
                 Some (createGenericErrorSignature sha256hex stderr combinedOutput lines)
               else None)"

section \<open>The recovery engine (RecoveryEngine)\<close>

text \<open>Confidences and times are numbers. The values of a parameter bag
  (\<^verbatim>\<open>Record<string, any>\<close>) are strings, whole numbers, booleans or
  \<^verbatim>\<open>undefined\<close>; a bag is the list of its own entries.\<close>

datatype jsval = JStr string | JNum int | JBool bool | JUndefined

fun truthy :: "jsval \<Rightarrow> bool" where
  "truthy (JStr s) = (s \<noteq> [])"
| "truthy (JNum n) = (n \<noteq> 0)"
| "truthy (JBool b) = b"
| "truthy JUndefined = False"

definition digitChar :: "nat \<Rightarrow> char" where
  "digitChar n = ''0123456789'' ! (n mod 10)"

function showNat :: "nat \<Rightarrow> string" where
  "showNat n = (if n < 10 then [digitChar n] else showNat (n div 10) @ [digitChar n])"
  by pat_completeness auto
termination
  by (relation "measure (\<lambda>n. n)") auto

declare showNat.simps [simp del]

text \<open>A value inside a template literal or an argument list.\<close>

fun jsToString :: "jsval \<Rightarrow> string" where
  "jsToString (JStr s) = s"
| "jsToString (JNum n) = (if n < 0 then ''-'' @ showNat (nat (- n)) else showNat (nat n))"
| "jsToString (JBool b) = (if b then ''true'' else ''false'')"
| "jsToString JUndefined = ''undefined''"

definition jsOfCapture :: "string option \<Rightarrow> jsval" where
  "jsOfCapture v = (case v of None \<Rightarrow> JUndefined | Some s \<Rightarrow> JStr s)"

definition getParam :: "(string \<times> jsval) list \<Rightarrow> string \<Rightarrow> jsval" where
  "getParam ps k = (case map_of ps k of None \<Rightarrow> JUndefined | Some v \<Rightarrow> v)"

datatype RecoveryAction = RecoveryAction
  (action: string)
  (params: "(string \<times> jsval) list")
  (confidence: number)
  (description: string)
  (estimatedTime: number)
  (riskLevel: string)
  (prerequisites: "string list option")
  (alternatives: "RecoveryAction list option")

text \<open>\<^verbatim>\<open>{ ...action, confidence: c }\<close>\<close>

definition withConfidence :: "RecoveryAction \<Rightarrow> number \<Rightarrow> RecoveryAction" where
  "withConfidence a c =
     RecoveryAction (action a) (params a) c (description a) (estimatedTime a) (riskLevel a)
       (prerequisites a) (alternatives a)"

text \<open>A generator that throws returns \<open>Inl\<close> of what it throws.\<close>

record RecoveryRule =
  errorPattern :: RegExp
  actionGenerator :: "captures \<Rightarrow> ErrorSignature \<Rightarrow> string + RecoveryAction"
  priority :: int
  enabled :: bool

record RecoveryEngine =
  recoveryRules :: "RecoveryRule list"
  engineInitialized :: bool

definition newRecoveryEngine :: RecoveryEngine where
  "newRecoveryEngine = \<lparr>recoveryRules = [], engineInitialized = False\<rparr>"

definition addRecoveryRule :: "RecoveryRule \<Rightarrow> RecoveryEngine \<Rightarrow> RecoveryEngine" where
  "addRecoveryRule rule e = e\<lparr>recoveryRules := recoveryRules e @ [rule]\<rparr>"

definition installDependencyRule :: RecoveryRule where
  "installDependencyRule =
    \<lparr>errorPattern =
       re (seqs [Lit ''Cannot find module '', Cls quote, Grp (Plus notQuote), Cls quote]),
     actionGenerator = (\<lambda>m ctx. Inr
       (RecoveryAction ''install_dependency'' [(''package'', jsOfCapture (cap m 1))] (lit 0.95)
          (''Install missing package: '' @ tmpl (cap m 1)) (Num 30) ''low''
          (Some [''npm'', ''yarn'', ''pnpm''])
          (Some [RecoveryAction ''install_dev_dependency'' [(''package'', jsOfCapture (cap m 1))]
                   (lit 0.80) (''Install as dev dependency: '' @ tmpl (cap m 1)) (Num 30) ''low'' None None]))),
     priority = 1,
     enabled = True\<rparr>"

definition peerDependencyRule :: RecoveryRule where
  "peerDependencyRule =
    \<lparr>errorPattern =
       re (seqs [Lit ''requires a peer of '',
                 Grp (seqs [Plus (Neg [Ch (CHR ''@''), Space]), Lit ''@'', Plus (Neg [Space])])]),
     actionGenerator = (\<lambda>m ctx. Inr
       (RecoveryAction ''install_peer_dependency'' [(''package'', jsOfCapture (cap m 1))] (lit 0.90)
          (''Install peer dependency: '' @ tmpl (cap m 1)) (Num 30) ''low'' None None)),
     priority = 1,
     enabled = True\<rparr>"

definition envVariableRule :: RecoveryRule where
  "envVariableRule =
    \<lparr>errorPattern =
       re (seqs [Cls quote, Grp (Plus (Pos [Range (CHR ''A'') (CHR ''Z''), Ch (CHR ''_'')])),
                 Cls quote, Lit '' is not defined'']),
     actionGenerator = (\<lambda>m ctx. Inr
       (RecoveryAction ''set_env_variable''
          [(''key'', jsOfCapture (cap m 1)), (''promptUser'', JBool True), (''defaultValue'', JStr [])]
          (lit 0.85) (''Set environment variable: '' @ tmpl (cap m 1)) (Num 60) ''low''
          (Some [''user_input'']) None)),
     priority = 2,
     enabled = True\<rparr>"

definition envFileRule :: RecoveryRule where
  "envFileRule =
    \<lparr>errorPattern = re (seqs [Lit ''ENOENT'', Star Dot, Lit ''.env'']),
     actionGenerator = (\<lambda>m ctx. Inr
       (RecoveryAction ''create_env_file''
          [(''template'', JStr ''basic''), (''promptUser'', JBool True)]
          (lit 0.80) ''Create .env file with required variables'' (Num 120) ''low''
          (Some [''user_input'']) None)),
     priority = 2,
     enabled = True\<rparr>"

definition buildCacheRule :: RecoveryRule where
  "buildCacheRule =
    \<lparr>errorPattern = re (Lit ''Build failed with errors''),
     actionGenerator = (\<lambda>m ctx. Inr
       (RecoveryAction ''clear_cache_and_retry''
          [(''clearNodeModules'', JBool False), (''clearBuildOutput'', JBool True),
           (''clearPackageLock'', JBool False)]
          (lit 0.70) ''Clear build cache and retry'' (Num 60) ''low'' None
          (Some [RecoveryAction ''clear_all_cache''
                   [(''clearNodeModules'', JBool True), (''clearBuildOutput'', JBool True),
                    (''clearPackageLock'', JBool True)]
                   (lit 0.85) ''Clear all cache and reinstall dependencies'' (Num 180) ''medium'' None None]))),
     priority = 3,
     enabled = True\<rparr>"

definition typescriptRule :: RecoveryRule where
  "typescriptRule =
    \<lparr>errorPattern = re (seqs [Lit ''error TS'', Grp (Plus (Pos [Digit])), Lit '':'']),
     actionGenerator = (\<lambda>m ctx.
       let tsErrorCode = parseInt (tmpl (cap m 1)) in
       if tsErrorCode \<ge> 2300 \<and> tsErrorCode < 2400 then
         Inr (RecoveryAction ''fix_typescript_config''
                [(''errorCode'', JNum (int tsErrorCode)), (''checkModuleResolution'', JBool True)]
                (lit 0.75) (''Fix TypeScript configuration for error TS'' @ showNat tsErrorCode) (Num 120) ''medium''
                (Some [''typescript_config'']) None)
       else
         Inr (RecoveryAction ''fix_typescript_errors''
                [(''errorCode'', JNum (int tsErrorCode)), (''autoFix'', JBool False)]
                (lit 0.60) (''Fix TypeScript error TS'' @ showNat tsErrorCode) (Num 300) ''medium''
                (Some [''manual_fix'']) None)),
     priority = 2,
     enabled = True\<rparr>"

definition authTokenRule :: RecoveryRule where
  "authTokenRule =
    \<lparr>errorPattern =
       rei (Grp (Alt (seqs [Lit ''token'', Star Dot, Lit ''expired''])
                (Alt (seqs [Lit ''invalid'', Star Dot, Lit ''token''])
                     (seqs [Lit ''authentication'', Star Dot, Lit ''failed''])))),
     actionGenerator = (\<lambda>m ctx. Inr
       (RecoveryAction ''refresh_auth_token''
          [(''platform'',
            JStr (case platform (context' ctx) of Some p \<Rightarrow> orElse p ''unknown''
                  | None \<Rightarrow> ''unknown'')),
           (''reauthRequired'', JBool True)]
          (lit 0.90) ''Refresh authentication token'' (Num 60) ''low'' (Some [''user_reauth'']) None)),
     priority = 1,
     enabled = True\<rparr>"

definition networkTimeoutRule :: RecoveryRule where
  "networkTimeoutRule =
    \<lparr>errorPattern = re (seqs [Lit ''timeout of '', Grp (Plus (Pos [Digit])), Lit ''ms exceeded'']),
     actionGenerator = (\<lambda>m ctx. Inr
       (RecoveryAction ''retry_with_backoff''
          [(''maxRetries'', JNum 3), (''backoffMultiplier'', JNum 2), (''initialDelay'', JNum 5000)]
          (lit 0.80) ''Retry with exponential backoff'' (Num 30) ''low'' None None)),
     priority = 3,
     enabled = True\<rparr>"

definition permissionRule :: RecoveryRule where
  "permissionRule =
    \<lparr>errorPattern = re (Lit ''EACCES: permission denied''),
     actionGenerator = (\<lambda>m ctx. Inr
       (RecoveryAction ''fix_permissions''
          [(''targetPath'', JStr ''auto_detect''), (''permissions'', JStr ''755'')]
          (lit 0.85) ''Fix file/folder permissions'' (Num 30) ''medium'' (Some [''admin_access'']) None)),
     priority = 2,
     enabled = True\<rparr>"

definition versionRule :: RecoveryRule where
  "versionRule =
    \<lparr>errorPattern =
       re (seqs [Lit ''version '', Grp (Plus (Neg [Space])), Lit '' of '',
                 Grp (Plus (Neg [Space])), Lit '' is not compatible'']),
     actionGenerator = (\<lambda>m ctx. Inr
       (RecoveryAction ''upgrade_dependency''
          [(''package'', jsOfCapture (cap m 2)), (''targetVersion'', JStr ''latest''),
           (''checkCompatibility'', JBool True)]
          (lit 0.75) (''Upgrade '' @ tmpl (cap m 2) @ '' to compatible version'') (Num 120) ''medium'' None
          (Some [RecoveryAction ''downgrade_dependency''
                   [(''package'', jsOfCapture (cap m 2)), (''targetVersion'', JStr ''compatible''),
                    (''checkCompatibility'', JBool True)]
                   (lit 0.70) (''Downgrade '' @ tmpl (cap m 2) @ '' to compatible version'') (Num 120)
                   ''medium'' None None]))),
     priority = 2,
     enabled = True\<rparr>"

definition setupRecoveryRules :: "RecoveryEngine \<Rightarrow> RecoveryEngine" where
  "setupRecoveryRules e =
     foldl (\<lambda>e rule. addRecoveryRule rule e) e
       [installDependencyRule, peerDependencyRule, envVariableRule, envFileRule, buildCacheRule,
        typescriptRule, authTokenRule, networkTimeoutRule, permissionRule, versionRule]"

definition initializeEngine :: "RecoveryEngine \<Rightarrow> RecoveryEngine" where
  "initializeEngine e = (setupRecoveryRules e)\<lparr>engineInitialized := True\<rparr>"

text \<open>
  \<open>compatibilityMap\<close> is an object literal. A lookup \<^verbatim>\<open>obj[key]\<close> reads the
  object's own entry for the key and, when there is none, the member of that name which
  every object inherits from \<^verbatim>\<open>Object.prototype\<close>: a function, and for
  \<^verbatim>\<open>__proto__\<close> the prototype object itself. Such a member is truthy, and as a
  factor of a product it converts to \<^verbatim>\<open>NaN\<close>.
\<close>

datatype member = Own number | Inherited

definition objectPrototype :: "string list" where
  "objectPrototype =
     [''constructor'', ''__defineGetter__'', ''__defineSetter__'', ''hasOwnProperty'',
      ''__lookupGetter__'', ''__lookupSetter__'', ''isPrototypeOf'', ''propertyIsEnumerable'',
      ''toString'', ''valueOf'', ''__proto__'', ''toLocaleString'']"

definition getMember :: "(string \<times> number) list \<Rightarrow> string \<Rightarrow> member option" where
  "getMember obj k =
     (case map_of obj k of
        Some v \<Rightarrow> Some (Own v)
      | None \<Rightarrow> if k \<in> set objectPrototype then Some Inherited else None)"

fun mulMember :: "number \<Rightarrow> member \<Rightarrow> number" where
  "mulMember c (Own v) = mul c v"
| "mulMember c Inherited = NaN"

definition checkFrameworkCompatibility :: "string \<Rightarrow> jsval \<Rightarrow> member" where
  "checkFrameworkCompatibility fw packageName =
     (case getMember [(''react'', lit 1.0), (''vue'', lit 1.0), (''angular'', lit 1.0),
                      (''next'', lit 1.0), (''nuxt'', lit 1.0)] fw of
        Some (Own v) \<Rightarrow> if truthyNumber v then Own v else Own (lit 0.8)
      | Some Inherited \<Rightarrow> Inherited
      | None \<Rightarrow> Own (lit 0.8))"

definition severityFactor :: "severity \<Rightarrow> number" where
  "severityFactor s =
     (case s of critical \<Rightarrow> lit 0.9 | high \<Rightarrow> lit 1.0 | medium \<Rightarrow> lit 1.1 | low \<Rightarrow> lit 1.2)"

definition adjustConfidence :: "RecoveryAction \<Rightarrow> ErrorSignature \<Rightarrow> number" where
  "adjustConfidence a ctx =
     (let c = confidence a;
          c = mul c (severityFactor (severity ctx));
          c = (case framework (context' ctx) of
                 Some fw \<Rightarrow>
                   if fw \<noteq> [] \<and> truthy (getParam (params a) ''package'')
                   then mulMember c
                          (checkFrameworkCompatibility fw (getParam (params a) ''package''))
                   else c
               | None \<Rightarrow> c)
      in mathMax (lit 0.1) (mathMin (lit 1.0) c))"

definition getGenericRecoveryAction :: "ErrorSignature \<Rightarrow> RecoveryAction" where
  "getGenericRecoveryAction errorSignature =
     RecoveryAction ''generic_retry'' [(''maxRetries'', JNum 2), (''delay'', JNum 5000)] (lit 0.30)
       ''Generic retry with delay'' (Num 30) ''low'' None
       (Some [RecoveryAction ''manual_investigation'' [] (lit 0.50) ''Manual investigation required''
                (Num 600) ''low'' (Some [''user_intervention'']) None])"

text \<open>The loop of \<open>getRecoveryAction\<close> over the sorted rules; what a generator throws
  is caught and the loop goes on.\<close>

fun firstRule :: "RecoveryRule list \<Rightarrow> ErrorSignature \<Rightarrow> RecoveryAction option" where
  "firstRule [] errorSignature = None"
| "firstRule (rule # rest) errorSignature =
     (if \<not> enabled rule then firstRule rest errorSignature
      else case match (message errorSignature) (errorPattern rule) of
             None \<Rightarrow> firstRule rest errorSignature
           | Some m \<Rightarrow>
               (case actionGenerator rule m errorSignature of
                  Inl err \<Rightarrow> firstRule rest errorSignature
                | Inr a \<Rightarrow> Some (withConfidence a (adjustConfidence a errorSignature))))"

text \<open>\<^verbatim>\<open>[...rules].sort((a, b) => b.priority - a.priority)\<close>: a stable sort,
  the higher priority first.\<close>

definition sortedRules :: "RecoveryRule list \<Rightarrow> RecoveryRule list" where
  "sortedRules rules = sort_key (\<lambda>r. - priority r) rules"

definition getRecoveryAction :: "RecoveryEngine \<Rightarrow> ErrorSignature \<Rightarrow> RecoveryAction option" where
  "getRecoveryAction e errorSignature =
     (if \<not> engineInitialized e then None
      else case firstRule (sortedRules (recoveryRules e)) errorSignature of
             Some a \<Rightarrow> Some a
           | None \<Rightarrow> Some (getGenericRecoveryAction errorSignature))"

definition checkPackageManager :: "string \<Rightarrow> bool" where
  "checkPackageManager manager = True"

definition checkTypeScriptConfig :: bool where
  "checkTypeScriptConfig = True"

definition checkAdminAccess :: bool where
  "checkAdminAccess = True"

definition checkPrerequisite :: "string \<Rightarrow> bool" where
  "checkPrerequisite prerequisite =
     (if prerequisite = ''npm'' \<or> prerequisite = ''yarn'' \<or> prerequisite = ''pnpm''
        then checkPackageManager prerequisite
      else if prerequisite = ''typescript_config'' then checkTypeScriptConfig
      else if prerequisite = ''admin_access'' then checkAdminAccess
      else if prerequisite = ''user_input'' \<or> prerequisite = ''user_intervention''
              \<or> prerequisite = ''user_reauth''
        then True
      else True)"

definition validateActionParameters :: "RecoveryAction \<Rightarrow> bool" where
  "validateActionParameters a =
     (if lt (confidence a) (Num 0) \<or> gt (confidence a) (Num 1) then False
      else if lt (estimatedTime a) (Num 0) then False
      else if riskLevel a \<notin> set [''low'', ''medium'', ''high''] then False
      else True)"

definition validateRecoveryAction :: "RecoveryAction \<Rightarrow> bool" where
  "validateRecoveryAction a =
     (if (case prerequisites a of
            Some ps \<Rightarrow> list_ex (\<lambda>p. \<not> checkPrerequisite p) ps
          | None \<Rightarrow> False)
        then False
      else if \<not> validateActionParameters a then False
      else True)"

section \<open>The process supervisor (CommandRunner)\<close>

text \<open>
  A child process is what it does after \<^verbatim>\<open>spawn\<close>: the events it delivers to
  the handlers that \<open>execute\<close> registers, in order. \<open>Close\<close> and \<open>Error\<close> carry the
  value of \<^verbatim>\<open>Date.now()\<close> at that moment. \<open>SpawnThrows\<close> at the head of the list
  says that there is no child: the call of \<^verbatim>\<open>spawn\<close> itself throws, as it does for
  an empty command or a malformed argument. The timers only signal the child, whose answer
  is again one of its events; they are not part of the model.
\<close>

record CommandResult =
  success :: bool
  stdout :: string
  stderr :: string
  exitCode :: int
  duration :: int

datatype child_event =
    StdoutData string
  | StderrData string
  | Close "int option" "string option" int
  | Error string int
  | SpawnThrows string

datatype 'a promise = Pending | Resolved 'a | Rejected string

type_synonym processId = "nat \<times> int"

datatype runner_event =
    EmitStdout processId string string
  | EmitStderr processId string string
  | EmitCompleted processId string CommandResult
  | EmitError processId string string CommandResult

text \<open>The handle of a spawned child; the signals that the runner sends to children are
  logged in \<open>signals\<close>.\<close>

record ChildProcess =
  spawnfile :: string

text \<open>\<open>errorListener\<close> says whether a listener for \<^verbatim>\<open>'error'\<close> is registered on the
  runner: an \<^verbatim>\<open>EventEmitter\<close> throws when \<^verbatim>\<open>'error'\<close> is emitted and
  nobody listens.\<close>

record CommandRunner =
  activeProcesses :: "(processId \<times> ChildProcess) list"
  processCounter :: nat
  errorListener :: bool
  emitted :: "runner_event list"
  signals :: "(processId \<times> string) list"

definition newCommandRunner :: CommandRunner where
  "newCommandRunner =
     \<lparr>activeProcesses = [], processCounter = 0, errorListener = False, emitted = [],
      signals = []\<rparr>"

definition mapDelete :: "'k \<Rightarrow> ('k \<times> 'v) list \<Rightarrow> ('k \<times> 'v) list" where
  "mapDelete k m = filter (\<lambda>(k', v). k' \<noteq> k) m"

text \<open>The local variables of one call of \<open>execute\<close> and its promise. \<open>uncaught\<close> is the
  exception that a handler has thrown: nothing catches it, so Node reports it and the
  process of the server ends; no further event is handled.\<close>

record execution =
  stdoutAcc :: string
  stderrAcc :: string
  settled :: "CommandResult promise"
  uncaught :: "string option"

definition resolve :: "'a \<Rightarrow> 'a promise \<Rightarrow> 'a promise" where
  "resolve v p = (case p of Pending \<Rightarrow> Resolved v | _ \<Rightarrow> p)"

definition reject :: "string \<Rightarrow> 'a promise \<Rightarrow> 'a promise" where
  "reject e p = (case p of Pending \<Rightarrow> Rejected e | _ \<Rightarrow> p)"

text \<open>The handlers. In the handler of \<^verbatim>\<open>'error'\<close> the emit comes before the
  \<^verbatim>\<open>reject\<close>: without a listener the emit throws (an error whose message begins
  with \<^verbatim>\<open>Unhandled error.\<close>) and the \<^verbatim>\<open>reject\<close> is not reached.\<close>

fun handleEvent ::
  "processId \<Rightarrow> string \<Rightarrow> int \<Rightarrow> execution \<times> CommandRunner \<Rightarrow> child_event
   \<Rightarrow> execution \<times> CommandRunner" where
  "handleEvent pid cmd startTime (x, r) (StdoutData output) =
     (x\<lparr>stdoutAcc := stdoutAcc x @ output\<rparr>,
      r\<lparr>emitted := emitted r @ [EmitStdout pid cmd output]\<rparr>)"
| "handleEvent pid cmd startTime (x, r) (StderrData output) =
     (x\<lparr>stderrAcc := stderrAcc x @ output\<rparr>,
      r\<lparr>emitted := emitted r @ [EmitStderr pid cmd output]\<rparr>)"
| "handleEvent pid cmd startTime (x, r) (Close code signal now) =
     (let result = \<lparr>success = (code = Some 0),
                     stdout = trim (stdoutAcc x),
                     stderr = trim (stderrAcc x),
                     exitCode = (case code of None \<Rightarrow> 0 | Some c \<Rightarrow> c),
                     duration = now - startTime\<rparr>
      in (x\<lparr>settled := resolve result (settled x)\<rparr>,
          r\<lparr>activeProcesses := mapDelete pid (activeProcesses r),
            emitted := emitted r @ [EmitCompleted pid cmd result]\<rparr>))"
| "handleEvent pid cmd startTime (x, r) (Error msg now) =
     (let result = \<lparr>success = False,
                     stdout = trim (stdoutAcc x),
                     stderr = trim (stderrAcc x) @ (if stderrAcc x \<noteq> [] then [newline] else [])
                              @ msg,
                     exitCode = - 1,
                     duration = now - startTime\<rparr>;
          r' = r\<lparr>activeProcesses := mapDelete pid (activeProcesses r)\<rparr>
      in if errorListener r then
           (x\<lparr>settled := reject msg (settled x)\<rparr>,
            r'\<lparr>emitted := emitted r' @ [EmitError pid cmd msg result]\<rparr>)
         else
           (x\<lparr>uncaught := Some ''Unhandled error.''\<rparr>, r'))"
| "handleEvent pid cmd startTime (x, r) (SpawnThrows e) = (x, r)"

text \<open>An event reaches its handler as long as the process is alive.\<close>

definition deliver ::
  "processId \<Rightarrow> string \<Rightarrow> int \<Rightarrow> execution \<times> CommandRunner \<Rightarrow> child_event
   \<Rightarrow> execution \<times> CommandRunner" where
  "deliver pid cmd startTime xr event =
     (if uncaught (fst xr) \<noteq> None then xr else handleEvent pid cmd startTime xr event)"

text \<open>
  \<open>execute\<close> and the inner promise of \<open>executeWithStream\<close> register the same handlers;
  \<open>startTime\<close> is \<^verbatim>\<open>Date.now()\<close> at the call. The process identifier is made before
  the promise. \<^verbatim>\<open>spawn\<close> is called inside the executor of the promise: what it
  throws rejects the promise of \<open>execute\<close>, and for \<open>executeWithStream\<close> the outer promise
  (\<open>Inl\<close>), before the child is registered or a handler attached.
\<close>

definition spawnAndRun ::
  "string \<Rightarrow> int \<Rightarrow> child_event list \<Rightarrow> CommandRunner
   \<Rightarrow> processId \<times> execution \<times> CommandRunner" where
  "spawnAndRun cmd startTime events r =
     (let counter = Suc (processCounter r);
          pid = (counter, startTime);
          r0 = r\<lparr>processCounter := counter\<rparr>;
          x0 = \<lparr>stdoutAcc = [], stderrAcc = [], settled = Pending, uncaught = None\<rparr>
      in case events of
           SpawnThrows e # rest \<Rightarrow> (pid, x0\<lparr>settled := Rejected e\<rparr>, r0)
         | _ \<Rightarrow>
             (let r1 = r0\<lparr>activeProcesses :=
                           mapSet pid \<lparr>spawnfile = cmd\<rparr> (activeProcesses r0)\<rparr>;
                  (x, r2) = foldl (deliver pid cmd startTime) (x0, r1) events
              in (pid, x, r2)))"

definition execute ::
  "string \<Rightarrow> int \<Rightarrow> child_event list \<Rightarrow> CommandRunner
   \<Rightarrow> CommandResult promise \<times> CommandRunner" where
  "execute cmd startTime events r =
     (let (pid, x, r') = spawnAndRun cmd startTime events r in (settled x, r'))"

definition executeWithStream ::
  "string \<Rightarrow> int \<Rightarrow> child_event list \<Rightarrow> CommandRunner
   \<Rightarrow> (string + processId \<times> CommandResult promise) \<times> CommandRunner" where
  "executeWithStream cmd startTime events r =
     (let (pid, x, r') = spawnAndRun cmd startTime events r
      in case events of
           SpawnThrows e # rest \<Rightarrow> (Inl e, r')
         | _ \<Rightarrow> (Inr (pid, settled x), r'))"


fun isData :: "child_event \<Rightarrow> bool" where
  "isData (StdoutData s) = True"
| "isData (StderrData s) = True"
| "isData (Close code signal now) = False"
| "isData (Error msg now) = False"
| "isData (SpawnThrows e) = False"

text \<open>The events that the runner emits for the output of a child.\<close>

definition dataEvents :: "processId \<Rightarrow> string \<Rightarrow> child_event list \<Rightarrow> runner_event list" where
  "dataEvents pid cmd events =
     concat (map (\<lambda>e. case e of StdoutData s \<Rightarrow> [EmitStdout pid cmd s]
                            | StderrData s \<Rightarrow> [EmitStderr pid cmd s]
                            | _ \<Rightarrow> []) events)"

definition stdoutOf :: "child_event list \<Rightarrow> string" where
  "stdoutOf events = concat (map (\<lambda>e. case e of StdoutData s \<Rightarrow> s | _ \<Rightarrow> []) events)"

definition stderrOf :: "child_event list \<Rightarrow> string" where
  "stderrOf events = concat (map (\<lambda>e. case e of StderrData s \<Rightarrow> s | _ \<Rightarrow> []) events)"

section \<open>The deployment workflow (DeploymentWorkflow)\<close>

text \<open>
  The record store is an external collaborator: \<open>getProject\<close> answers with a project,
  with none, or by throwing; \<open>updateTask\<close> says for an update whether the store rejects it
  (and with what); \<open>writes\<close> logs the updates the store has accepted. Of a project only
  the path is read; time stamps are left out of tasks and updates.
\<close>

record Project =
  path :: string

datatype TaskPhase = detecting | installing | building | deploying

record Task =
  id' :: string
  projectId' :: string
  status :: string
  progress :: nat
  logs :: string
  error' :: "string option"
  phase :: "TaskPhase option"

record TaskUpdate =
  newStatus :: string
  newProgress :: "nat option"
  newError :: "string option"
  newPhase :: "TaskPhase option"

record DatabaseService =
  getProject :: "string \<Rightarrow> string + Project option"
  updateTask :: "string \<Rightarrow> TaskUpdate \<Rightarrow> string option"
  writes :: "(string \<times> TaskUpdate) list"

record DeploymentOptions =
  projectId :: string
  platform' :: string
  envVars :: "(string \<times> string) list"
  buildCommand :: "string option"

datatype workflow_event =
    TaskLog string string
  | TaskStatus string string "nat option" "TaskPhase option"
  | TaskRecovery string ErrorSignature RecoveryAction
  | TaskCancelled string

text \<open>
  The workflow object, and with it the environment of a run: \<open>children\<close> lists what the
  child processes spawned next will do, one entry for each spawn, and a child spawned when
  the list is empty never delivers an event; \<open>spawned\<close> logs the commands handed to the
  runner; \<open>clock\<close> is \<^verbatim>\<open>Date.now()\<close>. \<open>emitted'\<close> logs the workflow's own events.
\<close>

record DeploymentWorkflow =
  database :: DatabaseService
  commandRunner :: CommandRunner
  errorDetector :: ErrorDetector
  recoveryEngine :: RecoveryEngine
  activeTasks :: "(string \<times> Task) list"
  emitted' :: "workflow_event list"
  children :: "child_event list list"
  spawned :: "(string \<times> string list) list"
  clock :: int

text \<open>How an awaited call ends: it returns, it throws, its promise never settles, or the
  process of the server ends on an uncaught exception before it settles.\<close>

datatype 'a outcome = Returns 'a | Throws string | Hangs | Exits string

definition emit :: "workflow_event \<Rightarrow> DeploymentWorkflow \<Rightarrow> DeploymentWorkflow" where
  "emit e w = w\<lparr>emitted' := emitted' w @ [e]\<rparr>"

text \<open>\<^verbatim>\<open>await this.commandRunner.execute(command, args, ...)\<close>\<close>

definition awaitExecute ::
  "string \<Rightarrow> string list \<Rightarrow> DeploymentWorkflow \<Rightarrow> CommandResult outcome \<times> DeploymentWorkflow" where
  "awaitExecute cmd args w =
     (let (pid, x, r) = spawnAndRun cmd (clock w)
                          (case children w of [] \<Rightarrow> [] | evs # rest \<Rightarrow> evs) (commandRunner w);
          w' = w\<lparr>commandRunner := r, children := tl (children w),
                 spawned := spawned w @ [(cmd, args)]\<rparr>
      in case settled x of
           Resolved result \<Rightarrow> (Returns result, w')
         | Rejected e \<Rightarrow> (Throws e, w')
         | Pending \<Rightarrow> (case uncaught x of Some e \<Rightarrow> (Exits e, w') | None \<Rightarrow> (Hangs, w')))"

definition applyUpdate :: "TaskUpdate \<Rightarrow> Task \<Rightarrow> Task" where
  "applyUpdate u t =
     t\<lparr>status := newStatus u,
       progress := (case newProgress u of None \<Rightarrow> progress t | Some p \<Rightarrow> p),
       error' := (case newError u of None \<Rightarrow> error' t | Some e \<Rightarrow> Some e),
       phase := (case newPhase u of None \<Rightarrow> phase t | Some p \<Rightarrow> Some p)\<rparr>"

definition updateTaskStatus ::
  "string \<Rightarrow> string \<Rightarrow> nat option \<Rightarrow> string option \<Rightarrow> TaskPhase option \<Rightarrow> DeploymentWorkflow
   \<Rightarrow> unit outcome \<times> DeploymentWorkflow" where
  "updateTaskStatus taskId st prog err ph w =
     (let updates = \<lparr>newStatus = st, newProgress = prog,
                      newError = (case err of Some e \<Rightarrow> if e \<noteq> [] then Some e else None
                                  | None \<Rightarrow> None),
                      newPhase = ph\<rparr>
      in case updateTask (database w) taskId updates of
           Some e \<Rightarrow> (Throws e, w)
         | None \<Rightarrow>
             (let w1 = w\<lparr>database := (database w)\<lparr>writes := writes (database w)
                                                          @ [(taskId, updates)]\<rparr>\<rparr>;
                  w2 = (case map_of (activeTasks w1) taskId of
                          None \<Rightarrow> w1
                        | Some task \<Rightarrow>
                            w1\<lparr>activeTasks :=
                                 mapSet taskId (applyUpdate updates task) (activeTasks w1)\<rparr>)
              in (Returns (), emit (TaskStatus taskId st prog ph) w2)))"

text \<open>What reading a property of \<^verbatim>\<open>undefined\<close> throws.\<close>

definition typeError :: "string \<Rightarrow> string" where
  "typeError property =
     ''Cannot read properties of undefined (reading '' @ [apos] @ property @ [apos] @ '')''"

definition executeRecoveryAction ::
  "string \<Rightarrow> RecoveryAction \<Rightarrow> DeploymentWorkflow \<Rightarrow> unit outcome \<times> DeploymentWorkflow" where
  "executeRecoveryAction taskId a w =
     (case map_of (activeTasks w) taskId of
        None \<Rightarrow> (Throws (typeError ''projectId''), w)
      | Some task \<Rightarrow>
          (case getProject (database w) (projectId' task) of
             Inl e \<Rightarrow> (Throws e, w)
           | Inr None \<Rightarrow> (Throws ''Project not found'', w)
           | Inr (Some project) \<Rightarrow>
               (let run = (\<lambda>cmd args w0.
                      case awaitExecute cmd args w0 of
                        (Returns result, w') \<Rightarrow> (Returns (), w')
                      | (Throws e, w') \<Rightarrow> (Throws e, w')
                      | (Hangs, w') \<Rightarrow> (Hangs, w')
                      | (Exits e, w') \<Rightarrow> (Exits e, w'))
                in if action a = ''install_dependency'' then
                     run ''npm'' [''install'', jsToString (getParam (params a) ''package'')]
                       (emit (TaskLog taskId (''Installing missing dependency: ''
                                @ jsToString (getParam (params a) ''package''))) w)
                   else if action a = ''clear_cache'' then
                     run ''npm'' [''run'', ''clean'']
                       (emit (TaskLog taskId ''Clearing build cache...'') w)
                   else if action a = ''retry_with_clean'' then
                     run ''rm'' [''-rf'', ''node_modules'', ''dist'', ''build'']
                       (emit (TaskLog taskId ''Cleaning and retrying...'') w)
                   else (Returns (), w))))"

text \<open>\<^verbatim>\<open>buildCommand.split(' ')[0]\<close> and \<^verbatim>\<open>buildCommand.split(' ').slice(1)\<close>\<close>

definition firstWord :: "string \<Rightarrow> string" where
  "firstWord cmdline = (case split (CHR '' '') cmdline of [] \<Rightarrow> [] | c # args \<Rightarrow> c)"

definition otherWords :: "string \<Rightarrow> string list" where
  "otherWords cmdline = (case split (CHR '' '') cmdline of [] \<Rightarrow> [] | c # args \<Rightarrow> args)"

lemma awaitExecute_children:
  "length (children (snd (awaitExecute cmd args w))) \<le> length (children w)"
  by (simp add: awaitExecute_def split_beta Let_def split: promise.splits option.splits)

lemma awaitExecute_Returns:
  assumes "awaitExecute cmd args w = (Returns result, w')"
  shows "length (children w') < length (children w)"
proof (cases "children w")
  case Nil
  then have "fst (awaitExecute cmd args w) = Hangs"
    by (simp add: awaitExecute_def spawnAndRun_def Let_def)
  with assms show ?thesis by simp
next
  case (Cons evs rest)
  with assms show ?thesis
    by (auto simp: awaitExecute_def split_beta Let_def split: promise.splits option.splits)
qed

lemma emit_children [simp]: "children (emit e w) = children w"
  by (simp add: emit_def)

lemma executeRecoveryAction_children:
  "length (children (snd (executeRecoveryAction taskId a w))) \<le> length (children w)"
proof -
  have run: "\<And>cmd args w0. length (children (snd (case awaitExecute cmd args w0 of
                        (Returns result, w') \<Rightarrow> (Returns (), w')
                      | (Throws e, w') \<Rightarrow> (Throws e, w')
                      | (Hangs, w') \<Rightarrow> (Hangs, w')
                      | (Exits e, w') \<Rightarrow> (Exits e, w')))) \<le> length (children w0)"
    using awaitExecute_children
    by (auto split: prod.splits outcome.splits) (metis snd_conv)+
  show ?thesis
    unfolding executeRecoveryAction_def Let_def
    by (auto split: option.splits sum.splits intro: order_trans [OF run])
qed

lemma awaitExecute_Returns_sym:
  "(Returns result, w') = awaitExecute cmd args w \<Longrightarrow> length (children w') < length (children w)"
  using awaitExecute_Returns [of cmd args w result w'] by simp

lemma executeRecoveryAction_children_sym:
  "(out, w') = executeRecoveryAction taskId a w \<Longrightarrow> length (children w') \<le> length (children w)"
  using executeRecoveryAction_children [of taskId a w] by (metis snd_conv)

text \<open>
  \<open>jsonBuildCommand\<close> stands for \<^verbatim>\<open>JSON.parse(text).buildCommand\<close>: it throws, or
  gives the member when there is one. The recursion of \<open>buildProject\<close> ends because every
  retry has consumed a child of the environment.
\<close>

function buildProject ::
  "(string \<Rightarrow> string) \<Rightarrow> (string \<Rightarrow> string + string option) \<Rightarrow> string \<Rightarrow> DeploymentOptions
   \<Rightarrow> DeploymentWorkflow \<Rightarrow> unit outcome \<times> DeploymentWorkflow" where
  "buildProject sha256hex jsonBuildCommand taskId options w =
     (case getProject (database w) (projectId options) of
        Inl e \<Rightarrow> (Throws e, w)
      | Inr None \<Rightarrow> (Throws ''Project not found'', w)
      | Inr (Some project) \<Rightarrow>
          (case map_of (activeTasks w) taskId of
             None \<Rightarrow> (Throws (typeError ''logs''), w)
           | Some task \<Rightarrow>
               (case jsonBuildCommand (orElse (logs task) ''{}'') of
                  Inl e \<Rightarrow> (Throws e, w)
                | Inr metadataBuildCommand \<Rightarrow>
                    (let cmdline =
                           orElse (case buildCommand options of None \<Rightarrow> [] | Some c \<Rightarrow> c)
                             (orElse (case metadataBuildCommand of None \<Rightarrow> [] | Some c \<Rightarrow> c)
                                ''npm run build'');
                         w1 = emit (TaskLog taskId (''Building project: '' @ cmdline)) w
                     in case awaitExecute (firstWord cmdline) (otherWords cmdline) w1 of
                          (Throws e, w2) \<Rightarrow> (Throws e, w2)
                        | (Hangs, w2) \<Rightarrow> (Hangs, w2)
                        | (Exits e, w2) \<Rightarrow> (Exits e, w2)
                        | (Returns result, w2) \<Rightarrow>
                            if \<not> success result then
                              (case detectError sha256hex (errorDetector w2) (stderr result)
                                      (stdout result) of
                                 None \<Rightarrow> (Throws (''Build failed: '' @ stderr result), w2)
                               | Some errorSignature \<Rightarrow>
                                   (case getRecoveryAction (recoveryEngine w2) errorSignature of
                                      None \<Rightarrow> (Throws (''Build failed: '' @ stderr result), w2)
                                    | Some recoveryAction \<Rightarrow>
                                        if gt (confidence recoveryAction) (lit 0.7) then
                                          (let w3 = emit (TaskRecovery taskId errorSignature
                                                            recoveryAction) w2
                                           in if gt (confidence recoveryAction) (lit 0.9) then
                                                (case executeRecoveryAction taskId recoveryAction w3 of
                                                   (Returns u, w4) \<Rightarrow>
                                                     buildProject sha256hex jsonBuildCommand taskId
                                                       options w4
                                                 | (Throws e, w4) \<Rightarrow> (Throws e, w4)
                                                 | (Hangs, w4) \<Rightarrow> (Hangs, w4)
                                                 | (Exits e, w4) \<Rightarrow> (Exits e, w4))
                                              else (Throws (''Build failed: '' @ stderr result), w3))
                                        else (Throws (''Build failed: '' @ stderr result), w2)))
                            else
                              (case updateTaskStatus taskId ''running'' (Some 60) None None w2 of
                                 (Returns u, w3) \<Rightarrow>
                                   (Returns (), emit (TaskLog taskId ''Build completed successfully'') w3)
                               | (Throws e, w3) \<Rightarrow> (Throws e, w3)
                               | (Hangs, w3) \<Rightarrow> (Hangs, w3)
                               | (Exits e, w3) \<Rightarrow> (Exits e, w3))))))"
  by pat_completeness auto
termination
  by (relation "measure (\<lambda>(sha256hex, jsonBuildCommand, taskId, options, w).
                   length (children w))")
     (auto dest!: awaitExecute_Returns_sym executeRecoveryAction_children_sym)

declare buildProject.simps [simp del]


section \<open>Outputs of the same shape\<close>

text \<open>The first two normalisation steps of \<open>generateErrorHash\<close>.\<close>

abbreviation (input) collapse :: "string \<Rightarrow> string" where
  "collapse \<equiv> replaceAll (Plus (Pos [Digit])) ''0''"

abbreviation (input) paths :: "string \<Rightarrow> string" where
  "paths \<equiv> replaceAll (Seq (Lit ''/'') (Plus (Neg [Space]))) ''/path''"

text \<open>
  Two outputs have the same shape when one is obtained from the other by replacing runs of
  digits by runs of digits and path-like tokens (a slash and the characters up to the next
  white space) by path-like tokens, any number of times.
\<close>

inductive sameShape :: "string \<Rightarrow> string \<Rightarrow> bool" where
  same: "sameShape s s"
| digits: "ds \<noteq> [] \<Longrightarrow> ds' \<noteq> [] \<Longrightarrow> \<forall>c\<in>set ds. isDigit c \<Longrightarrow> \<forall>c\<in>set ds'. isDigit c
           \<Longrightarrow> sameShape (a @ ds @ b) (a @ ds' @ b)"
| path: "p \<noteq> [] \<Longrightarrow> p' \<noteq> [] \<Longrightarrow> \<forall>c\<in>set p. \<not> isSpace c \<Longrightarrow> \<forall>c\<in>set p'. \<not> isSpace c
           \<Longrightarrow> b = [] \<or> isSpace (hd b)
           \<Longrightarrow> sameShape (a @ CHR ''/'' # p @ b) (a @ CHR ''/'' # p' @ b)"
| step: "sameShape s t \<Longrightarrow> sameShape t u \<Longrightarrow> sameShape s u"

section \<open>Example inputs\<close>

definition leftPadMessage :: string where
  "leftPadMessage = ''Cannot find module '' @ [apos] @ ''left-pad'' @ [apos]"

definition exampleSignature :: "string \<Rightarrow> severity \<Rightarrow> string option \<Rightarrow> ErrorSignature" where
  "exampleSignature msg sev fw =
     \<lparr>type = build_error, hash = ''0000000000000000'', message = msg, file' = None, line = None,
      command = ''unknown'', exitCode = 1,
      context' = \<lparr>framework = fw, nodeVersion = None, dependencies = None, platform = None\<rparr>,
      severity = sev, suggestions = []\<rparr>"

definition peerMessage :: string where
  "peerMessage = ''requires a peer of x@1''"


definition envMessage :: string where
  "envMessage = [CHR 0x27] @ ''API_KEY'' @ [CHR 0x27] @ '' is not defined''"

text \<open>The actions that the rules generate for these messages, before the adjustment of the
  confidence.\<close>

definition installLeftPad :: RecoveryAction where
  "installLeftPad =
     RecoveryAction ''install_dependency'' [(''package'', JStr ''left-pad'')] (lit 0.95)
       ''Install missing package: left-pad'' (Num 30) ''low''
       (Some [''npm'', ''yarn'', ''pnpm''])
       (Some [RecoveryAction ''install_dev_dependency'' [(''package'', JStr ''left-pad'')]
                (lit 0.80) ''Install as dev dependency: left-pad'' (Num 30) ''low'' None None])"

definition installPeer :: RecoveryAction where
  "installPeer =
     RecoveryAction ''install_peer_dependency'' [(''package'', JStr ''x@1'')] (lit 0.90)
       ''Install peer dependency: x@1'' (Num 30) ''low'' None None"

definition setApiKey :: RecoveryAction where
  "setApiKey =
     RecoveryAction ''set_env_variable''
       [(''key'', JStr ''API_KEY''), (''promptUser'', JBool True), (''defaultValue'', JStr [])]
       (lit 0.85) ''Set environment variable: API_KEY'' (Num 60) ''low''
       (Some [''user_input'']) None"


text \<open>A workflow with one project, one active task and the initialised classifier and
  engine, whose record store accepts every update.\<close>

definition exampleTask :: Task where
  "exampleTask =
     \<lparr>id' = ''t1'', projectId' = ''p1'', status = ''running'', progress = 30, logs = [],
      error' = None, phase = Some building\<rparr>"

definition exampleWorkflow :: DeploymentWorkflow where
  "exampleWorkflow =
     \<lparr>database =
        \<lparr>getProject = (\<lambda>i. if i = ''p1'' then Inr (Some \<lparr>path = ''/srv/app''\<rparr>) else Inr None),
         updateTask = (\<lambda>i u. None),
         writes = []\<rparr>,
      commandRunner = newCommandRunner,
      errorDetector = initializeDetector newErrorDetector,
      recoveryEngine = initializeEngine newRecoveryEngine,
      activeTasks = [(''t1'', exampleTask)],
      emitted' = [],
      children = [],
      spawned = [],
      clock = 0\<rparr>"

definition exampleOptions :: DeploymentOptions where
  "exampleOptions = \<lparr>projectId = ''p1'', platform' = ''vercel'', envVars = [], buildCommand = None\<rparr>"

text \<open>\<^verbatim>\<open>JSON.parse('{}').buildCommand\<close> is \<^verbatim>\<open>undefined\<close>.\<close>

definition noMetadata :: "string \<Rightarrow> string + string option" where
  "noMetadata text = Inr None"


text \<open>What \<^verbatim>\<open>spawn\<close> throws for an empty command.\<close>

definition emptyFileError :: string where
  "emptyFileError =
     ''The argument '' @ [apos] @ ''file'' @ [apos] @ '' cannot be empty. Received ''
     @ [apos, apos]"


section \<open>Properties of numbers\<close>

lemma floor_log2:
  assumes "2 powi k \<le> \<bar>x\<bar>" and "\<bar>x\<bar> < 2 powi (k + 1)"
  shows "\<lfloor>log 2 \<bar>x\<bar>\<rfloor> = k"
proof -
  have pos: "0 < \<bar>x\<bar>" using assms(1) by (smt (verit) zero_less_power_int)
  have a: "(2::real) powi k = 2 powr (of_int k)"
    by (simp add: powr_real_of_int')
  have b: "(2::real) powi (k + 1) = 2 powr (of_int (k + 1))"
    using powr_real_of_int' [of "2::real" "k + 1"] by simp
  have "of_int k \<le> log 2 \<bar>x\<bar>"
    using assms(1) pos unfolding a by (simp add: le_log_iff)
  moreover have "log 2 \<bar>x\<bar> < of_int (k + 1)"
    using assms(2) pos unfolding b by (simp add: log_less_iff)
  ultimately show ?thesis by (simp add: floor_eq_iff)
qed

text \<open>The rounding of a number whose binary exponent is known.\<close>

lemma double_eval:
  assumes "2 powi k \<le> \<bar>x\<bar>" and "\<bar>x\<bar> < 2 powi (k + 1)"
  shows "double x = of_int (roundEven (x / 2 powi (k - 52))) * 2 powi (k - 52)"
proof -
  have "x \<noteq> 0" using assms(1) by (smt (verit) zero_less_power_int)
  then show ?thesis unfolding double_def floor_log2 [OF assms] by (simp add: Let_def)
qed

text \<open>The doubles that the literals of the program denote, each literal as it is written and
  as a fraction in lowest terms, and the roundings of these doubles and of their products
  that the examples need. A double is its own rounding.\<close>

lemma double_0_95:
  "double 0.95 = 4278419646001971 / 4503599627370496"
  "double (19 / 20) = 4278419646001971 / 4503599627370496"
  "double (4278419646001971 / 4503599627370496) = 4278419646001971 / 4503599627370496"
  by (subst double_eval [where k = "-1"]; simp add: roundEven_def power_int_minus)+

lemma double_0_9:
  "double 0.9 = 8106479329266893 / 9007199254740992"
  "double (9 / 10) = 8106479329266893 / 9007199254740992"
  "double (8106479329266893 / 9007199254740992) = 8106479329266893 / 9007199254740992"
  by (subst double_eval [where k = "-1"]; simp add: roundEven_def power_int_minus)+

lemma double_0_85:
  "double 0.85 = 7656119366529843 / 9007199254740992"
  "double (17 / 20) = 7656119366529843 / 9007199254740992"
  "double (7656119366529843 / 9007199254740992) = 7656119366529843 / 9007199254740992"
  by (subst double_eval [where k = "-1"]; simp add: roundEven_def power_int_minus)+

lemma double_0_8:
  "double 0.8 = 3602879701896397 / 4503599627370496"
  "double (4 / 5) = 3602879701896397 / 4503599627370496"
  "double (3602879701896397 / 4503599627370496) = 3602879701896397 / 4503599627370496"
  by (subst double_eval [where k = "-1"]; simp add: roundEven_def power_int_minus)+

lemma double_0_75:
  "double 0.75 = 3 / 4"
  "double (3 / 4) = 3 / 4"
  by (subst double_eval [where k = "-1"]; simp add: roundEven_def power_int_minus)+

lemma double_0_7:
  "double 0.7 = 3152519739159347 / 4503599627370496"
  "double (7 / 10) = 3152519739159347 / 4503599627370496"
  "double (3152519739159347 / 4503599627370496) = 3152519739159347 / 4503599627370496"
  by (subst double_eval [where k = "-1"]; simp add: roundEven_def power_int_minus)+

lemma double_0_6:
  "double 0.6 = 5404319552844595 / 9007199254740992"
  "double (3 / 5) = 5404319552844595 / 9007199254740992"
  "double (5404319552844595 / 9007199254740992) = 5404319552844595 / 9007199254740992"
  by (subst double_eval [where k = "-1"]; simp add: roundEven_def power_int_minus)+

lemma double_0_5:
  "double 0.5 = 1 / 2"
  "double (1 / 2) = 1 / 2"
  by (subst double_eval [where k = "-1"]; simp add: roundEven_def power_int_minus)+

lemma double_0_3:
  "double 0.3 = 5404319552844595 / 18014398509481984"
  "double (3 / 10) = 5404319552844595 / 18014398509481984"
  "double (5404319552844595 / 18014398509481984) = 5404319552844595 / 18014398509481984"
  by (subst double_eval [where k = "-2"]; simp add: roundEven_def power_int_minus)+

lemma double_0_1:
  "double 0.1 = 3602879701896397 / 36028797018963968"
  "double (1 / 10) = 3602879701896397 / 36028797018963968"
  "double (3602879701896397 / 36028797018963968) = 3602879701896397 / 36028797018963968"
  by (subst double_eval [where k = "-4"]; simp add: roundEven_def power_int_minus)+

lemma double_1:
  "double 1 = 1"
  by (subst double_eval [where k = "0"]; simp add: roundEven_def power_int_minus)+

lemma double_1_1:
  "double 1.1 = 2476979795053773 / 2251799813685248"
  "double (11 / 10) = 2476979795053773 / 2251799813685248"
  "double (2476979795053773 / 2251799813685248) = 2476979795053773 / 2251799813685248"
  by (subst double_eval [where k = "0"]; simp add: roundEven_def power_int_minus)+

lemma double_1_2:
  "double 1.2 = 5404319552844595 / 4503599627370496"
  "double (6 / 5) = 5404319552844595 / 4503599627370496"
  "double (5404319552844595 / 4503599627370496) = 5404319552844595 / 4503599627370496"
  by (subst double_eval [where k = "0"]; simp add: roundEven_def power_int_minus)+

lemma double_0_935:
  "double 0.935 = 2105432825795707 / 2251799813685248"
  "double (187 / 200) = 2105432825795707 / 2251799813685248"
  "double (2105432825795707 / 2251799813685248) = 2105432825795707 / 2251799813685248"
  by (subst double_eval [where k = "-1"]; simp add: roundEven_def power_int_minus)+

lemma double_0_7920000000000001:
  "double 0.7920000000000001 = 7133701809754867 / 9007199254740992"
  "double (7920000000000001 / 10000000000000000) = 7133701809754867 / 9007199254740992"
  "double (7133701809754867 / 9007199254740992) = 7133701809754867 / 9007199254740992"
  by (subst double_eval [where k = "-1"]; simp add: roundEven_def power_int_minus)+

lemma double_0_9900000000000001:
  "double 0.9900000000000001 = 8917127262193583 / 9007199254740992"
  "double (9900000000000001 / 10000000000000000) = 8917127262193583 / 9007199254740992"
  "double (8917127262193583 / 9007199254740992) = 8917127262193583 / 9007199254740992"
  by (subst double_eval [where k = "-1"]; simp add: roundEven_def power_int_minus)+

lemma double_2304:
  "double 2304 = 2304"
  by (subst double_eval [where k = "11"]; simp add: roundEven_def power_int_minus)+

lemmas double_values =
  double_0_95 double_0_9 double_0_85 double_0_8 double_0_75
  double_0_7 double_0_6 double_0_5 double_0_3 double_0_1
  double_1 double_1_1 double_1_2 double_0_935 double_0_7920000000000001
  double_0_9900000000000001 double_2304

lemma double_0_85_times_1_1:
  "double (18964052979414312882218594247639 / 20282409603651670423947251286016) = 2105432825795707 / 2251799813685248"
  by (subst double_eval [where k = "-1"]) (simp_all add: roundEven_def power_int_minus)

lemma double_0_9_times_1_1:
  "double (20079585507615155836399603637289 / 20282409603651670423947251286016) = 8917127262193583 / 9007199254740992"
  by (subst double_eval [where k = "-1"]) (simp_all add: roundEven_def power_int_minus)

lemma double_0_9900000000000001_times_0_8:
  "double (32127336812184251049607224220451 / 40564819207303340847894502572032) = 7133701809754867 / 9007199254740992"
  by (subst double_eval [where k = "-1"]) (simp_all add: roundEven_def power_int_minus)

lemmas double_products =
  double_0_85_times_1_1 double_0_9_times_1_1 double_0_9900000000000001_times_0_8

section \<open>Properties of the process supervisor\<close>

lemma fold_data:
  assumes "\<forall>e\<in>set pre. isData e" and "uncaught x = None"
  shows "foldl (deliver pid cmd t) (x, r) pre =
     (x\<lparr>stdoutAcc := stdoutAcc x @ stdoutOf pre, stderrAcc := stderrAcc x @ stderrOf pre\<rparr>,
      r\<lparr>emitted := emitted r @ dataEvents pid cmd pre\<rparr>)"
  using assms
proof (induction pre arbitrary: x r)
  case Nil
  then show ?case by (simp add: stdoutOf_def stderrOf_def dataEvents_def)
next
  case (Cons e pre)
  from Cons.prems have rest: "\<forall>e\<in>set pre. isData e" by simp
  show ?case
  proof (cases e)
    case (StdoutData s)
    have u: "uncaught (x\<lparr>stdoutAcc := stdoutAcc x @ s\<rparr>) = None"
      using Cons.prems(2) by simp
    show ?thesis
      using Cons.IH [OF rest u, of "r\<lparr>emitted := emitted r @ [EmitStdout pid cmd s]\<rparr>"]
        StdoutData Cons.prems(2)
      by (simp add: deliver_def stdoutOf_def stderrOf_def dataEvents_def)
  next
    case (StderrData s)
    have u: "uncaught (x\<lparr>stderrAcc := stderrAcc x @ s\<rparr>) = None"
      using Cons.prems(2) by simp
    show ?thesis
      using Cons.IH [OF rest u, of "r\<lparr>emitted := emitted r @ [EmitStderr pid cmd s]\<rparr>"]
        StderrData Cons.prems(2)
      by (simp add: deliver_def stdoutOf_def stderrOf_def dataEvents_def)
  next
    case (Close code signal now)
    with Cons.prems show ?thesis by simp
  next
    case (Error msg now)
    with Cons.prems show ?thesis by simp
  next
    case (SpawnThrows m)
    with Cons.prems show ?thesis by simp
  qed
qed

lemma fold_settled:
  "settled x \<noteq> Pending \<Longrightarrow>
   settled (fst (foldl (deliver pid cmd t) (x, r) post)) = settled x"
proof (induction post arbitrary: x r)
  case Nil
  then show ?case by simp
next
  case (Cons e post)
  obtain x' r' where h: "deliver pid cmd t (x, r) e = (x', r')" by force
  have "settled x' = settled x"
    using Cons.prems h
    by (cases e)
       (auto simp: deliver_def resolve_def reject_def Let_def split: promise.splits if_splits)
  then show ?case using Cons h by simp
qed

lemma fold_uncaught:
  "uncaught x \<noteq> None \<Longrightarrow> foldl (deliver pid cmd t) (x, r) post = (x, r)"
  by (induction post) (simp_all add: deliver_def)

text \<open>When \<^verbatim>\<open>spawn\<close> does not throw, the child is registered and its events are
  delivered to the handlers.\<close>

lemma spawnAndRun_child:
  assumes "\<forall>e\<in>set pre. isData e" and "\<forall>m. ev \<noteq> SpawnThrows m"
  shows "spawnAndRun cmd t (pre @ ev # post) r =
     ((Suc (processCounter r), t),
      foldl (deliver (Suc (processCounter r), t) cmd t)
        (\<lparr>stdoutAcc = [], stderrAcc = [], settled = Pending, uncaught = None\<rparr>,
         r\<lparr>processCounter := Suc (processCounter r),
           activeProcesses := mapSet (Suc (processCounter r), t) \<lparr>spawnfile = cmd\<rparr>
                                (activeProcesses r)\<rparr>)
        (pre @ ev # post))"
proof (cases pre)
  case Nil
  with assms(2) show ?thesis
    by (cases ev) (simp_all add: spawnAndRun_def Let_def split_beta)
next
  case (Cons a list)
  with assms(1) show ?thesis
    by (cases a) (simp_all add: spawnAndRun_def Let_def split_beta)
qed

lemma spawnAndRun_throws:
  "spawnAndRun cmd t (SpawnThrows msg # post) r =
     ((Suc (processCounter r), t),
      \<lparr>stdoutAcc = [], stderrAcc = [], settled = Rejected msg, uncaught = None\<rparr>,
      r\<lparr>processCounter := Suc (processCounter r)\<rparr>)"
  by (simp add: spawnAndRun_def Let_def)

lemma spawn_until_close:
  assumes "\<forall>e\<in>set pre. isData e"
  shows "settled (fst (snd (spawnAndRun cmd t (pre @ Close code signal now # post) r))) =
         Resolved \<lparr>success = (code = Some 0), stdout = trim (stdoutOf pre),
                   stderr = trim (stderrOf pre),
                   exitCode = (case code of None \<Rightarrow> 0 | Some c \<Rightarrow> c),
                   duration = now - t\<rparr>"
proof -
  let ?pid = "(Suc (processCounter r), t)"
  let ?r1 = "r\<lparr>processCounter := Suc (processCounter r),
               activeProcesses := mapSet ?pid \<lparr>spawnfile = cmd\<rparr> (activeProcesses r)\<rparr>"
  let ?x0 = "\<lparr>stdoutAcc = [], stderrAcc = [], settled = Pending, uncaught = None\<rparr>"
  let ?res = "\<lparr>success = (code = Some 0), stdout = trim (stdoutOf pre),
               stderr = trim (stderrOf pre),
               exitCode = (case code of None \<Rightarrow> 0 | Some c \<Rightarrow> c), duration = now - t\<rparr>"
  have pre: "foldl (deliver ?pid cmd t) (?x0, ?r1) pre =
      (?x0\<lparr>stdoutAcc := stdoutOf pre, stderrAcc := stderrOf pre\<rparr>,
       ?r1\<lparr>emitted := emitted ?r1 @ dataEvents ?pid cmd pre\<rparr>)"
    using fold_data [OF assms, of ?x0 ?pid cmd t ?r1] by simp
  obtain x' r' where step: "deliver ?pid cmd t
      (?x0\<lparr>stdoutAcc := stdoutOf pre, stderrAcc := stderrOf pre\<rparr>,
       ?r1\<lparr>emitted := emitted ?r1 @ dataEvents ?pid cmd pre\<rparr>)
      (Close code signal now) = (x', r')" by force
  then have s: "settled x' = Resolved ?res"
    by (auto simp: deliver_def resolve_def Let_def)
  then have "settled (fst (foldl (deliver ?pid cmd t) (x', r') post)) = Resolved ?res"
    using fold_settled [of x' ?pid cmd t r' post] by simp
  moreover have nt: "\<forall>m. Close code signal now \<noteq> SpawnThrows m" by simp
  ultimately show ?thesis
    unfolding spawnAndRun_child [OF assms nt, of cmd t post r]
    using pre step by simp
qed

lemma run_until_close:
  assumes "\<forall>e\<in>set pre. isData e"
  shows "fst (execute cmd t (pre @ Close code signal now # post) r) =
         Resolved \<lparr>success = (code = Some 0), stdout = trim (stdoutOf pre),
                   stderr = trim (stderrOf pre),
                   exitCode = (case code of None \<Rightarrow> 0 | Some c \<Rightarrow> c),
                   duration = now - t\<rparr>"
  using spawn_until_close [OF assms, of cmd t code signal now post r]
  by (simp add: execute_def split_beta)

lemma spawn_until_error:
  assumes "\<forall>e\<in>set pre. isData e" and "errorListener r"
  shows "settled (fst (snd (spawnAndRun cmd t (pre @ Error msg now # post) r))) = Rejected msg"
proof -
  let ?pid = "(Suc (processCounter r), t)"
  let ?r1 = "r\<lparr>processCounter := Suc (processCounter r),
               activeProcesses := mapSet ?pid \<lparr>spawnfile = cmd\<rparr> (activeProcesses r)\<rparr>"
  let ?x0 = "\<lparr>stdoutAcc = [], stderrAcc = [], settled = Pending, uncaught = None\<rparr>"
  have pre: "foldl (deliver ?pid cmd t) (?x0, ?r1) pre =
      (?x0\<lparr>stdoutAcc := stdoutOf pre, stderrAcc := stderrOf pre\<rparr>,
       ?r1\<lparr>emitted := emitted ?r1 @ dataEvents ?pid cmd pre\<rparr>)"
    using fold_data [OF assms(1), of ?x0 ?pid cmd t ?r1] by simp
  obtain x' r' where step: "deliver ?pid cmd t
      (?x0\<lparr>stdoutAcc := stdoutOf pre, stderrAcc := stderrOf pre\<rparr>,
       ?r1\<lparr>emitted := emitted ?r1 @ dataEvents ?pid cmd pre\<rparr>)
      (Error msg now) = (x', r')" by force
  then have s: "settled x' = Rejected msg"
    using assms(2) by (auto simp: deliver_def reject_def Let_def)
  then have "settled (fst (foldl (deliver ?pid cmd t) (x', r') post)) = Rejected msg"
    using fold_settled [of x' ?pid cmd t r' post] by simp
  moreover have nt: "\<forall>m. Error msg now \<noteq> SpawnThrows m" by simp
  ultimately show ?thesis
    unfolding spawnAndRun_child [OF assms(1) nt, of cmd t post r]
    using pre step by simp
qed

lemma run_until_error:
  assumes "\<forall>e\<in>set pre. isData e" and "errorListener r"
  shows "fst (execute cmd t (pre @ Error msg now # post) r) = Rejected msg"
  using spawn_until_error [OF assms, of cmd t msg now post]
  by (simp add: execute_def split_beta)

lemma error_event_published:
  assumes "\<forall>e\<in>set pre. isData e" and "errorListener r"
  shows "emitted (snd (execute cmd t (pre @ [Error msg now]) r)) =
           emitted r @ dataEvents (Suc (processCounter r), t) cmd pre
           @ [EmitError (Suc (processCounter r), t) cmd msg
                \<lparr>success = False, stdout = trim (stdoutOf pre),
                 stderr = trim (stderrOf pre) @ (if stderrOf pre \<noteq> [] then [newline] else [])
                          @ msg,
                 exitCode = - 1, duration = now - t\<rparr>]"
proof -
  let ?pid = "(Suc (processCounter r), t)"
  let ?r1 = "r\<lparr>processCounter := Suc (processCounter r),
               activeProcesses := mapSet ?pid \<lparr>spawnfile = cmd\<rparr> (activeProcesses r)\<rparr>"
  let ?x0 = "\<lparr>stdoutAcc = [], stderrAcc = [], settled = Pending, uncaught = None\<rparr>"
  have pre: "foldl (deliver ?pid cmd t) (?x0, ?r1) pre =
      (?x0\<lparr>stdoutAcc := stdoutOf pre, stderrAcc := stderrOf pre\<rparr>,
       ?r1\<lparr>emitted := emitted ?r1 @ dataEvents ?pid cmd pre\<rparr>)"
    using fold_data [OF assms(1), of ?x0 ?pid cmd t ?r1] by simp
  have nt: "\<forall>m. Error msg now \<noteq> SpawnThrows m" by simp
  show ?thesis
    unfolding execute_def spawnAndRun_child [OF assms(1) nt, of cmd t "[]" r]
    using pre assms(2) by (simp add: deliver_def Let_def)
qed

lemma spawn_until_error_unheard:
  assumes "\<forall>e\<in>set pre. isData e" and "\<not> errorListener r"
  shows "settled (fst (snd (spawnAndRun cmd t (pre @ Error msg now # post) r))) = Pending
         \<and> uncaught (fst (snd (spawnAndRun cmd t (pre @ Error msg now # post) r)))
             = Some ''Unhandled error.''"
proof -
  let ?pid = "(Suc (processCounter r), t)"
  let ?r1 = "r\<lparr>processCounter := Suc (processCounter r),
               activeProcesses := mapSet ?pid \<lparr>spawnfile = cmd\<rparr> (activeProcesses r)\<rparr>"
  let ?x0 = "\<lparr>stdoutAcc = [], stderrAcc = [], settled = Pending, uncaught = None\<rparr>"
  have pre: "foldl (deliver ?pid cmd t) (?x0, ?r1) pre =
      (?x0\<lparr>stdoutAcc := stdoutOf pre, stderrAcc := stderrOf pre\<rparr>,
       ?r1\<lparr>emitted := emitted ?r1 @ dataEvents ?pid cmd pre\<rparr>)"
    using fold_data [OF assms(1), of ?x0 ?pid cmd t ?r1] by simp
  obtain x' r' where step: "deliver ?pid cmd t
      (?x0\<lparr>stdoutAcc := stdoutOf pre, stderrAcc := stderrOf pre\<rparr>,
       ?r1\<lparr>emitted := emitted ?r1 @ dataEvents ?pid cmd pre\<rparr>)
      (Error msg now) = (x', r')" by force
  then have s: "settled x' = Pending" "uncaught x' = Some ''Unhandled error.''"
    using assms(2) by (auto simp: deliver_def Let_def)
  then have "foldl (deliver ?pid cmd t) (x', r') post = (x', r')"
    using fold_uncaught [of x' ?pid cmd t r' post] by simp
  moreover have nt: "\<forall>m. Error msg now \<noteq> SpawnThrows m" by simp
  ultimately show ?thesis
    unfolding spawnAndRun_child [OF assms(1) nt, of cmd t post r]
    using pre step s by simp
qed

text \<open>
  C10. When the first event of the child that is not output is a close with the exit code
  \<^verbatim>\<open>null\<close> (the child was ended by a signal), the promise of \<open>execute\<close> resolves
  with \<open>success = false\<close> and \<open>exitCode = 0\<close>: an exit code of 0 in a result does not
  say that the run succeeded.
\<close>

theorem close_null_code_exitCode_zero:
  assumes "\<forall>e\<in>set pre. isData e"
  shows "\<exists>res. fst (execute cmd t (pre @ Close None signal now # post) r) = Resolved res
           \<and> success res = False \<and> exitCode res = 0"
  using run_until_close [OF assms, of cmd t None signal now post r] by simp

theorem close_null_code_exitCode_zero_witness:
  "list_all isData [StdoutData ''compiling'', StderrData ''Terminated'']
   \<and> (\<exists>res. fst (execute ''npm'' 100
                 ([StdoutData ''compiling'', StderrData ''Terminated'']
                  @ Close None (Some ''SIGTERM'') 5100 # [])
                 newCommandRunner) = Resolved res
          \<and> success res = False \<and> exitCode res = 0)"
  using close_null_code_exitCode_zero
          [of "[StdoutData ''compiling'', StderrData ''Terminated'']" "''npm''" 100
              "Some ''SIGTERM''" 5100 "[]" newCommandRunner]
  by simp

text \<open>
  C4, as the claim states it, fails: a spawn error does not resolve the promise of
  \<open>execute\<close> with a failure result. When the child emits \<^verbatim>\<open>'error'\<close> and the runner
  has a listener for that event, the promise is rejected with the error. When
  \<^verbatim>\<open>spawn\<close> itself throws, as for an empty command, the promise is rejected with what
  it throws. When the child emits \<^verbatim>\<open>'error'\<close> and the runner has no listener, the
  emit throws inside the handler: the promise is not settled and the exception is uncaught.
\<close>

theorem spawn_error_rejects_counterexample:
  "fst (execute ''npm'' 0 [Error ''spawn npm ENOENT'' 3] (newCommandRunner\<lparr>errorListener := True\<rparr>))
     = Rejected ''spawn npm ENOENT''
   \<and> fst (execute [] 0 [SpawnThrows emptyFileError] newCommandRunner)
     = Rejected emptyFileError
   \<and> fst (execute ''npm'' 0 [Error ''spawn npm ENOENT'' 3] newCommandRunner) = Pending
   \<and> uncaught (fst (snd (spawnAndRun ''npm'' 0 [Error ''spawn npm ENOENT'' 3] newCommandRunner)))
     = Some ''Unhandled error.''"
  by (simp add: execute_def spawnAndRun_def deliver_def newCommandRunner_def reject_def Let_def)

text \<open>
  C4, amended. Let the child deliver output and then a first other event. If that event is
  a close, the promise of \<open>execute\<close> resolves with the trimmed output captured so far, and
  \<open>success\<close> holds exactly when the exit code is 0. If it is a spawn error and the runner
  has a listener for \<^verbatim>\<open>'error'\<close>, the promise is rejected with the error's message and
  no failure result is returned: the failure result, with the output captured so far, is
  what the runner publishes in its \<^verbatim>\<open>'error'\<close> event, after the events for the
  output. If \<^verbatim>\<open>spawn\<close> itself throws, the promise is rejected with what it throws,
  nothing is published and no child is registered. The inner promise of
  \<open>executeWithStream\<close> is the same one, and what \<^verbatim>\<open>spawn\<close> throws rejects its
  outer promise.
\<close>

theorem execute_outcome:
  assumes "\<forall>e\<in>set pre. isData e"
  shows "fst (execute cmd t (pre @ Close code signal now # post) r) =
           Resolved \<lparr>success = (code = Some 0), stdout = trim (stdoutOf pre),
                     stderr = trim (stderrOf pre),
                     exitCode = (case code of None \<Rightarrow> 0 | Some c \<Rightarrow> c),
                     duration = now - t\<rparr>
         \<and> (errorListener r \<longrightarrow>
              fst (execute cmd t (pre @ Error msg now # post) r) = Rejected msg
              \<and> emitted (snd (execute cmd t (pre @ [Error msg now]) r)) =
                  emitted r @ dataEvents (Suc (processCounter r), t) cmd pre
                  @ [EmitError (Suc (processCounter r), t) cmd msg
                       \<lparr>success = False, stdout = trim (stdoutOf pre),
                        stderr = trim (stderrOf pre)
                                 @ (if stderrOf pre \<noteq> [] then [newline] else []) @ msg,
                        exitCode = - 1, duration = now - t\<rparr>])
         \<and> fst (execute cmd t (SpawnThrows msg # post) r) = Rejected msg
         \<and> emitted (snd (execute cmd t (SpawnThrows msg # post) r)) = emitted r
         \<and> activeProcesses (snd (execute cmd t (SpawnThrows msg # post) r)) = activeProcesses r
         \<and> fst (executeWithStream cmd t (pre @ Close code signal now # post) r) =
             Inr ((Suc (processCounter r), t),
                  fst (execute cmd t (pre @ Close code signal now # post) r))
         \<and> fst (executeWithStream cmd t (pre @ Error msg now # post) r) =
             Inr ((Suc (processCounter r), t),
                  fst (execute cmd t (pre @ Error msg now # post) r))
         \<and> fst (executeWithStream cmd t (SpawnThrows msg # post) r) = Inl msg"
proof -
  have c: "\<forall>m. Close code signal now \<noteq> SpawnThrows m" and e: "\<forall>m. Error msg now \<noteq> SpawnThrows m"
    by simp_all
  have sc: "fst (executeWithStream cmd t (pre @ Close code signal now # post) r) =
             Inr ((Suc (processCounter r), t),
                  fst (execute cmd t (pre @ Close code signal now # post) r))"
  proof (cases pre)
    case Nil
    then show ?thesis
      using spawnAndRun_child [OF assms c, of cmd t post r]
      by (simp add: executeWithStream_def execute_def split_beta)
  next
    case (Cons a list)
    with assms have "isData a" by simp
    with Cons show ?thesis
      using spawnAndRun_child [OF assms c, of cmd t post r]
      by (cases a) (simp_all add: executeWithStream_def execute_def split_beta)
  qed
  have se: "fst (executeWithStream cmd t (pre @ Error msg now # post) r) =
             Inr ((Suc (processCounter r), t),
                  fst (execute cmd t (pre @ Error msg now # post) r))"
  proof (cases pre)
    case Nil
    then show ?thesis
      using spawnAndRun_child [OF assms e, of cmd t post r]
      by (simp add: executeWithStream_def execute_def split_beta)
  next
    case (Cons a list)
    with assms have "isData a" by simp
    with Cons show ?thesis
      using spawnAndRun_child [OF assms e, of cmd t post r]
      by (cases a) (simp_all add: executeWithStream_def execute_def split_beta)
  qed
  have st: "fst (execute cmd t (SpawnThrows msg # post) r) = Rejected msg"
      "emitted (snd (execute cmd t (SpawnThrows msg # post) r)) = emitted r"
      "activeProcesses (snd (execute cmd t (SpawnThrows msg # post) r)) = activeProcesses r"
      "fst (executeWithStream cmd t (SpawnThrows msg # post) r) = Inl msg"
    by (simp_all add: execute_def executeWithStream_def spawnAndRun_throws)
  show ?thesis
    using run_until_close [OF assms, of cmd t code signal now post r]
      run_until_error [OF assms, of r cmd t msg now post]
      error_event_published [OF assms, of r cmd t msg now] sc se st
    by simp
qed

theorem execute_outcome_witness:
  "list_all isData [StderrData ''npm ERR! missing script: build '']
   \<and> errorListener (newCommandRunner\<lparr>errorListener := True\<rparr>)
   \<and> fst (execute ''npm'' 10
           ([StderrData ''npm ERR! missing script: build ''] @ Close (Some 1) None 25 # [])
           (newCommandRunner\<lparr>errorListener := True\<rparr>)) =
       Resolved \<lparr>success = False, stdout = [], stderr = ''npm ERR! missing script: build'',
                 exitCode = 1, duration = 15\<rparr>
   \<and> fst (execute ''npm'' 10
           ([StderrData ''npm ERR! missing script: build ''] @ Error ''EACCES'' 25 # [])
           (newCommandRunner\<lparr>errorListener := True\<rparr>)) = Rejected ''EACCES''
   \<and> emitted (snd (execute ''npm'' 10
           ([StderrData ''npm ERR! missing script: build ''] @ [Error ''EACCES'' 25])
           (newCommandRunner\<lparr>errorListener := True\<rparr>))) =
       [EmitStderr (1, 10) ''npm'' ''npm ERR! missing script: build '',
        EmitError (1, 10) ''npm'' ''EACCES''
          \<lparr>success = False, stdout = [],
           stderr = ''npm ERR! missing script: build'' @ [newline] @ ''EACCES'',
           exitCode = - 1, duration = 15\<rparr>]
   \<and> fst (execute [] 10 (SpawnThrows emptyFileError # [])
           (newCommandRunner\<lparr>errorListener := True\<rparr>))
       = Rejected emptyFileError"
  using execute_outcome
          [of "[StderrData ''npm ERR! missing script: build '']" "''npm''" 10 "Some 1" None 25 "[]"
              "newCommandRunner\<lparr>errorListener := True\<rparr>" "''EACCES''"]
        execute_outcome
          [of "[StderrData ''npm ERR! missing script: build '']" "[]" 10 "Some 1" None 25 "[]"
              "newCommandRunner\<lparr>errorListener := True\<rparr>" emptyFileError]
  by (simp add: newCommandRunner_def stdoutOf_def stderrOf_def dataEvents_def trim_def isSpace_def)

section \<open>Properties of the recovery engine\<close>

lemmas rule_defs =
  installDependencyRule_def peerDependencyRule_def envVariableRule_def envFileRule_def
  buildCacheRule_def typescriptRule_def authTokenRule_def networkTimeoutRule_def
  permissionRule_def versionRule_def

lemmas regex_defs =
  match_def re_def rei_def classMatch_def quote_def notQuote_def apos_def dquote_def
  newline_def isDigit_def isSpace_def cap_def tmpl_def upperChar_def isLower_def

lemma builtin_rules:
  "recoveryRules (initializeEngine newRecoveryEngine) =
     [installDependencyRule, peerDependencyRule, envVariableRule, envFileRule, buildCacheRule,
      typescriptRule, authTokenRule, networkTimeoutRule, permissionRule, versionRule]"
  by (simp add: initializeEngine_def setupRecoveryRules_def addRecoveryRule_def
      newRecoveryEngine_def)

lemma builtin_priorities:
  "priority installDependencyRule = 1" "priority peerDependencyRule = 1"
  "priority envVariableRule = 2" "priority envFileRule = 2" "priority buildCacheRule = 3"
  "priority typescriptRule = 2" "priority authTokenRule = 1" "priority networkTimeoutRule = 3"
  "priority permissionRule = 2" "priority versionRule = 2"
  by (simp_all add: rule_defs)

lemma builtin_sorted:
  "sortedRules (recoveryRules (initializeEngine newRecoveryEngine)) =
     [buildCacheRule, networkTimeoutRule, envVariableRule, envFileRule, typescriptRule,
      permissionRule, versionRule, installDependencyRule, peerDependencyRule, authTokenRule]"
  by (simp add: builtin_rules sortedRules_def builtin_priorities)

lemma builtin_engine_initialized:
  "engineInitialized (initializeEngine newRecoveryEngine)"
  by (simp add: initializeEngine_def)

lemma builtin_numeric:
  "\<forall>r\<in>set (recoveryRules (initializeEngine newRecoveryEngine)).
     \<forall>m b. actionGenerator r m sg = Inr b \<longrightarrow> confidence b \<noteq> NaN"
  unfolding builtin_rules by (auto simp: rule_defs lit_def Let_def split: if_splits)

lemma confidence_withConfidence [simp]: "confidence (withConfidence a c) = c"
  by (simp add: withConfidence_def)

text \<open>The clamp of a number that is not \<^verbatim>\<open>NaN\<close> lies between the double 0.1, which
  is not below the real 0.1, and 1.\<close>

lemma clamp_range:
  assumes "c \<noteq> NaN"
  shows "\<exists>v. mathMax (lit 0.1) (mathMin (lit 1.0) c) = Num v \<and> 0.1 \<le> v \<and> double 0.1 \<le> v
              \<and> v \<le> 1"
proof (cases c)
  case (Num x)
  have "mathMax (lit 0.1) (mathMin (lit 1.0) c) = Num (max (double 0.1) (min 1 x))"
    by (simp add: Num lit_def double_values)
  moreover have "0.1 \<le> max (double 0.1) (min 1 x)" "double 0.1 \<le> max (double 0.1) (min 1 x)"
      "max (double 0.1) (min 1 x) \<le> 1"
    by (simp_all add: double_values max_def min_def)
  ultimately show ?thesis by blast
next
  case NaN
  with assms show ?thesis by simp
qed

lemma mul_number: "a \<noteq> NaN \<Longrightarrow> b \<noteq> NaN \<Longrightarrow> mul a b \<noteq> NaN"
  by (cases a; cases b) simp_all

lemma severityFactor_number: "severityFactor s \<noteq> NaN"
  by (cases s) (simp_all add: severityFactor_def lit_def)

lemma compat_cases:
  "checkFrameworkCompatibility fw v =
     (if fw \<in> {''react'', ''vue'', ''angular'', ''next'', ''nuxt''} then Own (lit 1.0)
      else if fw \<in> set objectPrototype then Inherited
      else Own (lit 0.8))"
  by (simp add: checkFrameworkCompatibility_def getMember_def lit_def double_values)

lemma adjustConfidence_number:
  assumes "confidence a \<noteq> NaN"
    and "\<forall>fw. framework (context' sg) = Some fw \<longrightarrow> fw \<notin> set objectPrototype"
  shows "\<exists>v. adjustConfidence a sg = Num v \<and> 0.1 \<le> v \<and> double 0.1 \<le> v \<and> v \<le> 1"
proof -
  let ?c = "mul (confidence a) (severityFactor (severity sg))"
  have c: "?c \<noteq> NaN" using assms(1) severityFactor_number by (rule mul_number)
  have "(case framework (context' sg) of
           Some fw \<Rightarrow>
             if fw \<noteq> [] \<and> truthy (getParam (params a) ''package'')
             then mulMember ?c (checkFrameworkCompatibility fw (getParam (params a) ''package''))
             else ?c
         | None \<Rightarrow> ?c) \<noteq> NaN"
  proof (cases "framework (context' sg)")
    case None
    then show ?thesis using c by simp
  next
    case (Some fw)
    with assms(2) have "fw \<notin> set objectPrototype" by simp
    then have "mulMember ?c (checkFrameworkCompatibility fw (getParam (params a) ''package''))
                 \<noteq> NaN"
      using c by (simp add: compat_cases mul_number lit_def del: insert_iff)
    with Some c show ?thesis by simp
  qed
  from clamp_range [OF this] show ?thesis
    by (simp add: adjustConfidence_def Let_def)
qed

lemma firstRule_number:
  assumes "\<forall>r\<in>set rs. \<forall>m b. actionGenerator r m sg = Inr b \<longrightarrow> confidence b \<noteq> NaN"
    and "\<forall>fw. framework (context' sg) = Some fw \<longrightarrow> fw \<notin> set objectPrototype"
    and "firstRule rs sg = Some a"
  shows "\<exists>v. confidence a = Num v \<and> 0.1 \<le> v \<and> double 0.1 \<le> v \<and> v \<le> 1"
  using assms(1,3)
proof (induction rs)
  case Nil
  then show ?case by simp
next
  case (Cons r rs)
  show ?case
  proof (cases "enabled r")
    case False
    with Cons show ?thesis by simp
  next
    case True
    show ?thesis
    proof (cases "match (message sg) (errorPattern r)")
      case None
      with True Cons show ?thesis by simp
    next
      case (Some m)
      show ?thesis
      proof (cases "actionGenerator r m sg")
        case (Inl err)
        with True Some Cons show ?thesis by simp
      next
        case (Inr b)
        with Cons.prems(1) have "confidence b \<noteq> NaN" by simp
        from adjustConfidence_number [OF this assms(2)] True Some Inr Cons.prems(2)
        show ?thesis by auto
      qed
    qed
  qed
qed

lemma firstRule_skip:
  assumes "\<forall>r\<in>set skipped. \<not> enabled r \<or> match (message sg) (errorPattern r) = None
             \<or> (\<exists>m err. match (message sg) (errorPattern r) = Some m
                   \<and> actionGenerator r m sg = Inl err)"
  shows "firstRule (skipped @ rs) sg = firstRule rs sg"
  using assms by (induction skipped) auto

lemma firstRule_none:
  assumes "\<forall>r\<in>set rs. match (message sg) (errorPattern r) = None"
  shows "firstRule rs sg = None"
  using firstRule_skip [of rs sg "[]"] assms by simp

lemma firstRule_hit:
  assumes "enabled rule" and "match (message sg) (errorPattern rule) = Some m"
    and "actionGenerator rule m sg = Inr a"
  shows "firstRule (rule # rest) sg = Some (withConfidence a (adjustConfidence a sg))"
  using assms by simp

lemma set_sortedRules: "set (sortedRules rs) = set rs"
  by (simp add: sortedRules_def)

text \<open>The rule that the built-in engine applies to the example messages.\<close>

lemma leftPad_no_match:
  "match leftPadMessage (errorPattern buildCacheRule) = None"
  "match leftPadMessage (errorPattern networkTimeoutRule) = None"
  "match leftPadMessage (errorPattern envVariableRule) = None"
  "match leftPadMessage (errorPattern envFileRule) = None"
  "match leftPadMessage (errorPattern typescriptRule) = None"
  "match leftPadMessage (errorPattern permissionRule) = None"
  "match leftPadMessage (errorPattern versionRule) = None"
  by (simp_all add: leftPadMessage_def rule_defs regex_defs)

lemma leftPad_match:
  "match leftPadMessage (errorPattern installDependencyRule) =
     Some [Some leftPadMessage, Some ''left-pad'']"
  by (simp add: leftPadMessage_def rule_defs regex_defs)

lemma leftPad_rule:
  assumes "message sg = leftPadMessage"
  shows "getRecoveryAction (initializeEngine newRecoveryEngine) sg =
           Some (withConfidence installLeftPad (adjustConfidence installLeftPad sg))"
proof -
  have sk: "\<forall>r\<in>set [buildCacheRule, networkTimeoutRule, envVariableRule, envFileRule,
                typescriptRule, permissionRule, versionRule].
           \<not> enabled r \<or> match (message sg) (errorPattern r) = None
           \<or> (\<exists>m err. match (message sg) (errorPattern r) = Some m
                 \<and> actionGenerator r m sg = Inl err)"
    by (simp add: assms leftPad_no_match)
  have en: "enabled installDependencyRule" by (simp add: installDependencyRule_def)
  have m: "match (message sg) (errorPattern installDependencyRule)
             = Some [Some leftPadMessage, Some ''left-pad'']"
    by (simp add: assms leftPad_match)
  have g: "actionGenerator installDependencyRule [Some leftPadMessage, Some ''left-pad''] sg
             = Inr installLeftPad"
    by (simp add: installDependencyRule_def installLeftPad_def cap_def tmpl_def jsOfCapture_def)
  have srt: "sortedRules (recoveryRules (initializeEngine newRecoveryEngine)) =
      [buildCacheRule, networkTimeoutRule, envVariableRule, envFileRule,
       typescriptRule, permissionRule, versionRule]
      @ installDependencyRule # [peerDependencyRule, authTokenRule]"
    by (simp add: builtin_sorted)
  have "firstRule (sortedRules (recoveryRules (initializeEngine newRecoveryEngine))) sg
          = firstRule (installDependencyRule # [peerDependencyRule, authTokenRule]) sg"
    unfolding srt by (rule firstRule_skip [OF sk])
  also have "\<dots> = Some (withConfidence installLeftPad (adjustConfidence installLeftPad sg))"
    by (rule firstRule_hit [OF en m g])
  finally show ?thesis
    unfolding getRecoveryAction_def using builtin_engine_initialized by simp
qed

lemma peer_no_match:
  "match peerMessage (errorPattern buildCacheRule) = None"
  "match peerMessage (errorPattern networkTimeoutRule) = None"
  "match peerMessage (errorPattern envVariableRule) = None"
  "match peerMessage (errorPattern envFileRule) = None"
  "match peerMessage (errorPattern typescriptRule) = None"
  "match peerMessage (errorPattern permissionRule) = None"
  "match peerMessage (errorPattern versionRule) = None"
  "match peerMessage (errorPattern installDependencyRule) = None"
  by (simp_all add: peerMessage_def rule_defs regex_defs)

lemma peer_match:
  "match peerMessage (errorPattern peerDependencyRule) = Some [Some peerMessage, Some ''x@1'']"
  by (simp add: peerMessage_def rule_defs regex_defs)

lemma peer_split:
  "sortedRules (recoveryRules (initializeEngine newRecoveryEngine)) =
     [buildCacheRule, networkTimeoutRule, envVariableRule, envFileRule, typescriptRule,
      permissionRule, versionRule, installDependencyRule] @ peerDependencyRule # [authTokenRule]"
  by (simp add: builtin_sorted)

lemma peer_skipped:
  assumes "message sg = peerMessage"
  shows "\<forall>r\<in>set [buildCacheRule, networkTimeoutRule, envVariableRule, envFileRule,
                typescriptRule, permissionRule, versionRule, installDependencyRule].
           \<not> enabled r \<or> match (message sg) (errorPattern r) = None
           \<or> (\<exists>m err. match (message sg) (errorPattern r) = Some m
                 \<and> actionGenerator r m sg = Inl err)"
  by (simp add: assms peer_no_match)

lemma peer_generated:
  "actionGenerator peerDependencyRule [Some peerMessage, Some ''x@1''] sg = Inr installPeer"
  by (simp add: peerDependencyRule_def installPeer_def cap_def tmpl_def jsOfCapture_def)

lemma peer_rule:
  assumes "message sg = peerMessage"
  shows "getRecoveryAction (initializeEngine newRecoveryEngine) sg =
           Some (withConfidence installPeer (adjustConfidence installPeer sg))"
proof -
  have en: "enabled peerDependencyRule" by (simp add: peerDependencyRule_def)
  have m: "match (message sg) (errorPattern peerDependencyRule)
             = Some [Some peerMessage, Some ''x@1'']"
    by (simp add: assms peer_match)
  have "firstRule (sortedRules (recoveryRules (initializeEngine newRecoveryEngine))) sg
          = firstRule (peerDependencyRule # [authTokenRule]) sg"
    unfolding peer_split by (rule firstRule_skip [OF peer_skipped [OF assms]])
  also have "\<dots> = Some (withConfidence installPeer (adjustConfidence installPeer sg))"
    by (rule firstRule_hit [OF en m peer_generated])
  finally show ?thesis
    unfolding getRecoveryAction_def using builtin_engine_initialized by simp
qed

lemma env_no_match:
  "match envMessage (errorPattern buildCacheRule) = None"
  "match envMessage (errorPattern networkTimeoutRule) = None"
  by (simp_all add: envMessage_def rule_defs regex_defs)

lemma env_match:
  "match envMessage (errorPattern envVariableRule) = Some [Some envMessage, Some ''API_KEY'']"
  by (simp add: envMessage_def rule_defs regex_defs)

lemma env_rule:
  assumes "message sg = envMessage"
  shows "getRecoveryAction (initializeEngine newRecoveryEngine) sg =
           Some (withConfidence setApiKey (adjustConfidence setApiKey sg))"
proof -
  have sk: "\<forall>r\<in>set [buildCacheRule, networkTimeoutRule].
           \<not> enabled r \<or> match (message sg) (errorPattern r) = None
           \<or> (\<exists>m err. match (message sg) (errorPattern r) = Some m
                 \<and> actionGenerator r m sg = Inl err)"
    by (simp add: assms env_no_match)
  have en: "enabled envVariableRule" by (simp add: envVariableRule_def)
  have m: "match (message sg) (errorPattern envVariableRule)
             = Some [Some envMessage, Some ''API_KEY'']"
    by (simp add: assms env_match)
  have g: "actionGenerator envVariableRule [Some envMessage, Some ''API_KEY''] sg = Inr setApiKey"
    by (simp add: envVariableRule_def setApiKey_def cap_def tmpl_def jsOfCapture_def)
  have srt: "sortedRules (recoveryRules (initializeEngine newRecoveryEngine)) =
      [buildCacheRule, networkTimeoutRule]
      @ envVariableRule # [envFileRule, typescriptRule, permissionRule, versionRule,
                           installDependencyRule, peerDependencyRule, authTokenRule]"
    by (simp add: builtin_sorted)
  have "firstRule (sortedRules (recoveryRules (initializeEngine newRecoveryEngine))) sg
          = firstRule (envVariableRule # [envFileRule, typescriptRule, permissionRule,
                         versionRule, installDependencyRule, peerDependencyRule, authTokenRule]) sg"
    unfolding srt by (rule firstRule_skip [OF sk])
  also have "\<dots> = Some (withConfidence setApiKey (adjustConfidence setApiKey sg))"
    by (rule firstRule_hit [OF en m g])
  finally show ?thesis
    unfolding getRecoveryAction_def using builtin_engine_initialized by simp
qed

text \<open>The adjusted confidences of the examples.\<close>

lemma leftPad_adjusted:
  assumes "severity sg = high"
    and "framework (context' sg) = None \<or>
         framework (context' sg) \<in> Some ` {''react'', ''vue'', ''angular'', ''next'', ''nuxt''}"
  shows "adjustConfidence installLeftPad sg = lit 0.95"
  using assms
  by (auto simp: adjustConfidence_def severityFactor_def compat_cases installLeftPad_def
      getParam_def lit_def double_values Let_def)

lemma leftPad_inherited:
  assumes "framework (context' sg) = Some ''constructor''"
  shows "adjustConfidence installLeftPad sg = NaN"
proof -
  have "checkFrameworkCompatibility ''constructor'' (JStr ''left-pad'') = Inherited"
    by (simp add: checkFrameworkCompatibility_def getMember_def objectPrototype_def)
  then show ?thesis
    using assms
    by (cases "mul (lit 0.95) (severityFactor (severity sg))")
       (simp_all add: adjustConfidence_def installLeftPad_def getParam_def Let_def)
qed

lemma peer_adjusted:
  assumes "severity sg = medium"
  shows "framework (context' sg) = None \<Longrightarrow> adjustConfidence installPeer sg = lit 0.9900000000000001"
    and "framework (context' sg) = Some ''svelte''
         \<Longrightarrow> adjustConfidence installPeer sg = lit 0.7920000000000001"
    and "framework (context' sg) = Some ''toString'' \<Longrightarrow> adjustConfidence installPeer sg = NaN"
  using assms
  by (simp_all add: adjustConfidence_def severityFactor_def checkFrameworkCompatibility_def
      getMember_def objectPrototype_def installPeer_def getParam_def lit_def double_values
      double_products Let_def)

lemma env_adjusted:
  assumes "severity sg = medium" and "framework (context' sg) = None"
  shows "adjustConfidence setApiKey sg = lit 0.935"
  using assms
  by (simp add: adjustConfidence_def severityFactor_def setApiKey_def getParam_def lit_def
      double_values double_products Let_def)

text \<open>
  C1, as the claim states it, fails. An engine that has not been initialised returns none
  for every signature. And the confidence that an initialised engine returns is not always
  in [0.1, 1.0]: for a signature whose framework is \<^verbatim>\<open>constructor\<close>, a name that
  the compatibility table inherits, the confidence of the action for a missing module is
  \<^verbatim>\<open>NaN\<close>.
\<close>

theorem getRecoveryAction_counterexample:
  "(\<forall>sg. getRecoveryAction newRecoveryEngine sg = None)
   \<and> (\<exists>a. getRecoveryAction (initializeEngine newRecoveryEngine)
             (exampleSignature leftPadMessage high (Some ''constructor'')) = Some a
        \<and> action a = ''install_dependency'' \<and> confidence a = NaN)"
proof -
  let ?sg = "exampleSignature leftPadMessage high (Some ''constructor'')"
  have m: "message ?sg = leftPadMessage" and f: "framework (context' ?sg) = Some ''constructor''"
    by (simp_all add: exampleSignature_def)
  have "getRecoveryAction (initializeEngine newRecoveryEngine) ?sg =
          Some (withConfidence installLeftPad NaN)"
    using leftPad_rule [OF m] leftPad_inherited [OF f] by simp
  then show ?thesis
    by (simp add: getRecoveryAction_def newRecoveryEngine_def withConfidence_def
        installLeftPad_def)
qed

text \<open>
  C1, amended. An engine that has not been initialised returns none. For every error
  signature, \<open>getRecoveryAction\<close> on an initialised engine, whatever its rules are, returns
  an action: what a generator throws is caught, so the call does not fault, and when no
  rule's pattern matches the signature's message the action is the generic one, of
  confidence 0.3. When the generators of the rules give confidences that are numbers and
  the framework of the signature, if it has one, is not the name of a member that every
  object inherits, the confidence of the action lies in [0.1, 1.0].
\<close>

theorem getRecoveryAction_total_bounded:
  "(\<not> engineInitialized e \<longrightarrow> getRecoveryAction e sg = None)
   \<and> (engineInitialized e \<longrightarrow>
        (\<exists>a. getRecoveryAction e sg = Some a
           \<and> ((\<forall>r\<in>set (recoveryRules e).
                   \<forall>m b. actionGenerator r m sg = Inr b \<longrightarrow> confidence b \<noteq> NaN)
                \<and> (\<forall>fw. framework (context' sg) = Some fw \<longrightarrow> fw \<notin> set objectPrototype)
                \<longrightarrow> (\<exists>v. confidence a = Num v \<and> 0.1 \<le> v \<and> double 0.1 \<le> v \<and> v \<le> 1))
           \<and> ((\<forall>r\<in>set (recoveryRules e). match (message sg) (errorPattern r) = None)
                \<longrightarrow> a = getGenericRecoveryAction sg \<and> confidence a = lit 0.3)))"
proof (intro conjI impI)
  assume "\<not> engineInitialized e"
  then show "getRecoveryAction e sg = None" by (simp add: getRecoveryAction_def)
next
  assume init: "engineInitialized e"
  show "\<exists>a. getRecoveryAction e sg = Some a
           \<and> ((\<forall>r\<in>set (recoveryRules e).
                   \<forall>m b. actionGenerator r m sg = Inr b \<longrightarrow> confidence b \<noteq> NaN)
                \<and> (\<forall>fw. framework (context' sg) = Some fw \<longrightarrow> fw \<notin> set objectPrototype)
                \<longrightarrow> (\<exists>v. confidence a = Num v \<and> 0.1 \<le> v \<and> double 0.1 \<le> v \<and> v \<le> 1))
           \<and> ((\<forall>r\<in>set (recoveryRules e). match (message sg) (errorPattern r) = None)
                \<longrightarrow> a = getGenericRecoveryAction sg \<and> confidence a = lit 0.3)"
  proof (cases "firstRule (sortedRules (recoveryRules e)) sg")
    case None
    have "\<exists>v. lit 0.3 = Num v \<and> 0.1 \<le> v \<and> double 0.1 \<le> v \<and> v \<le> 1"
      by (rule exI [of _ "double 0.3"]) (simp add: lit_def double_values)
    with None show ?thesis
      using init by (simp add: getRecoveryAction_def getGenericRecoveryAction_def)
  next
    case (Some a)
    have nm: "\<not> (\<forall>r\<in>set (recoveryRules e). match (message sg) (errorPattern r) = None)"
    proof
      assume "\<forall>r\<in>set (recoveryRules e). match (message sg) (errorPattern r) = None"
      then have "\<forall>r\<in>set (sortedRules (recoveryRules e)).
                   match (message sg) (errorPattern r) = None"
        by (simp add: set_sortedRules)
      from firstRule_none [OF this] Some show False by simp
    qed
    have rg: "(\<forall>r\<in>set (recoveryRules e).
                     \<forall>m b. actionGenerator r m sg = Inr b \<longrightarrow> confidence b \<noteq> NaN)
                  \<and> (\<forall>fw. framework (context' sg) = Some fw \<longrightarrow> fw \<notin> set objectPrototype)
                  \<longrightarrow> (\<exists>v. confidence a = Num v \<and> 0.1 \<le> v \<and> double 0.1 \<le> v \<and> v \<le> 1)"
    proof
      assume h: "(\<forall>r\<in>set (recoveryRules e).
                     \<forall>m b. actionGenerator r m sg = Inr b \<longrightarrow> confidence b \<noteq> NaN)
                  \<and> (\<forall>fw. framework (context' sg) = Some fw \<longrightarrow> fw \<notin> set objectPrototype)"
      then have "\<forall>r\<in>set (sortedRules (recoveryRules e)).
                     \<forall>m b. actionGenerator r m sg = Inr b \<longrightarrow> confidence b \<noteq> NaN"
        by (simp add: set_sortedRules)
      from firstRule_number [OF this _ Some] h
      show "\<exists>v. confidence a = Num v \<and> 0.1 \<le> v \<and> double 0.1 \<le> v \<and> v \<le> 1" by blast
    qed
    have "getRecoveryAction e sg = Some a"
      using init Some by (simp add: getRecoveryAction_def)
    with nm rg show ?thesis by blast
  qed
qed

lemma boom_no_match:
  "match ''boom'' (errorPattern installDependencyRule) = None"
  "match ''boom'' (errorPattern peerDependencyRule) = None"
  "match ''boom'' (errorPattern envVariableRule) = None"
  "match ''boom'' (errorPattern envFileRule) = None"
  "match ''boom'' (errorPattern buildCacheRule) = None"
  "match ''boom'' (errorPattern typescriptRule) = None"
  "match ''boom'' (errorPattern authTokenRule) = None"
  "match ''boom'' (errorPattern networkTimeoutRule) = None"
  "match ''boom'' (errorPattern permissionRule) = None"
  "match ''boom'' (errorPattern versionRule) = None"
  by (simp_all add: rule_defs regex_defs)

theorem getRecoveryAction_total_bounded_witness:
  "engineInitialized (initializeEngine newRecoveryEngine)
   \<and> \<not> engineInitialized newRecoveryEngine
   \<and> getRecoveryAction newRecoveryEngine (exampleSignature ''boom'' medium None) = None
   \<and> ''react'' \<notin> set objectPrototype
   \<and> (\<exists>a v. getRecoveryAction (initializeEngine newRecoveryEngine)
               (exampleSignature leftPadMessage high (Some ''react'')) = Some a
          \<and> action a = ''install_dependency''
          \<and> confidence a = Num v \<and> 0.1 \<le> v \<and> double 0.1 \<le> v \<and> v \<le> 1)
   \<and> getRecoveryAction (initializeEngine newRecoveryEngine) (exampleSignature ''boom'' medium None)
       = Some (getGenericRecoveryAction (exampleSignature ''boom'' medium None))
   \<and> confidence (getGenericRecoveryAction (exampleSignature ''boom'' medium None)) = lit 0.3"
proof -
  let ?e = "initializeEngine newRecoveryEngine"
  let ?sg = "exampleSignature ''boom'' medium None"
  let ?lp = "exampleSignature leftPadMessage high (Some ''react'')"
  have msg: "message ?sg = ''boom''" by (simp add: exampleSignature_def)
  have none: "\<forall>r\<in>set (recoveryRules ?e). match (message ?sg) (errorPattern r) = None"
    unfolding msg builtin_rules by (simp add: boom_no_match)
  have react: "''react'' \<notin> set objectPrototype" by (simp add: objectPrototype_def)
  then have fw: "\<forall>fw. framework (context' ?lp) = Some fw \<longrightarrow> fw \<notin> set objectPrototype"
    by (simp add: exampleSignature_def)
  have lp: "getRecoveryAction ?e ?lp =
              Some (withConfidence installLeftPad (adjustConfidence installLeftPad ?lp))"
    by (rule leftPad_rule) (simp add: exampleSignature_def)
  from getRecoveryAction_total_bounded [of ?e ?lp] builtin_engine_initialized
    builtin_numeric [of ?lp] fw lp
  have 1: "\<exists>a v. getRecoveryAction ?e ?lp = Some a \<and> action a = ''install_dependency''
             \<and> confidence a = Num v \<and> 0.1 \<le> v \<and> double 0.1 \<le> v \<and> v \<le> 1"
    by (auto simp: withConfidence_def installLeftPad_def)
  from getRecoveryAction_total_bounded [of ?e ?sg] builtin_engine_initialized none
  have 2: "getRecoveryAction ?e ?sg = Some (getGenericRecoveryAction ?sg)
           \<and> confidence (getGenericRecoveryAction ?sg) = lit 0.3"
    by auto
  have un: "\<not> engineInitialized newRecoveryEngine" by (simp add: newRecoveryEngine_def)
  with getRecoveryAction_total_bounded [of newRecoveryEngine ?sg]
  have 3: "getRecoveryAction newRecoveryEngine ?sg = None" by blast
  from 1 2 3 un react builtin_engine_initialized show ?thesis by blast
qed





lemma builtin_patterns:
  "errorPatterns (initializeDetector newErrorDetector) = builtinErrorPatterns"
  by (simp add: initializeDetector_def setupErrorPatterns_def newErrorDetector_def
      builtinErrorPatterns_def)

lemma builtin_detector_initialized:
  "detectorInitialized (initializeDetector newErrorDetector)"
  by (simp add: initializeDetector_def setupErrorPatterns_def)

lemma leftPad_first_pattern:
  "firstPattern builtinErrorPatterns (leftPadMessage @ [newline] @ sout) =
     Some (''missing_dependency'', [Some leftPadMessage, Some ''left-pad''])"
  by (simp add: builtinErrorPatterns_def leftPadMessage_def regex_defs)

lemma extractContext_framework:
  "framework (extractContext out) = None \<or>
   framework (extractContext out) \<in> Some ` {''react'', ''vue'', ''angular'', ''next'', ''nuxt''}"
  by (simp add: extractContext_def)

lemma leftPad_action:
  assumes "message sg = leftPadMessage" and "severity sg = high"
    and "framework (context' sg) = None \<or>
         framework (context' sg) \<in> Some ` {''react'', ''vue'', ''angular'', ''next'', ''nuxt''}"
  shows "getRecoveryAction (initializeEngine newRecoveryEngine) sg = Some installLeftPad"
proof -
  have "withConfidence installLeftPad (lit 0.95) = installLeftPad"
    by (simp add: withConfidence_def installLeftPad_def)
  then show ?thesis
    unfolding leftPad_rule [OF assms(1)] leftPad_adjusted [OF assms(2,3)] by simp
qed

lemma leftPad_pipeline:
  "\<exists>sg a. detectError sha256hex (initializeDetector newErrorDetector) leftPadMessage sout = Some sg
      \<and> type sg = dependency_error \<and> severity sg = high
      \<and> getRecoveryAction (initializeEngine newRecoveryEngine) sg = Some a
      \<and> action a = ''install_dependency''
      \<and> getParam (params a) ''package'' = JStr ''left-pad''
      \<and> confidence a = lit 0.95"
proof -
  let ?out = "leftPadMessage @ [newline] @ sout"
  let ?sg = "createErrorSignature sha256hex ''missing_dependency''
               [Some leftPadMessage, Some ''left-pad''] ?out (split newline ?out)"
  have d: "detectError sha256hex (initializeDetector newErrorDetector) leftPadMessage sout = Some ?sg"
    by (simp add: detectError_def builtin_detector_initialized builtin_patterns
        leftPad_first_pattern Let_def del: append.simps)
  have f: "message ?sg = leftPadMessage" "severity ?sg = high" "type ?sg = dependency_error"
      "context' ?sg = extractContext ?out"
    by (simp_all add: createErrorSignature_def classifyRule_def cap_def tmpl_def orElse_def
        leftPadMessage_def split_beta Let_def)
  from leftPad_action [OF f(1) f(2)] extractContext_framework [of ?out] f(4)
  have "getRecoveryAction (initializeEngine newRecoveryEngine) ?sg = Some installLeftPad"
    by simp
  then show ?thesis
    using d f(2,3) by (simp add: getParam_def installLeftPad_def)
qed

text \<open>
  C3. With the classifier and the engine initialised, the standard error
  \<^verbatim>\<open>Cannot find module 'left-pad'\<close> and any standard output give a signature of
  type \<open>dependency_error\<close> and severity \<open>high\<close>; for that signature the engine
  returns the action \<open>install_dependency\<close> with the parameter \<open>package = left-pad\<close> and
  the adjusted confidence 0.95 (the double that the literal denotes), which is at least
  0.8, as a real number and as the double of that literal.
\<close>

theorem leftpad_end_to_end:
  "\<exists>sg a. detectError sha256hex (initializeDetector newErrorDetector)
             (''Cannot find module '' @ [CHR 0x27] @ ''left-pad'' @ [CHR 0x27]) sout = Some sg
      \<and> type sg = dependency_error \<and> severity sg = high
      \<and> getRecoveryAction (initializeEngine newRecoveryEngine) sg = Some a
      \<and> action a = ''install_dependency''
      \<and> getParam (params a) ''package'' = JStr ''left-pad''
      \<and> confidence a = lit 0.95
      \<and> (\<exists>c. confidence a = Num c \<and> 0.8 \<le> c \<and> double 0.8 \<le> c)"
proof -
  have msg: "''Cannot find module '' @ [CHR 0x27] @ ''left-pad'' @ [CHR 0x27] = leftPadMessage"
    by (simp add: leftPadMessage_def apos_def)
  obtain sg a where p:
      "detectError sha256hex (initializeDetector newErrorDetector) leftPadMessage sout = Some sg"
      "type sg = dependency_error" "severity sg = high"
      "getRecoveryAction (initializeEngine newRecoveryEngine) sg = Some a"
      "action a = ''install_dependency''" "getParam (params a) ''package'' = JStr ''left-pad''"
      "confidence a = lit 0.95"
    using leftPad_pipeline [of sha256hex sout] by blast
  have "\<exists>c. confidence a = Num c \<and> 0.8 \<le> c \<and> double 0.8 \<le> c"
    by (rule exI [of _ "double 0.95"]) (simp add: p(7) lit_def double_values)
  with p show ?thesis unfolding msg by blast
qed

lemma validate_ignores_prerequisites:
  "validateRecoveryAction a = validateActionParameters a"
  by (cases "prerequisites a")
     (simp_all add: validateRecoveryAction_def checkPrerequisite_def checkPackageManager_def
        checkTypeScriptConfig_def checkAdminAccess_def list_ex_iff)

text \<open>
  C7. The claim does not hold of the code: \<open>checkPrerequisite\<close> answers \<open>true\<close> for
  \<open>user_input\<close>, \<open>user_intervention\<close> and \<open>user_reauth\<close>, so prerequisites never make
  \<open>validateRecoveryAction\<close> fail. The action that the engine returns for a missing
  environment variable requires \<open>user_input\<close> and passes the validation.
\<close>

theorem user_input_prerequisite_is_validated:
  "\<exists>a. getRecoveryAction (initializeEngine newRecoveryEngine)
           (exampleSignature ([CHR 0x27] @ ''API_KEY'' @ [CHR 0x27] @ '' is not defined'')
              medium None) = Some a
       \<and> action a = ''set_env_variable''
       \<and> prerequisites a = Some [''user_input'']
       \<and> validateRecoveryAction a = True"
proof -
  let ?sg = "exampleSignature envMessage medium None"
  have f: "message ?sg = envMessage" "severity ?sg = medium" "framework (context' ?sg) = None"
    by (simp_all add: exampleSignature_def)
  have fr: "getRecoveryAction (initializeEngine newRecoveryEngine) ?sg
          = Some (withConfidence setApiKey (lit 0.935))"
    unfolding env_rule [OF f(1)] env_adjusted [OF f(2,3)] by simp
  have v: "validateRecoveryAction (withConfidence setApiKey (lit 0.935)) = True"
    by (simp add: validate_ignores_prerequisites validateActionParameters_def withConfidence_def
        setApiKey_def lit_def double_values)
  show ?thesis
    using fr v by (simp add: envMessage_def withConfidence_def setApiKey_def)
qed

section \<open>Properties of the error classifier\<close>




lemma no_pattern_line42:
  "firstPattern builtinErrorPatterns (''line 42'' @ [newline] @ []) = None"
  by (simp add: builtinErrorPatterns_def regex_defs)

lemma no_pattern_line7:
  "firstPattern builtinErrorPatterns (''line 7'' @ [newline] @ []) = None"
  by (simp add: builtinErrorPatterns_def regex_defs)

lemma no_pattern_tmp:
  "firstPattern builtinErrorPatterns (''in /tmp/a.js'' @ [newline] @ []) = None"
  by (simp add: builtinErrorPatterns_def regex_defs)

lemma no_pattern_srv:
  "firstPattern builtinErrorPatterns (''in /srv/b'' @ [newline] @ []) = None"
  by (simp add: builtinErrorPatterns_def regex_defs)






lemma generic_signature:
  assumes "firstPattern builtinErrorPatterns (err @ [newline] @ sout) = None"
    and "trim err \<noteq> []"
  shows "detectError sha256hex (initializeDetector newErrorDetector) err sout =
           Some (createGenericErrorSignature sha256hex err (err @ [newline] @ sout)
                   (split newline (err @ [newline] @ sout)))"
  using assms
  by (simp add: detectError_def builtin_detector_initialized builtin_patterns Let_def)




subsection \<open>The hash\<close>

lemma greedy_hd: "\<exists>rest. greedy p s = dropWhile p s # rest"
  by (induction s) auto

lemma collapse_Nil [simp]: "replaceAll (Plus (Pos [Digit])) ''0'' [] = []"
  by (subst replaceAll.simps) simp

lemma collapse_digit:
  assumes "isDigit c"
  shows "replaceAll (Plus (Pos [Digit])) ''0'' (c # t) =
           ''0'' @ replaceAll (Plus (Pos [Digit])) ''0'' (dropWhile isDigit t)"
proof -
  have cm: "classMatch False (Pos [Digit]) = isDigit"
    by (rule ext) (simp add: classMatch_def)
  obtain rest where g: "greedy isDigit t = dropWhile isDigit t # rest"
    using greedy_hd by blast
  have l: "length (dropWhile isDigit t) < Suc (length t)"
    using length_dropWhile_le [of isDigit t] by simp
  show ?thesis
    by (subst replaceAll.simps) (simp add: cm assms g l)
qed

lemma collapse_other:
  assumes "\<not> isDigit c"
  shows "replaceAll (Plus (Pos [Digit])) ''0'' (c # t) =
           c # replaceAll (Plus (Pos [Digit])) ''0'' t"
  by (subst replaceAll.simps) (simp add: classMatch_def assms)

lemma dropWhile_append_all:
  "\<forall>x\<in>set xs. P x \<Longrightarrow> dropWhile P (xs @ ys) = dropWhile P ys"
  by (induction xs) auto

lemma collapse_run:
  assumes "ds \<noteq> []" and "\<forall>c\<in>set ds. isDigit c"
  shows "replaceAll (Plus (Pos [Digit])) ''0'' (a @ ds @ b) =
         replaceAll (Plus (Pos [Digit])) ''0'' (a @ ''7'' @ b)"
  using assms
proof (induction a rule: length_induct)
  case (1 a)
  have seven: "isDigit CHR ''7''" by (simp add: isDigit_def)
  show ?case
  proof (cases a)
    case Nil
    obtain d ds' where ds: "ds = d # ds'" using 1(2) by (cases ds) auto
    then have "isDigit d" "\<forall>c\<in>set ds'. isDigit c" using 1(3) by auto
    then show ?thesis
      using Nil ds seven by (simp add: collapse_digit dropWhile_append_all)
  next
    case (Cons c a')
    show ?thesis
    proof (cases "isDigit c")
      case False
      have "length a' < length a" using Cons by simp
      with 1 have "replaceAll (Plus (Pos [Digit])) ''0'' (a' @ ds @ b) =
         replaceAll (Plus (Pos [Digit])) ''0'' (a' @ ''7'' @ b)" by blast
      then show ?thesis using Cons False by (simp add: collapse_other)
    next
      case True
      show ?thesis
      proof (cases "\<forall>x\<in>set a'. isDigit x")
        case all: True
        have "dropWhile isDigit (a' @ ds @ b) = dropWhile isDigit b"
          using all 1(3) by (simp add: dropWhile_append_all)
        moreover have "dropWhile isDigit (a' @ ''7'' @ b) = dropWhile isDigit b"
          using all seven by (simp add: dropWhile_append_all)
        ultimately show ?thesis using Cons True by (simp add: collapse_digit)
      next
        case some: False
        have d1: "dropWhile isDigit (a' @ ds @ b) = dropWhile isDigit a' @ ds @ b"
          using some by (auto simp: dropWhile_append1)
        have d2: "dropWhile isDigit (a' @ ''7'' @ b) = dropWhile isDigit a' @ ''7'' @ b"
          using some by (auto simp: dropWhile_append1)
        have "length (dropWhile isDigit a') < length a"
          using Cons length_dropWhile_le [of isDigit a'] by simp
        with 1 have "replaceAll (Plus (Pos [Digit])) ''0'' (dropWhile isDigit a' @ ds @ b) =
           replaceAll (Plus (Pos [Digit])) ''0'' (dropWhile isDigit a' @ ''7'' @ b)" by blast
        then show ?thesis using Cons True d1 d2 by (simp add: collapse_digit)
      qed
    qed
  qed
qed

lemma collapse_split:
  assumes "\<not> isDigit c"
  shows "collapse (a @ c # t) = collapse a @ c # collapse t"
proof (induction a rule: length_induct)
  case (1 a)
  show ?case
  proof (cases a)
    case Nil
    then show ?thesis using assms by (simp add: collapse_other)
  next
    case (Cons x a')
    show ?thesis
    proof (cases "isDigit x")
      case False
      have "length a' < length a" using Cons by simp
      with 1 have "collapse (a' @ c # t) = collapse a' @ c # collapse t" by blast
      then show ?thesis using Cons False by (simp add: collapse_other)
    next
      case True
      have d: "dropWhile isDigit (a' @ c # t) = dropWhile isDigit a' @ c # t"
      proof (cases "\<forall>x\<in>set a'. isDigit x")
        case True
        then show ?thesis using assms by (simp add: dropWhile_append_all)
      next
        case False
        then show ?thesis by (auto simp: dropWhile_append1)
      qed
      have "length (dropWhile isDigit a') < length a"
        using Cons length_dropWhile_le [of isDigit a'] by simp
      with 1 have "collapse (dropWhile isDigit a' @ c # t)
                     = collapse (dropWhile isDigit a') @ c # collapse t" by blast
      then show ?thesis using Cons True d by (simp add: collapse_digit)
    qed
  qed
qed

lemma collapse_set: "set (collapse s) \<subseteq> insert CHR ''0'' (set s)"
proof (induction s rule: length_induct)
  case (1 s)
  show ?case
  proof (cases s)
    case Nil
    then show ?thesis by simp
  next
    case (Cons c t)
    show ?thesis
    proof (cases "isDigit c")
      case False
      have "length t < length s" using Cons by simp
      with 1 have "set (collapse t) \<subseteq> insert CHR ''0'' (set t)" by blast
      then show ?thesis using Cons False by (auto simp: collapse_other)
    next
      case True
      have "length (dropWhile isDigit t) < length s"
        using Cons length_dropWhile_le [of isDigit t] by simp
      with 1 have "set (collapse (dropWhile isDigit t))
                     \<subseteq> insert CHR ''0'' (set (dropWhile isDigit t))" by blast
      moreover have "set (dropWhile isDigit t) \<subseteq> set t"
        by (rule set_dropWhileD [THEN subsetI]) 
      ultimately show ?thesis using Cons True by (auto simp: collapse_digit)
    qed
  qed
qed

lemma collapse_nonempty: "s \<noteq> [] \<Longrightarrow> collapse s \<noteq> []"
proof (cases s)
  case Nil
  assume "s \<noteq> []"
  with Nil show ?thesis by simp
next
  case (Cons c t)
  then show ?thesis
    by (cases "isDigit c") (simp_all add: collapse_digit collapse_other)
qed

lemma collapse_no_space:
  assumes "\<forall>c\<in>set s. \<not> isSpace c"
  shows "\<forall>c\<in>set (collapse s). \<not> isSpace c"
proof -
  have "\<not> isSpace CHR ''0''" by (simp add: isSpace_def)
  then show ?thesis using assms collapse_set [of s] by auto
qed

lemma space_not_digit: "isSpace c \<Longrightarrow> \<not> isDigit c"
  by (auto simp: isSpace_def isDigit_def)

lemma paths_Nil [simp]: "paths [] = []"
  by (subst replaceAll.simps) simp

lemma paths_other:
  assumes "c \<noteq> CHR ''/''"
  shows "paths (c # t) = c # paths t"
  by (subst replaceAll.simps) (simp add: assms)

lemma paths_slash_space:
  assumes "isSpace d"
  shows "paths (CHR ''/'' # d # t) = CHR ''/'' # paths (d # t)"
  by (subst replaceAll.simps) (simp add: classMatch_def assms)

lemma paths_token:
  assumes "\<not> isSpace d"
  shows "paths (CHR ''/'' # d # t) = ''/path'' @ paths (dropWhile (\<lambda>c. \<not> isSpace c) t)"
proof -
  have cm: "classMatch False (Neg [Space]) = (\<lambda>c. \<not> isSpace c)"
    by (rule ext) (simp add: classMatch_def)
  obtain rest where g: "greedy (\<lambda>c. \<not> isSpace c) t = dropWhile (\<lambda>c. \<not> isSpace c) t # rest"
    using greedy_hd by blast
  have l: "length (dropWhile (\<lambda>c. \<not> isSpace c) t) < Suc (Suc (length t))"
    using length_dropWhile_le [of "\<lambda>c. \<not> isSpace c" t] by simp
  show ?thesis
    by (subst replaceAll.simps) (simp add: cm assms g l)
qed

lemma paths_run:
  assumes "q \<noteq> []" and "\<forall>c\<in>set q. \<not> isSpace c" and "b = [] \<or> isSpace (hd b)"
  shows "paths (a @ CHR ''/'' # q @ b) = paths (a @ ''/x'' @ b)"
  using assms
proof (induction a rule: length_induct)
  case (1 a)
  have x: "\<not> isSpace CHR ''x''" and sl: "\<not> isSpace CHR ''/''" by (simp_all add: isSpace_def)
  have b: "dropWhile (\<lambda>c. \<not> isSpace c) b = b"
    using 1(4) by (cases b) auto
  obtain d q' where q: "q = d # q'" using 1(2) by (cases q) auto
  then have dq: "\<not> isSpace d" "\<forall>c\<in>set q'. \<not> isSpace c" using 1(3) by auto
  have tail: "dropWhile (\<lambda>c. \<not> isSpace c) (q @ b) = b"
    using 1(3) b by (simp add: dropWhile_append_all)
  show ?case
  proof (cases a)
    case Nil
    then show ?thesis
      using q dq b x by (simp add: paths_token dropWhile_append_all)
  next
    case (Cons c a')
    have ih: "\<And>a''. length a'' < length a \<Longrightarrow>
               paths (a'' @ CHR ''/'' # q @ b) = paths (a'' @ ''/x'' @ b)"
      using 1 by blast
    show ?thesis
    proof (cases "c = CHR ''/''")
      case False
      then show ?thesis using Cons ih [of a'] by (simp add: paths_other)
    next
      case slash: True
      show ?thesis
      proof (cases a')
        case Nil
        then show ?thesis
          using Cons slash sl tail b x by (simp add: paths_token dropWhile_append_all)
      next
        case (Cons d' a'')
        show ?thesis
        proof (cases "isSpace d'")
          case True
          then show ?thesis
            using \<open>a = c # a'\<close> Cons slash ih [of a'] by (simp add: paths_slash_space)
        next
          case False
          show ?thesis
          proof (cases "\<forall>c\<in>set a''. \<not> isSpace c")
            case True
            have "dropWhile (\<lambda>c. \<not> isSpace c) (a'' @ CHR ''/'' # q @ b) = b"
              using True sl 1(3) b by (simp add: dropWhile_append_all)
            moreover have "dropWhile (\<lambda>c. \<not> isSpace c) (a'' @ ''/x'' @ b) = b"
              using True sl x b by (simp add: dropWhile_append_all)
            ultimately show ?thesis
              using \<open>a = c # a'\<close> Cons slash False by (simp add: paths_token)
          next
            case some: False
            let ?r = "dropWhile (\<lambda>c. \<not> isSpace c) a''"
            have d1: "dropWhile (\<lambda>c. \<not> isSpace c) (a'' @ CHR ''/'' # q @ b)
                        = ?r @ CHR ''/'' # q @ b"
              using some by (auto simp: dropWhile_append1)
            have d2: "dropWhile (\<lambda>c. \<not> isSpace c) (a'' @ ''/x'' @ b) = ?r @ ''/x'' @ b"
              using some by (auto simp: dropWhile_append1)
            have "length ?r < length a"
              using \<open>a = c # a'\<close> Cons length_dropWhile_le [of "\<lambda>c. \<not> isSpace c" a'']
              by simp
            from ih [OF this] show ?thesis
              using \<open>a = c # a'\<close> Cons slash False d1 d2 by (simp add: paths_token)
          qed
        qed
      qed
    qed
  qed
qed

lemma collapse_around_token:
  assumes "b = [] \<or> isSpace (hd b)"
  shows "\<exists>b'. (b' = [] \<or> isSpace (hd b')) \<and>
           (\<forall>p. collapse (a @ CHR ''/'' # p @ b) = collapse a @ CHR ''/'' # collapse p @ b')"
proof -
  have sl: "\<not> isDigit CHR ''/''" by (simp add: isDigit_def)
  show ?thesis
  proof (cases b)
    case Nil
    have "\<forall>p. collapse (a @ CHR ''/'' # p @ b) = collapse a @ CHR ''/'' # collapse p @ []"
      using Nil collapse_split [OF sl] by simp
    then show ?thesis by blast
  next
    case (Cons s b0)
    then have sp: "isSpace s" using assms by simp
    then have nd: "\<not> isDigit s" by (rule space_not_digit)
    have "\<forall>p. collapse (a @ CHR ''/'' # p @ b)
               = collapse a @ CHR ''/'' # collapse p @ (s # collapse b0)"
      using Cons collapse_split [OF sl] collapse_split [OF nd] by simp
    moreover have "s # collapse b0 = [] \<or> isSpace (hd (s # collapse b0))"
      using sp by simp
    ultimately show ?thesis by blast
  qed
qed

lemma paths_collapse_token:
  assumes "p \<noteq> []" and "\<forall>c\<in>set p. \<not> isSpace c" and "b = [] \<or> isSpace (hd b)"
    and "p' \<noteq> []" and "\<forall>c\<in>set p'. \<not> isSpace c"
  shows "paths (collapse (a @ CHR ''/'' # p @ b)) = paths (collapse (a @ CHR ''/'' # p' @ b))"
proof -
  obtain b' where b': "b' = [] \<or> isSpace (hd b')"
    and c: "\<And>p. collapse (a @ CHR ''/'' # p @ b) = collapse a @ CHR ''/'' # collapse p @ b'"
    using collapse_around_token [OF assms(3), of a] by blast
  have "paths (collapse a @ CHR ''/'' # collapse p @ b') = paths (collapse a @ ''/x'' @ b')"
    by (rule paths_run [OF collapse_nonempty [OF assms(1)] collapse_no_space [OF assms(2)] b'])
  moreover
  have "paths (collapse a @ CHR ''/'' # collapse p' @ b') = paths (collapse a @ ''/x'' @ b')"
    by (rule paths_run [OF collapse_nonempty [OF assms(4)] collapse_no_space [OF assms(5)] b'])
  ultimately show ?thesis by (simp only: c)
qed

lemma normalize_sameShape: "sameShape s t \<Longrightarrow> normalize s = normalize t"
proof (induction rule: sameShape.induct)
  case (same s)
  show ?case by simp
next
  case (digits ds ds' a b)
  have "collapse (a @ ds @ b) = collapse (a @ ds' @ b)"
    using collapse_run [OF digits(1,3)] collapse_run [OF digits(2,4)] by simp
  then show ?case by (simp add: normalize_def)
next
  case (path p p' b a)
  from paths_collapse_token [OF path(1,3,5,2,4)]
  show ?case by (simp add: normalize_def)
next
  case (step s t u)
  then show ?case by simp
qed

lemma detectError_hash:
  assumes "detectError sha256hex d err sout = Some sg"
  shows "hash sg = generateErrorHash sha256hex (err @ [newline] @ sout)"
  using assms
  by (auto simp: detectError_def createErrorSignature_def createGenericErrorSignature_def
      Let_def split_beta split: if_splits option.splits)

text \<open>
  C2. The hash of a signature is a function of the normalised concatenated output: whenever
  the classifier produces signatures for two inputs whose concatenated outputs have the
  same shape (they are equal, or differ only in runs of digits and in path-like tokens), the
  two hashes are equal.
\<close>

theorem hash_stable:
  assumes "sameShape (err1 @ [newline] @ out1) (err2 @ [newline] @ out2)"
    and "detectError sha256hex d err1 out1 = Some sg1"
    and "detectError sha256hex d err2 out2 = Some sg2"
  shows "hash sg1 = hash sg2"
  using normalize_sameShape [OF assms(1)] detectError_hash [OF assms(2)]
    detectError_hash [OF assms(3)]
  by (simp add: generateErrorHash_def)
theorem hash_stable_witness:
  "\<forall>sha256hex.
     (\<exists>sg1 sg2.
        detectError sha256hex (initializeDetector newErrorDetector) ''line 42'' [] = Some sg1
        \<and> detectError sha256hex (initializeDetector newErrorDetector) ''line 7'' [] = Some sg2
        \<and> hash sg1 = hash sg2)
     \<and> (\<exists>sg1 sg2.
        detectError sha256hex (initializeDetector newErrorDetector) ''in /tmp/a.js'' [] = Some sg1
        \<and> detectError sha256hex (initializeDetector newErrorDetector) ''in /srv/b'' [] = Some sg2
        \<and> hash sg1 = hash sg2)"
proof
  fix sha256hex :: "string \<Rightarrow> string"
  let ?d = "initializeDetector newErrorDetector"
  have t: "trim ''line 42'' \<noteq> []" "trim ''line 7'' \<noteq> []"
    "trim ''in /tmp/a.js'' \<noteq> []" "trim ''in /srv/b'' \<noteq> []"
    by (simp_all add: trim_def isSpace_def)
  have d: "\<forall>c\<in>set ''42''. isDigit c" "\<forall>c\<in>set ''7''. isDigit c"
    by (simp_all add: isDigit_def)
  have "sameShape (''line '' @ ''42'' @ [newline]) (''line '' @ ''7'' @ [newline])"
    by (rule sameShape.digits) (simp_all add: d)
  then have s1: "sameShape (''line 42'' @ [newline] @ []) (''line 7'' @ [newline] @ [])"
    by simp
  have "sameShape (''in '' @ CHR ''/'' # ''tmp/a.js'' @ [newline])
                  (''in '' @ CHR ''/'' # ''srv/b'' @ [newline])"
    by (rule sameShape.path) (simp_all add: isSpace_def newline_def)
  then have s2: "sameShape (''in /tmp/a.js'' @ [newline] @ []) (''in /srv/b'' @ [newline] @ [])"
    by simp
  note g1 = generic_signature [OF no_pattern_line42 t(1), of sha256hex]
  note g2 = generic_signature [OF no_pattern_line7 t(2), of sha256hex]
  note g3 = generic_signature [OF no_pattern_tmp t(3), of sha256hex]
  note g4 = generic_signature [OF no_pattern_srv t(4), of sha256hex]
  show "(\<exists>sg1 sg2.
        detectError sha256hex ?d ''line 42'' [] = Some sg1
        \<and> detectError sha256hex ?d ''line 7'' [] = Some sg2
        \<and> hash sg1 = hash sg2)
     \<and> (\<exists>sg1 sg2.
        detectError sha256hex ?d ''in /tmp/a.js'' [] = Some sg1
        \<and> detectError sha256hex ?d ''in /srv/b'' [] = Some sg2
        \<and> hash sg1 = hash sg2)"
    using hash_stable [OF s1 g1 g2] hash_stable [OF s2 g3 g4] g1 g2 g3 g4 by blast
qed

section \<open>Properties of the deployment workflow\<close>

lemma map_of_mapDelete [simp]: "map_of (mapDelete k m) k = None"
  by (induction m) (auto simp: mapDelete_def)




lemma awaitExecute_snd:
  "snd (awaitExecute cmd args w) =
     w\<lparr>commandRunner := snd (execute cmd (clock w)
                               (case children w of [] \<Rightarrow> [] | evs # rest \<Rightarrow> evs) (commandRunner w)),
       children := tl (children w), spawned := spawned w @ [(cmd, args)]\<rparr>"
  by (simp add: awaitExecute_def execute_def split_beta Let_def
      split: promise.splits option.splits)

lemma awaitExecute_fst:
  "fst (awaitExecute cmd args w) =
     (case settled (fst (snd (spawnAndRun cmd (clock w)
                       (case children w of [] \<Rightarrow> [] | evs # rest \<Rightarrow> evs) (commandRunner w)))) of
        Resolved result \<Rightarrow> Returns result
      | Rejected e \<Rightarrow> Throws e
      | Pending \<Rightarrow>
          (case uncaught (fst (snd (spawnAndRun cmd (clock w)
                       (case children w of [] \<Rightarrow> [] | evs # rest \<Rightarrow> evs) (commandRunner w)))) of
             Some e \<Rightarrow> Exits e
           | None \<Rightarrow> Hangs))"
  by (simp add: awaitExecute_def split_beta Let_def split: promise.splits option.splits)

lemma awaitExecute_close:
  assumes "children w = (pre @ Close code signal now # post) # rest"
    and "\<forall>e\<in>set pre. isData e"
  shows "awaitExecute cmd args w =
    (Returns \<lparr>success = (code = Some 0), stdout = trim (stdoutOf pre),
              stderr = trim (stderrOf pre),
              exitCode = (case code of None \<Rightarrow> 0 | Some c \<Rightarrow> c),
              duration = now - clock w\<rparr>,
     w\<lparr>commandRunner := snd (execute cmd (clock w) (pre @ Close code signal now # post)
                               (commandRunner w)),
       children := rest, spawned := spawned w @ [(cmd, args)]\<rparr>)"
proof -
  have "fst (awaitExecute cmd args w) = Returns \<lparr>success = (code = Some 0),
              stdout = trim (stdoutOf pre), stderr = trim (stderrOf pre),
              exitCode = (case code of None \<Rightarrow> 0 | Some c \<Rightarrow> c),
              duration = now - clock w\<rparr>"
    using spawn_until_close [OF assms(2), of cmd "clock w" code signal now post "commandRunner w"]
    by (simp add: awaitExecute_fst assms(1))
  moreover have "snd (awaitExecute cmd args w) =
     w\<lparr>commandRunner := snd (execute cmd (clock w) (pre @ Close code signal now # post)
                               (commandRunner w)),
       children := rest, spawned := spawned w @ [(cmd, args)]\<rparr>"
    by (simp add: awaitExecute_snd assms(1))
  ultimately show ?thesis by (metis prod.collapse)
qed

lemma awaitExecute_throws:
  assumes "children w = (SpawnThrows msg # post) # rest"
  shows "awaitExecute cmd args w =
    (Throws msg,
     w\<lparr>commandRunner := (commandRunner w)\<lparr>processCounter := Suc (processCounter (commandRunner w))\<rparr>,
       children := rest, spawned := spawned w @ [(cmd, args)]\<rparr>)"
  by (simp add: awaitExecute_def spawnAndRun_throws assms)

lemma awaitExecute_frame:
  assumes "awaitExecute cmd args w = (out, w')"
  shows "emitted' w' = emitted' w \<and> spawned w' = spawned w @ [(cmd, args)]
         \<and> activeTasks w' = activeTasks w \<and> database w' = database w"
  using assms awaitExecute_snd [of cmd args w] by (cases w) auto

lemma emit_fields [simp]:
  "database (emit e w) = database w" "activeTasks (emit e w) = activeTasks w"
  "errorDetector (emit e w) = errorDetector w" "recoveryEngine (emit e w) = recoveryEngine w"
  "clock (emit e w) = clock w" "spawned (emit e w) = spawned w"
  "commandRunner (emit e w) = commandRunner w" "emitted' (emit e w) = emitted' w @ [e]"
  by (simp_all add: emit_def)

lemma gt_thresholds: "gt c (lit 0.9) \<Longrightarrow> gt c (lit 0.7)"
  by (cases c) (simp_all add: lit_def double_values)

text \<open>What \<open>buildProject\<close> does after a build that has failed with a signature and a
  suggested action, and after one that has succeeded.\<close>

lemma buildProject_failed_build:
  assumes "getProject (database w) (projectId options) = Inr (Some project)"
    and "map_of (activeTasks w) taskId = Some task"
    and "jsonBuildCommand (orElse (logs task) ''{}'') = Inr metadataBuildCommand"
    and "cmdline = orElse (case buildCommand options of None \<Rightarrow> [] | Some c \<Rightarrow> c)
                    (orElse (case metadataBuildCommand of None \<Rightarrow> [] | Some c \<Rightarrow> c)
                       ''npm run build'')"
    and "awaitExecute (firstWord cmdline) (otherWords cmdline)
           (emit (TaskLog taskId (''Building project: '' @ cmdline)) w) = (Returns result, w2)"
    and "\<not> success result"
    and "detectError sha256hex (errorDetector w2) (stderr result) (stdout result) = Some sg"
    and "getRecoveryAction (recoveryEngine w2) sg = Some a"
  shows "buildProject sha256hex jsonBuildCommand taskId options w =
     (if gt (confidence a) (lit 0.7) then
        if gt (confidence a) (lit 0.9) then
          (case executeRecoveryAction taskId a (emit (TaskRecovery taskId sg a) w2) of
             (Returns u, w4) \<Rightarrow> buildProject sha256hex jsonBuildCommand taskId options w4
           | (Throws e, w4) \<Rightarrow> (Throws e, w4)
           | (Hangs, w4) \<Rightarrow> (Hangs, w4)
           | (Exits e, w4) \<Rightarrow> (Exits e, w4))
        else (Throws (''Build failed: '' @ stderr result), emit (TaskRecovery taskId sg a) w2)
      else (Throws (''Build failed: '' @ stderr result), w2))"
  apply (subst buildProject.simps)
  apply (simp only: assms(1-3) sum.case option.case Let_def)
  apply (fold assms(4))
  apply (simp only: assms(5) prod.case outcome.case assms(6) not_False_eq_True if_True assms(7,8) option.case)
  done

lemma buildProject_succeeded_build:
  assumes "getProject (database w) (projectId options) = Inr (Some project)"
    and "map_of (activeTasks w) taskId = Some task"
    and "jsonBuildCommand (orElse (logs task) ''{}'') = Inr metadataBuildCommand"
    and "cmdline = orElse (case buildCommand options of None \<Rightarrow> [] | Some c \<Rightarrow> c)
                    (orElse (case metadataBuildCommand of None \<Rightarrow> [] | Some c \<Rightarrow> c)
                       ''npm run build'')"
    and "awaitExecute (firstWord cmdline) (otherWords cmdline)
           (emit (TaskLog taskId (''Building project: '' @ cmdline)) w) = (Returns result, w2)"
    and "success result"
  shows "buildProject sha256hex jsonBuildCommand taskId options w =
     (case updateTaskStatus taskId ''running'' (Some 60) None None w2 of
        (Returns u, w3) \<Rightarrow>
          (Returns (), emit (TaskLog taskId ''Build completed successfully'') w3)
      | (Throws e, w3) \<Rightarrow> (Throws e, w3)
      | (Hangs, w3) \<Rightarrow> (Hangs, w3)
      | (Exits e, w3) \<Rightarrow> (Exits e, w3))"
  apply (subst buildProject.simps)
  apply (simp only: assms(1-3) sum.case option.case Let_def)
  apply (fold assms(4))
  apply (simp only: assms(5) prod.case outcome.case assms(6) not_True_eq_False if_False)
  done

text \<open>\<open>executeRecoveryAction\<close> runs a command for three actions and nothing for any
  other.\<close>

lemma executeRecoveryAction_command:
  assumes "map_of (activeTasks w) taskId = Some task"
    and "getProject (database w) (projectId' task) = Inr (Some project)"
    and "(action a, cmd, args, logged) \<in>
               {(''install_dependency'', ''npm'',
                 [''install'', jsToString (getParam (params a) ''package'')],
                 ''Installing missing dependency: '' @ jsToString (getParam (params a) ''package'')),
                (''clear_cache'', ''npm'', [''run'', ''clean''], ''Clearing build cache...''),
                (''retry_with_clean'', ''rm'', [''-rf'', ''node_modules'', ''dist'', ''build''],
                 ''Cleaning and retrying...'')}"
  shows "executeRecoveryAction taskId a w =
     (case awaitExecute cmd args (emit (TaskLog taskId logged) w) of
        (Returns result, w') \<Rightarrow> (Returns (), w')
      | (Throws e, w') \<Rightarrow> (Throws e, w')
      | (Hangs, w') \<Rightarrow> (Hangs, w')
      | (Exits e, w') \<Rightarrow> (Exits e, w'))"
  using assms(3) by (auto simp: executeRecoveryAction_def assms(1,2) Let_def)

lemma executeRecoveryAction_other:
  assumes "map_of (activeTasks w) taskId = Some task"
    and "getProject (database w) (projectId' task) = Inr (Some project)"
    and "action a \<notin> {''install_dependency'', ''clear_cache'', ''retry_with_clean''}"
  shows "executeRecoveryAction taskId a w = (Returns (), w)"
  using assms(3) by (simp add: executeRecoveryAction_def assms(1,2) Let_def)

text \<open>
  C5, amended. Let the build command fail with a signature for which the engine suggests an
  action. If the action's confidence is above 0.9, the workflow emits a recovery event and
  calls \<open>executeRecoveryAction\<close>. For the actions \<open>install_dependency\<close>, \<open>clear_cache\<close>
  and \<open>retry_with_clean\<close> that call logs a message and runs a command
  (\<^verbatim>\<open>npm install <package>\<close> for the first): when the command's promise resolves,
  whatever its result, the phase is retried by the recursive call (its result is the result
  of \<open>buildProject\<close> from the state reached), and when the promise is rejected the phase
  fails with that error and is not retried. For every other action the call runs no command
  and the phase is retried at once. If the confidence is above 0.7 but not above 0.9, the
  workflow emits a recovery event, executes nothing and the phase fails. If the confidence
  is not above 0.7, the phase fails and no recovery event is emitted.
\<close>

theorem buildProject_recovery_thresholds:
  assumes "getProject (database w) (projectId options) = Inr (Some project)"
    and "map_of (activeTasks w) taskId = Some task"
    and "jsonBuildCommand (orElse (logs task) ''{}'') = Inr metadataBuildCommand"
    and "cmdline = orElse (case buildCommand options of None \<Rightarrow> [] | Some c \<Rightarrow> c)
                    (orElse (case metadataBuildCommand of None \<Rightarrow> [] | Some c \<Rightarrow> c)
                       ''npm run build'')"
    and "awaitExecute (firstWord cmdline) (otherWords cmdline)
           (emit (TaskLog taskId (''Building project: '' @ cmdline)) w) = (Returns result, w2)"
    and "\<not> success result"
    and "detectError sha256hex (errorDetector w2) (stderr result) (stdout result) = Some sg"
    and "getRecoveryAction (recoveryEngine w2) sg = Some a"
  shows "(gt (confidence a) (lit 0.9)
          \<and> getProject (database w) (projectId' task) = Inr (Some taskProject)
          \<and> (action a, cmd, args, logged) \<in>
               {(''install_dependency'', ''npm'',
                 [''install'', jsToString (getParam (params a) ''package'')],
                 ''Installing missing dependency: '' @ jsToString (getParam (params a) ''package'')),
                (''clear_cache'', ''npm'', [''run'', ''clean''], ''Clearing build cache...''),
                (''retry_with_clean'', ''rm'', [''-rf'', ''node_modules'', ''dist'', ''build''],
                 ''Cleaning and retrying...'')}
          \<longrightarrow>
            (\<forall>remedy w4.
               awaitExecute cmd args
                 (emit (TaskLog taskId logged) (emit (TaskRecovery taskId sg a) w2))
                 = (Returns remedy, w4)
               \<longrightarrow> buildProject sha256hex jsonBuildCommand taskId options w =
                     buildProject sha256hex jsonBuildCommand taskId options w4
                   \<and> emitted' w4 = emitted' w @ [TaskLog taskId (''Building project: '' @ cmdline),
                                                 TaskRecovery taskId sg a, TaskLog taskId logged]
                   \<and> spawned w4 = spawned w @ [(firstWord cmdline, otherWords cmdline),
                                               (cmd, args)])
            \<and> (\<forall>e w4.
               awaitExecute cmd args
                 (emit (TaskLog taskId logged) (emit (TaskRecovery taskId sg a) w2))
                 = (Throws e, w4)
               \<longrightarrow> buildProject sha256hex jsonBuildCommand taskId options w = (Throws e, w4)))
       \<and> (gt (confidence a) (lit 0.9)
          \<and> getProject (database w) (projectId' task) = Inr (Some taskProject)
          \<and> action a \<notin> {''install_dependency'', ''clear_cache'', ''retry_with_clean''}
          \<longrightarrow>
            buildProject sha256hex jsonBuildCommand taskId options w =
              buildProject sha256hex jsonBuildCommand taskId options
                (emit (TaskRecovery taskId sg a) w2)
            \<and> emitted' (emit (TaskRecovery taskId sg a) w2) =
                  emitted' w @ [TaskLog taskId (''Building project: '' @ cmdline),
                                TaskRecovery taskId sg a]
            \<and> spawned (emit (TaskRecovery taskId sg a) w2) =
                  spawned w @ [(firstWord cmdline, otherWords cmdline)])
       \<and> (gt (confidence a) (lit 0.7) \<and> \<not> gt (confidence a) (lit 0.9) \<longrightarrow>
            (\<exists>w3. buildProject sha256hex jsonBuildCommand taskId options w =
                     (Throws (''Build failed: '' @ stderr result), w3)
                 \<and> emitted' w3 = emitted' w @ [TaskLog taskId (''Building project: '' @ cmdline),
                                               TaskRecovery taskId sg a]
                 \<and> spawned w3 = spawned w @ [(firstWord cmdline, otherWords cmdline)]))
       \<and> (\<not> gt (confidence a) (lit 0.7) \<longrightarrow>
            (\<exists>w3. buildProject sha256hex jsonBuildCommand taskId options w =
                     (Throws (''Build failed: '' @ stderr result), w3)
                 \<and> emitted' w3 = emitted' w @ [TaskLog taskId (''Building project: '' @ cmdline)]
                 \<and> spawned w3 = spawned w @ [(firstWord cmdline, otherWords cmdline)]))"
proof -
  note step = buildProject_failed_build [where jsonBuildCommand = jsonBuildCommand, OF assms]
  note frame = awaitExecute_frame [OF assms(5)]
  let ?w3 = "emit (TaskRecovery taskId sg a) w2"
  have at: "map_of (activeTasks ?w3) taskId = Some task"
    using frame assms(2) by simp
  have db: "database ?w3 = database w" using frame by simp
  have ev: "emitted' ?w3 = emitted' w @ [TaskLog taskId (''Building project: '' @ cmdline),
                                         TaskRecovery taskId sg a]"
    and sp: "spawned ?w3 = spawned w @ [(firstWord cmdline, otherWords cmdline)]"
    using frame by simp_all
  have handled: "buildProject sha256hex jsonBuildCommand taskId options w =
                     buildProject sha256hex jsonBuildCommand taskId options w4
                   \<and> emitted' w4 = emitted' w @ [TaskLog taskId (''Building project: '' @ cmdline),
                                                 TaskRecovery taskId sg a, TaskLog taskId logged]
                   \<and> spawned w4 = spawned w @ [(firstWord cmdline, otherWords cmdline),
                                               (cmd, args)]"
    if c: "gt (confidence a) (lit 0.9)"
      and p: "getProject (database w) (projectId' task) = Inr (Some taskProject)"
      and h: "(action a, cmd, args, logged) \<in>
               {(''install_dependency'', ''npm'',
                 [''install'', jsToString (getParam (params a) ''package'')],
                 ''Installing missing dependency: '' @ jsToString (getParam (params a) ''package'')),
                (''clear_cache'', ''npm'', [''run'', ''clean''], ''Clearing build cache...''),
                (''retry_with_clean'', ''rm'', [''-rf'', ''node_modules'', ''dist'', ''build''],
                 ''Cleaning and retrying...'')}"
      and r: "awaitExecute cmd args (emit (TaskLog taskId logged) ?w3) = (Returns remedy, w4)"
    for remedy w4
  proof -
    have p3: "getProject (database ?w3) (projectId' task) = Inr (Some taskProject)"
      using p db by simp
    have "executeRecoveryAction taskId a ?w3 = (Returns (), w4)"
      unfolding executeRecoveryAction_command [OF at p3 h] r by simp
    then have "buildProject sha256hex jsonBuildCommand taskId options w =
                 buildProject sha256hex jsonBuildCommand taskId options w4"
      unfolding step using c gt_thresholds [OF c] by simp
    then show ?thesis
      using awaitExecute_frame [OF r] ev sp by simp
  qed
  have faulted: "buildProject sha256hex jsonBuildCommand taskId options w = (Throws e, w4)"
    if c: "gt (confidence a) (lit 0.9)"
      and p: "getProject (database w) (projectId' task) = Inr (Some taskProject)"
      and h: "(action a, cmd, args, logged) \<in>
               {(''install_dependency'', ''npm'',
                 [''install'', jsToString (getParam (params a) ''package'')],
                 ''Installing missing dependency: '' @ jsToString (getParam (params a) ''package'')),
                (''clear_cache'', ''npm'', [''run'', ''clean''], ''Clearing build cache...''),
                (''retry_with_clean'', ''rm'', [''-rf'', ''node_modules'', ''dist'', ''build''],
                 ''Cleaning and retrying...'')}"
      and r: "awaitExecute cmd args (emit (TaskLog taskId logged) ?w3) = (Throws e, w4)"
    for e w4
  proof -
    have p3: "getProject (database ?w3) (projectId' task) = Inr (Some taskProject)"
      using p db by simp
    have "executeRecoveryAction taskId a ?w3 = (Throws e, w4)"
      unfolding executeRecoveryAction_command [OF at p3 h] r by simp
    then show ?thesis
      unfolding step using c gt_thresholds [OF c] by simp
  qed
  have other: "buildProject sha256hex jsonBuildCommand taskId options w =
                 buildProject sha256hex jsonBuildCommand taskId options ?w3"
    if c: "gt (confidence a) (lit 0.9)"
      and p: "getProject (database w) (projectId' task) = Inr (Some taskProject)"
      and h: "action a \<notin> {''install_dependency'', ''clear_cache'', ''retry_with_clean''}"
  proof -
    have p3: "getProject (database ?w3) (projectId' task) = Inr (Some taskProject)"
      using p db by simp
    show ?thesis
      unfolding step executeRecoveryAction_other [OF at p3 h]
      using c gt_thresholds [OF c] by simp
  qed
  have middle: "\<exists>w3. buildProject sha256hex jsonBuildCommand taskId options w =
                     (Throws (''Build failed: '' @ stderr result), w3)
                 \<and> emitted' w3 = emitted' w @ [TaskLog taskId (''Building project: '' @ cmdline),
                                               TaskRecovery taskId sg a]
                 \<and> spawned w3 = spawned w @ [(firstWord cmdline, otherWords cmdline)]"
    if "gt (confidence a) (lit 0.7)" and "\<not> gt (confidence a) (lit 0.9)"
    unfolding step using that ev sp by simp
  have below: "\<exists>w3. buildProject sha256hex jsonBuildCommand taskId options w =
                     (Throws (''Build failed: '' @ stderr result), w3)
                 \<and> emitted' w3 = emitted' w @ [TaskLog taskId (''Building project: '' @ cmdline)]
                 \<and> spawned w3 = spawned w @ [(firstWord cmdline, otherWords cmdline)]"
    if "\<not> gt (confidence a) (lit 0.7)"
    unfolding step using that frame by simp
  have A: "gt (confidence a) (lit 0.9)
          \<and> getProject (database w) (projectId' task) = Inr (Some taskProject)
          \<and> (action a, cmd, args, logged) \<in>
               {(''install_dependency'', ''npm'',
                 [''install'', jsToString (getParam (params a) ''package'')],
                 ''Installing missing dependency: '' @ jsToString (getParam (params a) ''package'')),
                (''clear_cache'', ''npm'', [''run'', ''clean''], ''Clearing build cache...''),
                (''retry_with_clean'', ''rm'', [''-rf'', ''node_modules'', ''dist'', ''build''],
                 ''Cleaning and retrying...'')}
          \<longrightarrow>
            (\<forall>remedy w4.
               awaitExecute cmd args
                 (emit (TaskLog taskId logged) (emit (TaskRecovery taskId sg a) w2))
                 = (Returns remedy, w4)
               \<longrightarrow> buildProject sha256hex jsonBuildCommand taskId options w =
                     buildProject sha256hex jsonBuildCommand taskId options w4
                   \<and> emitted' w4 = emitted' w @ [TaskLog taskId (''Building project: '' @ cmdline),
                                                 TaskRecovery taskId sg a, TaskLog taskId logged]
                   \<and> spawned w4 = spawned w @ [(firstWord cmdline, otherWords cmdline),
                                               (cmd, args)])
            \<and> (\<forall>e w4.
               awaitExecute cmd args
                 (emit (TaskLog taskId logged) (emit (TaskRecovery taskId sg a) w2))
                 = (Throws e, w4)
               \<longrightarrow> buildProject sha256hex jsonBuildCommand taskId options w = (Throws e, w4))"
  proof (rule impI, elim conjE, intro conjI allI impI)
    fix remedy w4
    assume c: "gt (confidence a) (lit 0.9)"
      and p: "getProject (database w) (projectId' task) = Inr (Some taskProject)"
      and h: "(action a, cmd, args, logged) \<in>
               {(''install_dependency'', ''npm'',
                 [''install'', jsToString (getParam (params a) ''package'')],
                 ''Installing missing dependency: '' @ jsToString (getParam (params a) ''package'')),
                (''clear_cache'', ''npm'', [''run'', ''clean''], ''Clearing build cache...''),
                (''retry_with_clean'', ''rm'', [''-rf'', ''node_modules'', ''dist'', ''build''],
                 ''Cleaning and retrying...'')}"
      and r: "awaitExecute cmd args
                 (emit (TaskLog taskId logged) (emit (TaskRecovery taskId sg a) w2))
                 = (Returns remedy, w4)"
    note hd = handled [OF c p h r]
    from hd show "buildProject sha256hex jsonBuildCommand taskId options w =
                     buildProject sha256hex jsonBuildCommand taskId options w4" by (rule conjunct1)
    from hd show "emitted' w4 = emitted' w @ [TaskLog taskId (''Building project: '' @ cmdline),
                                                 TaskRecovery taskId sg a, TaskLog taskId logged]"
      by (simp only:)
    from hd show "spawned w4 = spawned w @ [(firstWord cmdline, otherWords cmdline),
                                               (cmd, args)]"
      by (simp only:)
  next
    fix e w4
    assume c: "gt (confidence a) (lit 0.9)"
      and p: "getProject (database w) (projectId' task) = Inr (Some taskProject)"
      and h: "(action a, cmd, args, logged) \<in>
               {(''install_dependency'', ''npm'',
                 [''install'', jsToString (getParam (params a) ''package'')],
                 ''Installing missing dependency: '' @ jsToString (getParam (params a) ''package'')),
                (''clear_cache'', ''npm'', [''run'', ''clean''], ''Clearing build cache...''),
                (''retry_with_clean'', ''rm'', [''-rf'', ''node_modules'', ''dist'', ''build''],
                 ''Cleaning and retrying...'')}"
      and r: "awaitExecute cmd args
                 (emit (TaskLog taskId logged) (emit (TaskRecovery taskId sg a) w2))
                 = (Throws e, w4)"
    show "buildProject sha256hex jsonBuildCommand taskId options w = (Throws e, w4)"
      by (rule faulted [OF c p h r])
  qed
  have B: "gt (confidence a) (lit 0.9)
          \<and> getProject (database w) (projectId' task) = Inr (Some taskProject)
          \<and> action a \<notin> {''install_dependency'', ''clear_cache'', ''retry_with_clean''}
          \<longrightarrow>
            buildProject sha256hex jsonBuildCommand taskId options w =
              buildProject sha256hex jsonBuildCommand taskId options
                (emit (TaskRecovery taskId sg a) w2)
            \<and> emitted' (emit (TaskRecovery taskId sg a) w2) =
                  emitted' w @ [TaskLog taskId (''Building project: '' @ cmdline),
                                TaskRecovery taskId sg a]
            \<and> spawned (emit (TaskRecovery taskId sg a) w2) =
                  spawned w @ [(firstWord cmdline, otherWords cmdline)]"
  proof (rule impI, elim conjE, intro conjI)
    assume c: "gt (confidence a) (lit 0.9)"
      and p: "getProject (database w) (projectId' task) = Inr (Some taskProject)"
      and h: "action a \<notin> {''install_dependency'', ''clear_cache'', ''retry_with_clean''}"
    show "buildProject sha256hex jsonBuildCommand taskId options w =
              buildProject sha256hex jsonBuildCommand taskId options
                (emit (TaskRecovery taskId sg a) w2)"
      by (rule other [OF c p h])
    show "emitted' (emit (TaskRecovery taskId sg a) w2) =
                  emitted' w @ [TaskLog taskId (''Building project: '' @ cmdline),
                                TaskRecovery taskId sg a]"
      by (rule ev)
    show "spawned (emit (TaskRecovery taskId sg a) w2) =
                  spawned w @ [(firstWord cmdline, otherWords cmdline)]"
      by (rule sp)
  qed
  have C: "gt (confidence a) (lit 0.7) \<and> \<not> gt (confidence a) (lit 0.9) \<longrightarrow>
            (\<exists>w3. buildProject sha256hex jsonBuildCommand taskId options w =
                     (Throws (''Build failed: '' @ stderr result), w3)
                 \<and> emitted' w3 = emitted' w @ [TaskLog taskId (''Building project: '' @ cmdline),
                                               TaskRecovery taskId sg a]
                 \<and> spawned w3 = spawned w @ [(firstWord cmdline, otherWords cmdline)])"
    using middle by blast
  have D: "\<not> gt (confidence a) (lit 0.7) \<longrightarrow>
            (\<exists>w3. buildProject sha256hex jsonBuildCommand taskId options w =
                     (Throws (''Build failed: '' @ stderr result), w3)
                 \<and> emitted' w3 = emitted' w @ [TaskLog taskId (''Building project: '' @ cmdline)]
                 \<and> spawned w3 = spawned w @ [(firstWord cmdline, otherWords cmdline)])"
    using below by blast
  from A B C D show ?thesis by (intro conjI)
qed

text \<open>The runs of the example workflow.\<close>

lemma npm_run_build:
  "firstWord ''npm run build'' = ''npm''" "otherWords ''npm run build'' = [''run'', ''build'']"
  by (simp_all add: firstWord_def otherWords_def)

lemma example_cmdline:
  "''npm run build'' = orElse (case buildCommand exampleOptions of None \<Rightarrow> [] | Some c \<Rightarrow> c)
                    (orElse (case (None :: string option) of None \<Rightarrow> [] | Some c \<Rightarrow> c)
                       ''npm run build'')"
  by (simp add: exampleOptions_def orElse_def)

lemma example_facts:
  "getProject (database (exampleWorkflow\<lparr>children := c\<rparr>)) (projectId exampleOptions)
     = Inr (Some \<lparr>path = ''/srv/app''\<rparr>)"
  "map_of (activeTasks (exampleWorkflow\<lparr>children := c\<rparr>)) ''t1'' = Some exampleTask"
  "noMetadata (orElse (logs exampleTask) ''{}'') = Inr None"
  "getProject (database (exampleWorkflow\<lparr>children := c\<rparr>)) (projectId' exampleTask)
     = Inr (Some \<lparr>path = ''/srv/app''\<rparr>)"
  by (simp_all add: exampleWorkflow_def exampleOptions_def exampleTask_def noMetadata_def)

lemma trim_empty: "trim [] = []"
  by (simp add: trim_def)

text \<open>The first build of a run fails with the message \<open>msg\<close> on the standard error.\<close>

lemma example_first_build:
  assumes "trim msg = msg"
  shows "awaitExecute (firstWord ''npm run build'') (otherWords ''npm run build'')
           (emit (TaskLog ''t1'' (''Building project: '' @ ''npm run build'')) (exampleWorkflow\<lparr>children := [StderrData msg, Close (Some 1) None 7] # rest\<rparr>))
         = (Returns \<lparr>success = False, stdout = [], stderr = msg, exitCode = 1, duration = 7\<rparr>,
            (exampleWorkflow\<lparr>commandRunner := snd (execute ''npm'' 0 [StderrData msg, Close (Some 1) None 7] newCommandRunner),
          emitted' := [TaskLog ''t1'' ''Building project: npm run build''],
          children := rest,
          spawned := [(''npm'', [''run'', ''build''])]\<rparr>))"
proof -
  let ?w = "(emit (TaskLog ''t1'' (''Building project: '' @ ''npm run build'')) (exampleWorkflow\<lparr>children := [StderrData msg, Close (Some 1) None 7] # rest\<rparr>))"
  have ch: "children ?w = ([StderrData msg] @ Close (Some 1) None 7 # []) # rest"
    by simp
  have dt: "\<forall>e\<in>set [StderrData msg]. isData e" by simp
  have out: "stdoutOf [StderrData msg] = []" "stderrOf [StderrData msg] = msg"
    by (simp_all add: stdoutOf_def stderrOf_def)
  show ?thesis
    unfolding awaitExecute_close [OF ch dt] out trim_empty assms
    by (simp add: npm_run_build exampleWorkflow_def emit_def)
qed

lemma example_premises:
  assumes "trim msg = msg"
    and "detectError sha256hex (initializeDetector newErrorDetector) msg [] = Some sg"
    and "getRecoveryAction (initializeEngine newRecoveryEngine) sg = Some a"
  shows "awaitExecute (firstWord ''npm run build'') (otherWords ''npm run build'')
           (emit (TaskLog ''t1'' (''Building project: '' @ ''npm run build'')) (exampleWorkflow\<lparr>children := [StderrData msg, Close (Some 1) None 7] # rest\<rparr>))
         = (Returns \<lparr>success = False, stdout = [], stderr = msg, exitCode = 1, duration = 7\<rparr>,
            (exampleWorkflow\<lparr>commandRunner := snd (execute ''npm'' 0 [StderrData msg, Close (Some 1) None 7] newCommandRunner),
          emitted' := [TaskLog ''t1'' ''Building project: npm run build''],
          children := rest,
          spawned := [(''npm'', [''run'', ''build''])]\<rparr>))"
    and "\<not> success \<lparr>success = False, stdout = [], stderr = msg, exitCode = 1, duration = 7\<rparr>"
    and "detectError sha256hex
           (errorDetector (exampleWorkflow\<lparr>commandRunner := snd (execute ''npm'' 0 [StderrData msg, Close (Some 1) None 7] newCommandRunner),
          emitted' := [TaskLog ''t1'' ''Building project: npm run build''],
          children := rest,
          spawned := [(''npm'', [''run'', ''build''])]\<rparr>))
           (stderr \<lparr>success = False, stdout = [], stderr = msg, exitCode = 1, duration = 7\<rparr>)
           (stdout \<lparr>success = False, stdout = [], stderr = msg, exitCode = 1, duration = 7\<rparr>) = Some sg"
    and "getRecoveryAction
           (recoveryEngine (exampleWorkflow\<lparr>commandRunner := snd (execute ''npm'' 0 [StderrData msg, Close (Some 1) None 7] newCommandRunner),
          emitted' := [TaskLog ''t1'' ''Building project: npm run build''],
          children := rest,
          spawned := [(''npm'', [''run'', ''build''])]\<rparr>)) sg = Some a"
  using assms(2,3) example_first_build [OF assms(1), of rest]
  by (simp_all add: exampleWorkflow_def)

text \<open>A build that succeeds.\<close>

lemma example_build_succeeds:
  assumes "getProject (database w) ''p1'' = Inr (Some project)"
    and "map_of (activeTasks w) ''t1'' = Some exampleTask"
    and "updateTask (database w) = (\<lambda>i u. None)"
    and "children w = (pre @ Close (Some 0) signal now # post) # rest"
    and "\<forall>e\<in>set pre. isData e"
  shows "\<exists>w'. buildProject sha256hex noMetadata ''t1'' exampleOptions w = (Returns (), w')
           \<and> spawned w' = spawned w @ [(''npm'', [''run'', ''build''])]
           \<and> emitted' w' = emitted' w @ [TaskLog ''t1'' ''Building project: npm run build'',
                 TaskStatus ''t1'' ''running'' (Some 60) None,
                 TaskLog ''t1'' ''Build completed successfully'']
           \<and> children w' = rest"
proof -
  let ?w1 = "emit (TaskLog ''t1'' (''Building project: '' @ ''npm run build'')) w"
  have ch: "children ?w1 = (pre @ Close (Some 0) signal now # post) # rest"
    by (simp add: assms(4))
  note run = awaitExecute_close [OF ch assms(5), of "firstWord ''npm run build''"
      "otherWords ''npm run build''"]
  have p: "getProject (database w) (projectId exampleOptions) = Inr (Some project)"
    by (simp add: exampleOptions_def assms(1))
  have s: "success \<lparr>success = (Some (0::int) = Some 0), stdout = trim (stdoutOf pre),
              stderr = trim (stderrOf pre),
              exitCode = (case Some (0::int) of None \<Rightarrow> 0 | Some c \<Rightarrow> c),
              duration = now - clock ?w1\<rparr>"
    by simp
  note b = buildProject_succeeded_build [where jsonBuildCommand = noMetadata,
      OF p assms(2) example_facts(3) example_cmdline run s, of sha256hex]
  show ?thesis
    unfolding b
    by (simp add: updateTaskStatus_def assms(2,3) Let_def npm_run_build)
qed

text \<open>The signatures that the classifier gives for the example messages.\<close>

lemma detected_signature:
  assumes "firstPattern builtinErrorPatterns (msg @ [newline] @ []) = Some (name, m)"
    and "cap m 0 = Some msg" and "msg \<noteq> []"
  shows "\<exists>sg. detectError sha256hex (initializeDetector newErrorDetector) msg [] = Some sg
           \<and> message sg = msg \<and> severity sg = fst (snd (classifyRule name m))
           \<and> context' sg = extractContext (msg @ [newline] @ [])"
  using assms
  by (simp add: detectError_def builtin_detector_initialized builtin_patterns Let_def
      createErrorSignature_def split_beta tmpl_def orElse_def)

lemma example_detect:
  "firstPattern builtinErrorPatterns (''error TS2304:'' @ [newline] @ []) =
     Some (''typescript_error'', [Some ''error TS2304:'', Some ''2304''])"
  "firstPattern builtinErrorPatterns (''error TS1:'' @ [newline] @ []) =
     Some (''typescript_error'', [Some ''error TS1:'', Some ''1''])"
  "firstPattern builtinErrorPatterns (peerMessage @ [newline] @ []) =
     Some (''peer_dependency'', [Some peerMessage, Some ''x@1''])"
  "firstPattern builtinErrorPatterns (envMessage @ [newline] @ []) =
     Some (''missing_env_var'', [Some envMessage, Some ''API_KEY''])"
  by (simp_all add: builtinErrorPatterns_def peerMessage_def envMessage_def regex_defs)

lemma example_severity:
  "fst (snd (classifyRule ''typescript_error'' m)) = high"
  "fst (snd (classifyRule ''peer_dependency'' m)) = medium"
  "fst (snd (classifyRule ''missing_env_var'' m)) = medium"
  by (simp_all add: classifyRule_def)

lemma example_framework:
  "framework (extractContext (''error TS2304:'' @ [newline] @ [])) = None"
  "framework (extractContext (''error TS1:'' @ [newline] @ [])) = None"
  "framework (extractContext (peerMessage @ [newline] @ [])) = None"
  "framework (extractContext (envMessage @ [newline] @ [])) = None"
  by (simp_all add: extractContext_def newline_def peerMessage_def envMessage_def)

lemma example_trim:
  "trim leftPadMessage = leftPadMessage" "trim peerMessage = peerMessage"
  "trim envMessage = envMessage" "trim ''error TS2304:'' = ''error TS2304:''"
  "trim ''error TS1:'' = ''error TS1:''"
  by (simp_all add: trim_def isSpace_def leftPadMessage_def peerMessage_def envMessage_def
      apos_def)

lemma ts_no_match:
  "match ''error TS2304:'' (errorPattern buildCacheRule) = None"
  "match ''error TS2304:'' (errorPattern networkTimeoutRule) = None"
  "match ''error TS2304:'' (errorPattern envVariableRule) = None"
  "match ''error TS2304:'' (errorPattern envFileRule) = None"
  "match ''error TS1:'' (errorPattern buildCacheRule) = None"
  "match ''error TS1:'' (errorPattern networkTimeoutRule) = None"
  "match ''error TS1:'' (errorPattern envVariableRule) = None"
  "match ''error TS1:'' (errorPattern envFileRule) = None"
  by (simp_all add: rule_defs regex_defs)

lemma ts_match_rule:
  "match ''error TS2304:'' (errorPattern typescriptRule) = Some [Some ''error TS2304:'', Some ''2304'']"
  "match ''error TS1:'' (errorPattern typescriptRule) = Some [Some ''error TS1:'', Some ''1'']"
  by (simp_all add: rule_defs regex_defs)

lemma ts_parsed: "parseInt ''2304'' = 2304" "parseInt ''1'' = 1"
  by (simp_all add: parseInt_def isDigit_def digitVal_def double_values)

lemma ts_generated:
  "actionGenerator typescriptRule [Some ''error TS2304:'', Some ''2304''] sg =
     Inr (RecoveryAction ''fix_typescript_config''
            [(''errorCode'', JNum 2304), (''checkModuleResolution'', JBool True)]
            (lit 0.75) ''Fix TypeScript configuration for error TS2304'' (Num 120) ''medium''
            (Some [''typescript_config'']) None)"
  "actionGenerator typescriptRule [Some ''error TS1:'', Some ''1''] sg =
     Inr (RecoveryAction ''fix_typescript_errors''
            [(''errorCode'', JNum 1), (''autoFix'', JBool False)]
            (lit 0.60) ''Fix TypeScript error TS1'' (Num 300) ''medium'' (Some [''manual_fix'']) None)"
  by (simp_all add: typescriptRule_def cap_def tmpl_def ts_parsed showNat.simps digitChar_def
      Let_def)

lemma ts_action:
  assumes "message sg = msg" and "severity sg = high" and "framework (context' sg) = None"
    and "match msg (errorPattern buildCacheRule) = None"
    and "match msg (errorPattern networkTimeoutRule) = None"
    and "match msg (errorPattern envVariableRule) = None"
    and "match msg (errorPattern envFileRule) = None"
    and "match msg (errorPattern typescriptRule) = Some m"
    and "actionGenerator typescriptRule m sg = Inr a"
    and "confidence a = lit 0.75 \<or> confidence a = lit 0.6"
  shows "getRecoveryAction (initializeEngine newRecoveryEngine) sg = Some a"
proof -
  have sk: "\<forall>r\<in>set [buildCacheRule, networkTimeoutRule, envVariableRule, envFileRule].
           \<not> enabled r \<or> match (message sg) (errorPattern r) = None
           \<or> (\<exists>m err. match (message sg) (errorPattern r) = Some m
                 \<and> actionGenerator r m sg = Inl err)"
    by (simp add: assms(1,4-7))
  have en: "enabled typescriptRule" by (simp add: typescriptRule_def)
  have m: "match (message sg) (errorPattern typescriptRule) = Some m"
    by (simp add: assms(1,8))
  have adj: "adjustConfidence a sg = confidence a"
    using assms(10)
    by (auto simp: adjustConfidence_def severityFactor_def assms(2,3) lit_def double_values
        Let_def)
  have wc: "withConfidence a (adjustConfidence a sg) = a"
    unfolding adj by (cases a) (simp add: withConfidence_def)
  have srt: "sortedRules (recoveryRules (initializeEngine newRecoveryEngine)) =
      [buildCacheRule, networkTimeoutRule, envVariableRule, envFileRule]
      @ typescriptRule # [permissionRule, versionRule, installDependencyRule,
                          peerDependencyRule, authTokenRule]"
    by (simp add: builtin_sorted)
  have "firstRule (sortedRules (recoveryRules (initializeEngine newRecoveryEngine))) sg
          = firstRule (typescriptRule # [permissionRule, versionRule, installDependencyRule,
                          peerDependencyRule, authTokenRule]) sg"
    unfolding srt by (rule firstRule_skip [OF sk])
  also have "\<dots> = Some (withConfidence a (adjustConfidence a sg))"
    by (rule firstRule_hit [OF en m assms(9)])
  finally have fr: "firstRule (sortedRules (recoveryRules (initializeEngine newRecoveryEngine))) sg
          = Some a"
    unfolding wc .
  show ?thesis
    unfolding getRecoveryAction_def fr using builtin_engine_initialized by simp
qed

lemma ts2304_pipeline:
  "\<exists>sg a. detectError sha256hex (initializeDetector newErrorDetector) ''error TS2304:'' [] = Some sg
      \<and> getRecoveryAction (initializeEngine newRecoveryEngine) sg = Some a
      \<and> action a = ''fix_typescript_config'' \<and> confidence a = lit 0.75"
proof -
  obtain sg where sg: "detectError sha256hex (initializeDetector newErrorDetector)
                         ''error TS2304:'' [] = Some sg"
      "message sg = ''error TS2304:''" "severity sg = high"
      "context' sg = extractContext (''error TS2304:'' @ [newline] @ [])"
    using detected_signature [OF example_detect(1), of sha256hex]
    by (auto simp: cap_def example_severity)
  have fw: "framework (context' sg) = None" unfolding sg(4) by (rule example_framework(1))
  from ts_action [OF sg(2,3) fw ts_no_match(1-4) ts_match_rule(1) ts_generated(1)]
  show ?thesis using sg(1) by auto
qed

lemma ts1_pipeline:
  "\<exists>sg a. detectError sha256hex (initializeDetector newErrorDetector) ''error TS1:'' [] = Some sg
      \<and> getRecoveryAction (initializeEngine newRecoveryEngine) sg = Some a
      \<and> action a = ''fix_typescript_errors'' \<and> confidence a = lit 0.6"
proof -
  obtain sg where sg: "detectError sha256hex (initializeDetector newErrorDetector)
                         ''error TS1:'' [] = Some sg"
      "message sg = ''error TS1:''" "severity sg = high"
      "context' sg = extractContext (''error TS1:'' @ [newline] @ [])"
    using detected_signature [OF example_detect(2), of sha256hex]
    by (auto simp: cap_def example_severity)
  have fw: "framework (context' sg) = None" unfolding sg(4) by (rule example_framework(2))
  from ts_action [OF sg(2,3) fw ts_no_match(5-8) ts_match_rule(2) ts_generated(2)]
  show ?thesis using sg(1) by (auto simp: lit_def)
qed

lemma peer_pipeline:
  "\<exists>sg a. detectError sha256hex (initializeDetector newErrorDetector) peerMessage [] = Some sg
      \<and> getRecoveryAction (initializeEngine newRecoveryEngine) sg = Some a
      \<and> action a = ''install_peer_dependency''
      \<and> getParam (params a) ''package'' = JStr ''x@1''
      \<and> confidence a = lit 0.9900000000000001"
proof -
  have ne: "peerMessage \<noteq> []" by (simp add: peerMessage_def)
  obtain sg where sg: "detectError sha256hex (initializeDetector newErrorDetector)
                         peerMessage [] = Some sg"
      "message sg = peerMessage" "severity sg = medium"
      "context' sg = extractContext (peerMessage @ [newline] @ [])"
    using detected_signature [OF example_detect(3) _ ne, of sha256hex]
    by (auto simp: cap_def example_severity)
  have fw: "framework (context' sg) = None" unfolding sg(4) by (rule example_framework(3))
  have "getRecoveryAction (initializeEngine newRecoveryEngine) sg =
          Some (withConfidence installPeer (lit 0.9900000000000001))"
    unfolding peer_rule [OF sg(2)] peer_adjusted(1) [OF sg(3) fw] by simp
  then show ?thesis
    using sg(1) by (simp add: withConfidence_def installPeer_def getParam_def)
qed

lemma env_pipeline:
  "\<exists>sg a. detectError sha256hex (initializeDetector newErrorDetector) envMessage [] = Some sg
      \<and> getRecoveryAction (initializeEngine newRecoveryEngine) sg = Some a
      \<and> action a = ''set_env_variable''
      \<and> confidence a = lit 0.935"
proof -
  have ne: "envMessage \<noteq> []" by (simp add: envMessage_def)
  obtain sg where sg: "detectError sha256hex (initializeDetector newErrorDetector)
                         envMessage [] = Some sg"
      "message sg = envMessage" "severity sg = medium"
      "context' sg = extractContext (envMessage @ [newline] @ [])"
    using detected_signature [OF example_detect(4) _ ne, of sha256hex]
    by (auto simp: cap_def example_severity)
  have fw: "framework (context' sg) = None" unfolding sg(4) by (rule example_framework(4))
  have "getRecoveryAction (initializeEngine newRecoveryEngine) sg =
          Some (withConfidence setApiKey (lit 0.935))"
    unfolding env_rule [OF sg(2)] env_adjusted [OF sg(3) fw] by simp
  then show ?thesis
    using sg(1) by (simp add: withConfidence_def setApiKey_def)
qed

lemma example_thresholds:
  "gt (lit 0.95) (lit 0.9)" "gt (lit 0.9900000000000001) (lit 0.9)" "gt (lit 0.935) (lit 0.9)"
  "gt (lit 0.75) (lit 0.7)" "\<not> gt (lit 0.75) (lit 0.9)" "\<not> gt (lit 0.6) (lit 0.7)"
  by (simp_all add: lit_def double_values)

text \<open>The command of the remedy for the missing module: its child closes, or the spawn
  throws.\<close>

lemma example_install_closes:
  "awaitExecute ''npm'' [''install'', ''left-pad'']
         (emit (TaskLog ''t1'' ''Installing missing dependency: left-pad'')
          (emit (TaskRecovery ''t1'' sg a) (exampleWorkflow\<lparr>commandRunner := snd (execute ''npm'' 0 [StderrData leftPadMessage, Close (Some 1) None 7] newCommandRunner),
          emitted' := [TaskLog ''t1'' ''Building project: npm run build''],
          children := [Close (Some 0) None 9] # rest,
          spawned := [(''npm'', [''run'', ''build''])]\<rparr>)))
     = (Returns \<lparr>success = True, stdout = [], stderr = [], exitCode = 0, duration = 9\<rparr>,
        (exampleWorkflow\<lparr>commandRunner := snd (execute ''npm'' 0 [Close (Some 0) None 9] (snd (execute ''npm'' 0 [StderrData leftPadMessage, Close (Some 1) None 7] newCommandRunner))),
          emitted' := [TaskLog ''t1'' ''Building project: npm run build'', TaskRecovery ''t1'' sg a, TaskLog ''t1'' ''Installing missing dependency: left-pad''],
          children := rest,
          spawned := [(''npm'', [''run'', ''build'']), (''npm'', [''install'', ''left-pad''])]\<rparr>))"
proof -
  let ?w = "(emit (TaskLog ''t1'' ''Installing missing dependency: left-pad'')
          (emit (TaskRecovery ''t1'' sg a) (exampleWorkflow\<lparr>commandRunner := snd (execute ''npm'' 0 [StderrData leftPadMessage, Close (Some 1) None 7] newCommandRunner),
          emitted' := [TaskLog ''t1'' ''Building project: npm run build''],
          children := [Close (Some 0) None 9] # rest,
          spawned := [(''npm'', [''run'', ''build''])]\<rparr>)))"
  have ch: "children ?w = ([] @ Close (Some 0) None 9 # []) # rest"
    by simp
  have dt: "\<forall>e\<in>set ([] :: child_event list). isData e" by simp
  have out: "stdoutOf [] = []" "stderrOf [] = []"
    by (simp_all add: stdoutOf_def stderrOf_def)
  show ?thesis
    unfolding awaitExecute_close [OF ch dt] out trim_empty
    by (simp add: exampleWorkflow_def emit_def)
qed

lemma example_install_throws:
  "awaitExecute ''npm'' [''install'', ''left-pad'']
         (emit (TaskLog ''t1'' ''Installing missing dependency: left-pad'')
          (emit (TaskRecovery ''t1'' sg a) (exampleWorkflow\<lparr>commandRunner := snd (execute ''npm'' 0 [StderrData leftPadMessage, Close (Some 1) None 7] newCommandRunner),
          emitted' := [TaskLog ''t1'' ''Building project: npm run build''],
          children := [SpawnThrows ''spawn E2BIG''] # rest,
          spawned := [(''npm'', [''run'', ''build''])]\<rparr>)))
     = (Throws ''spawn E2BIG'',
        (exampleWorkflow\<lparr>commandRunner := (snd (execute ''npm'' 0 [StderrData leftPadMessage, Close (Some 1) None 7] newCommandRunner))
              \<lparr>processCounter := Suc (processCounter (snd (execute ''npm'' 0 [StderrData leftPadMessage, Close (Some 1) None 7] newCommandRunner)))\<rparr>,
          emitted' := [TaskLog ''t1'' ''Building project: npm run build'', TaskRecovery ''t1'' sg a, TaskLog ''t1'' ''Installing missing dependency: left-pad''],
          children := rest,
          spawned := [(''npm'', [''run'', ''build'']), (''npm'', [''install'', ''left-pad''])]\<rparr>))"
proof -
  let ?w = "(emit (TaskLog ''t1'' ''Installing missing dependency: left-pad'')
          (emit (TaskRecovery ''t1'' sg a) (exampleWorkflow\<lparr>commandRunner := snd (execute ''npm'' 0 [StderrData leftPadMessage, Close (Some 1) None 7] newCommandRunner),
          emitted' := [TaskLog ''t1'' ''Building project: npm run build''],
          children := [SpawnThrows ''spawn E2BIG''] # rest,
          spawned := [(''npm'', [''run'', ''build''])]\<rparr>)))"
  have ch: "children ?w = (SpawnThrows ''spawn E2BIG'' # []) # rest"
    by simp
  show ?thesis
    unfolding awaitExecute_throws [OF ch]
    by (simp add: exampleWorkflow_def emit_def)
qed

lemma example_last_build:
  "\<exists>w'. buildProject sha256hex noMetadata ''t1'' exampleOptions
          (exampleWorkflow\<lparr>commandRunner := snd (execute ''npm'' 0 [Close (Some 0) None 9] (snd (execute ''npm'' 0 [StderrData leftPadMessage, Close (Some 1) None 7] newCommandRunner))),
          emitted' := [TaskLog ''t1'' ''Building project: npm run build'', TaskRecovery ''t1'' sg a, TaskLog ''t1'' ''Installing missing dependency: left-pad''],
          children := [[Close (Some 0) None 12]],
          spawned := [(''npm'', [''run'', ''build'']), (''npm'', [''install'', ''left-pad''])]\<rparr>)
        = (Returns (), w')
      \<and> spawned w' = [(''npm'', [''run'', ''build'']), (''npm'', [''install'', ''left-pad'']), (''npm'', [''run'', ''build''])]
      \<and> children w' = []"
proof -
  let ?w = "(exampleWorkflow\<lparr>commandRunner := snd (execute ''npm'' 0 [Close (Some 0) None 9] (snd (execute ''npm'' 0 [StderrData leftPadMessage, Close (Some 1) None 7] newCommandRunner))),
          emitted' := [TaskLog ''t1'' ''Building project: npm run build'', TaskRecovery ''t1'' sg a, TaskLog ''t1'' ''Installing missing dependency: left-pad''],
          children := [[Close (Some 0) None 12]],
          spawned := [(''npm'', [''run'', ''build'']), (''npm'', [''install'', ''left-pad''])]\<rparr>)"
  have f: "getProject (database ?w) ''p1'' = Inr (Some \<lparr>path = ''/srv/app''\<rparr>)"
      "map_of (activeTasks ?w) ''t1'' = Some exampleTask"
      "updateTask (database ?w) = (\<lambda>i u. None)"
      "children ?w = ([] @ Close (Some 0) None 12 # []) # []"
    by (simp_all add: exampleWorkflow_def)
  have dt: "\<forall>e\<in>set ([] :: child_event list). isData e" by simp
  from example_build_succeeds [OF f dt, of sha256hex]
  show ?thesis by (auto simp: exampleWorkflow_def)
qed

lemma example_second_build:
  "\<exists>w'. buildProject sha256hex noMetadata ''t1'' exampleOptions
          (emit (TaskRecovery ''t1'' sg a) (exampleWorkflow\<lparr>commandRunner := snd (execute ''npm'' 0 [StderrData msg, Close (Some 1) None 7] newCommandRunner),
          emitted' := [TaskLog ''t1'' ''Building project: npm run build''],
          children := [[Close (Some 0) None 9]],
          spawned := [(''npm'', [''run'', ''build''])]\<rparr>))
        = (Returns (), w')
      \<and> spawned w' = [(''npm'', [''run'', ''build'']), (''npm'', [''run'', ''build''])]
      \<and> emitted' w' = [TaskLog ''t1'' ''Building project: npm run build'', TaskRecovery ''t1'' sg a,
                        TaskLog ''t1'' ''Building project: npm run build'',
                        TaskStatus ''t1'' ''running'' (Some 60) None,
                        TaskLog ''t1'' ''Build completed successfully'']
      \<and> children w' = []"
proof -
  let ?w = "(emit (TaskRecovery ''t1'' sg a) (exampleWorkflow\<lparr>commandRunner := snd (execute ''npm'' 0 [StderrData msg, Close (Some 1) None 7] newCommandRunner),
          emitted' := [TaskLog ''t1'' ''Building project: npm run build''],
          children := [[Close (Some 0) None 9]],
          spawned := [(''npm'', [''run'', ''build''])]\<rparr>))"
  have f: "getProject (database ?w) ''p1'' = Inr (Some \<lparr>path = ''/srv/app''\<rparr>)"
      "map_of (activeTasks ?w) ''t1'' = Some exampleTask"
      "updateTask (database ?w) = (\<lambda>i u. None)"
      "children ?w = ([] @ Close (Some 0) None 9 # []) # []"
    by (simp_all add: exampleWorkflow_def)
  have dt: "\<forall>e\<in>set ([] :: child_event list). isData e" by simp
  from example_build_succeeds [OF f dt, of sha256hex]
  show ?thesis by (auto simp: exampleWorkflow_def)
qed

lemma example_handled:
  assumes "action a = ''install_dependency''" and "getParam (params a) ''package'' = JStr ''left-pad''"
  shows "(action a, ''npm'', [''install'', ''left-pad''], ''Installing missing dependency: left-pad'')
           \<in> {(''install_dependency'', ''npm'',
                 [''install'', jsToString (getParam (params a) ''package'')],
                 ''Installing missing dependency: '' @ jsToString (getParam (params a) ''package'')),
                (''clear_cache'', ''npm'', [''run'', ''clean''], ''Clearing build cache...''),
                (''retry_with_clean'', ''rm'', [''-rf'', ''node_modules'', ''dist'', ''build''],
                 ''Cleaning and retrying...'')}"
  by (simp add: assms)

text \<open>
  C5, as the claim states it, fails: with a confidence above 0.9 the workflow does not
  always execute a remedy and retry. In the first run the build fails on a missing peer;
  the suggested action \<open>install_peer_dependency\<close> has the confidence 0.9900000000000001,
  but \<open>executeRecoveryAction\<close> has no case for it: no command is run between the two
  builds, and the second build is the next thing spawned. In the second run the build fails
  on a missing module and the suggested \<open>install_dependency\<close> has confidence 0.95, but
  the spawn of its command throws: the phase fails with that error and is not retried, the
  child that would have served the retry is left.
\<close>

theorem remedy_counterexample:
  "\<forall>sha256hex.
     (\<exists>w' sg a. buildProject sha256hex noMetadata ''t1'' exampleOptions
              (exampleWorkflow\<lparr>children := [[StderrData peerMessage, Close (Some 1) None 7], [Close (Some 0) None 9]]\<rparr>)
              = (Returns (), w')
          \<and> action a = ''install_peer_dependency''
          \<and> confidence a = lit 0.9900000000000001 \<and> gt (confidence a) (lit 0.9)
          \<and> emitted' w' = [TaskLog ''t1'' ''Building project: npm run build'', TaskRecovery ''t1'' sg a,
                            TaskLog ''t1'' ''Building project: npm run build'',
                            TaskStatus ''t1'' ''running'' (Some 60) None,
                            TaskLog ''t1'' ''Build completed successfully'']
          \<and> spawned w' = [(''npm'', [''run'', ''build'']), (''npm'', [''run'', ''build''])])
   \<and> (\<exists>w' sg a. buildProject sha256hex noMetadata ''t1'' exampleOptions
              (exampleWorkflow\<lparr>children := [[StderrData leftPadMessage, Close (Some 1) None 7], [SpawnThrows ''spawn E2BIG''], [Close (Some 0) None 12]]\<rparr>)
              = (Throws ''spawn E2BIG'', w')
          \<and> action a = ''install_dependency''
          \<and> confidence a = lit 0.95 \<and> gt (confidence a) (lit 0.9)
          \<and> emitted' w' = [TaskLog ''t1'' ''Building project: npm run build'', TaskRecovery ''t1'' sg a, TaskLog ''t1'' ''Installing missing dependency: left-pad'']
          \<and> spawned w' = [(''npm'', [''run'', ''build'']), (''npm'', [''install'', ''left-pad''])]
          \<and> children w' = [[Close (Some 0) None 12]])"
proof (intro allI conjI)
  fix sha256hex :: "string \<Rightarrow> string"
  obtain sg a where p: "detectError sha256hex (initializeDetector newErrorDetector)
                          peerMessage [] = Some sg"
      "getRecoveryAction (initializeEngine newRecoveryEngine) sg = Some a"
      "action a = ''install_peer_dependency''"
      "confidence a = lit 0.9900000000000001"
    using peer_pipeline [of sha256hex] by blast
  note pre = example_premises(1) [OF example_trim(2) p(1) p(2), where rest = "[[Close (Some 0) None 9]]"]
    example_premises(2) [OF example_trim(2) p(1) p(2)]
    example_premises(3) [OF example_trim(2) p(1) p(2), where rest = "[[Close (Some 0) None 9]]"]
    example_premises(4) [OF example_trim(2) p(1) p(2), where rest = "[[Close (Some 0) None 9]]"]
  note step = buildProject_failed_build [where jsonBuildCommand = noMetadata,
      OF example_facts(1) example_facts(2) example_facts(3) example_cmdline pre]
  have c: "gt (confidence a) (lit 0.9)" "gt (confidence a) (lit 0.7)"
    unfolding p(4) by (simp_all add: lit_def double_values)
  have other: "action a \<notin> {''install_dependency'', ''clear_cache'', ''retry_with_clean''}" by (simp add: p(3))
  have at: "map_of (activeTasks (emit (TaskRecovery ''t1'' sg a) (exampleWorkflow\<lparr>commandRunner := snd (execute ''npm'' 0 [StderrData peerMessage, Close (Some 1) None 7] newCommandRunner),
          emitted' := [TaskLog ''t1'' ''Building project: npm run build''],
          children := [[Close (Some 0) None 9]],
          spawned := [(''npm'', [''run'', ''build''])]\<rparr>))) ''t1'' = Some exampleTask"
    and gp: "getProject (database (emit (TaskRecovery ''t1'' sg a) (exampleWorkflow\<lparr>commandRunner := snd (execute ''npm'' 0 [StderrData peerMessage, Close (Some 1) None 7] newCommandRunner),
          emitted' := [TaskLog ''t1'' ''Building project: npm run build''],
          children := [[Close (Some 0) None 9]],
          spawned := [(''npm'', [''run'', ''build''])]\<rparr>))) (projectId' exampleTask)
               = Inr (Some \<lparr>path = ''/srv/app''\<rparr>)"
    by (simp_all add: exampleWorkflow_def exampleTask_def)
  have "buildProject sha256hex noMetadata ''t1'' exampleOptions
          (exampleWorkflow\<lparr>children := [[StderrData peerMessage, Close (Some 1) None 7], [Close (Some 0) None 9]]\<rparr>)
        = buildProject sha256hex noMetadata ''t1'' exampleOptions
          (emit (TaskRecovery ''t1'' sg a) (exampleWorkflow\<lparr>commandRunner := snd (execute ''npm'' 0 [StderrData peerMessage, Close (Some 1) None 7] newCommandRunner),
          emitted' := [TaskLog ''t1'' ''Building project: npm run build''],
          children := [[Close (Some 0) None 9]],
          spawned := [(''npm'', [''run'', ''build''])]\<rparr>))"
    unfolding step executeRecoveryAction_other [OF at gp other] using c by simp
  with example_second_build [of sha256hex sg a peerMessage] p(3,4) c(1)
  show "\<exists>w' sg a. buildProject sha256hex noMetadata ''t1'' exampleOptions
              (exampleWorkflow\<lparr>children := [[StderrData peerMessage, Close (Some 1) None 7], [Close (Some 0) None 9]]\<rparr>)
              = (Returns (), w')
          \<and> action a = ''install_peer_dependency''
          \<and> confidence a = lit 0.9900000000000001 \<and> gt (confidence a) (lit 0.9)
          \<and> emitted' w' = [TaskLog ''t1'' ''Building project: npm run build'', TaskRecovery ''t1'' sg a,
                            TaskLog ''t1'' ''Building project: npm run build'',
                            TaskStatus ''t1'' ''running'' (Some 60) None,
                            TaskLog ''t1'' ''Build completed successfully'']
          \<and> spawned w' = [(''npm'', [''run'', ''build'']), (''npm'', [''run'', ''build''])]"
    by auto
next
  fix sha256hex :: "string \<Rightarrow> string"
  obtain sg a where p: "detectError sha256hex (initializeDetector newErrorDetector)
                          leftPadMessage [] = Some sg"
      "getRecoveryAction (initializeEngine newRecoveryEngine) sg = Some a"
      "action a = ''install_dependency''" "getParam (params a) ''package'' = JStr ''left-pad''"
      "confidence a = lit 0.95"
    using leftPad_pipeline [of sha256hex "[]"] by blast
  note pre = example_premises(1) [OF example_trim(1) p(1) p(2), where rest = "[[SpawnThrows ''spawn E2BIG''], [Close (Some 0) None 12]]"]
    example_premises(2) [OF example_trim(1) p(1) p(2)]
    example_premises(3) [OF example_trim(1) p(1) p(2), where rest = "[[SpawnThrows ''spawn E2BIG''], [Close (Some 0) None 12]]"]
    example_premises(4) [OF example_trim(1) p(1) p(2), where rest = "[[SpawnThrows ''spawn E2BIG''], [Close (Some 0) None 12]]"]
  note step = buildProject_failed_build [where jsonBuildCommand = noMetadata,
      OF example_facts(1) example_facts(2) example_facts(3) example_cmdline pre]
  have c: "gt (confidence a) (lit 0.9)" "gt (confidence a) (lit 0.7)"
    unfolding p(5) by (simp_all add: lit_def double_values)
  have at: "map_of (activeTasks (emit (TaskRecovery ''t1'' sg a) (exampleWorkflow\<lparr>commandRunner := snd (execute ''npm'' 0 [StderrData leftPadMessage, Close (Some 1) None 7] newCommandRunner),
          emitted' := [TaskLog ''t1'' ''Building project: npm run build''],
          children := [[SpawnThrows ''spawn E2BIG''], [Close (Some 0) None 12]],
          spawned := [(''npm'', [''run'', ''build''])]\<rparr>))) ''t1'' = Some exampleTask"
    and gp: "getProject (database (emit (TaskRecovery ''t1'' sg a) (exampleWorkflow\<lparr>commandRunner := snd (execute ''npm'' 0 [StderrData leftPadMessage, Close (Some 1) None 7] newCommandRunner),
          emitted' := [TaskLog ''t1'' ''Building project: npm run build''],
          children := [[SpawnThrows ''spawn E2BIG''], [Close (Some 0) None 12]],
          spawned := [(''npm'', [''run'', ''build''])]\<rparr>))) (projectId' exampleTask)
               = Inr (Some \<lparr>path = ''/srv/app''\<rparr>)"
    by (simp_all add: exampleWorkflow_def exampleTask_def)
  have ex: "executeRecoveryAction ''t1'' a (emit (TaskRecovery ''t1'' sg a) (exampleWorkflow\<lparr>commandRunner := snd (execute ''npm'' 0 [StderrData leftPadMessage, Close (Some 1) None 7] newCommandRunner),
          emitted' := [TaskLog ''t1'' ''Building project: npm run build''],
          children := [[SpawnThrows ''spawn E2BIG''], [Close (Some 0) None 12]],
          spawned := [(''npm'', [''run'', ''build''])]\<rparr>))
      = (Throws ''spawn E2BIG'',
        (exampleWorkflow\<lparr>commandRunner := (snd (execute ''npm'' 0 [StderrData leftPadMessage, Close (Some 1) None 7] newCommandRunner))
              \<lparr>processCounter := Suc (processCounter (snd (execute ''npm'' 0 [StderrData leftPadMessage, Close (Some 1) None 7] newCommandRunner)))\<rparr>,
          emitted' := [TaskLog ''t1'' ''Building project: npm run build'', TaskRecovery ''t1'' sg a, TaskLog ''t1'' ''Installing missing dependency: left-pad''],
          children := [[Close (Some 0) None 12]],
          spawned := [(''npm'', [''run'', ''build'']), (''npm'', [''install'', ''left-pad''])]\<rparr>))"
    unfolding executeRecoveryAction_command [OF at gp example_handled [OF p(3) p(4)]]
      example_install_throws [where rest = "[[Close (Some 0) None 12]]"]
    by simp
  show "\<exists>w' sg a. buildProject sha256hex noMetadata ''t1'' exampleOptions
              (exampleWorkflow\<lparr>children := [[StderrData leftPadMessage, Close (Some 1) None 7], [SpawnThrows ''spawn E2BIG''], [Close (Some 0) None 12]]\<rparr>)
              = (Throws ''spawn E2BIG'', w')
          \<and> action a = ''install_dependency''
          \<and> confidence a = lit 0.95 \<and> gt (confidence a) (lit 0.9)
          \<and> emitted' w' = [TaskLog ''t1'' ''Building project: npm run build'', TaskRecovery ''t1'' sg a, TaskLog ''t1'' ''Installing missing dependency: left-pad'']
          \<and> spawned w' = [(''npm'', [''run'', ''build'']), (''npm'', [''install'', ''left-pad''])]
          \<and> children w' = [[Close (Some 0) None 12]]"
    unfolding step ex using c p(3,5) by (auto simp: exampleWorkflow_def)
qed

theorem buildProject_recovery_thresholds_witness:
  "\<forall>sha256hex.
     (\<exists>w'. buildProject sha256hex noMetadata ''t1'' exampleOptions
              (exampleWorkflow\<lparr>children := [[StderrData leftPadMessage, Close (Some 1) None 7], [Close (Some 0) None 9], [Close (Some 0) None 12]]\<rparr>)
              = (Returns (), w')
          \<and> spawned w' = [(''npm'', [''run'', ''build'']), (''npm'', [''install'', ''left-pad'']), (''npm'', [''run'', ''build''])])
   \<and> (\<exists>w'. buildProject sha256hex noMetadata ''t1'' exampleOptions
              (exampleWorkflow\<lparr>children := [[StderrData leftPadMessage, Close (Some 1) None 7], [SpawnThrows ''spawn E2BIG''], [Close (Some 0) None 12]]\<rparr>)
              = (Throws ''spawn E2BIG'', w')
          \<and> spawned w' = [(''npm'', [''run'', ''build'']), (''npm'', [''install'', ''left-pad''])]
          \<and> children w' = [[Close (Some 0) None 12]])
   \<and> (\<exists>w' sg a. buildProject sha256hex noMetadata ''t1'' exampleOptions
              (exampleWorkflow\<lparr>children := [[StderrData envMessage, Close (Some 1) None 7], [Close (Some 0) None 9]]\<rparr>)
              = (Returns (), w')
          \<and> action a = ''set_env_variable'' \<and> confidence a = lit 0.935
          \<and> emitted' w' = [TaskLog ''t1'' ''Building project: npm run build'', TaskRecovery ''t1'' sg a,
                            TaskLog ''t1'' ''Building project: npm run build'',
                            TaskStatus ''t1'' ''running'' (Some 60) None,
                            TaskLog ''t1'' ''Build completed successfully'']
          \<and> spawned w' = [(''npm'', [''run'', ''build'']), (''npm'', [''run'', ''build''])])
   \<and> (\<exists>w' sg a. buildProject sha256hex noMetadata ''t1'' exampleOptions
              (exampleWorkflow\<lparr>children := [[StderrData ''error TS2304:'', Close (Some 1) None 7]]\<rparr>)
              = (Throws ''Build failed: error TS2304:'', w')
          \<and> confidence a = lit 0.75
          \<and> emitted' w' = [TaskLog ''t1'' ''Building project: npm run build'', TaskRecovery ''t1'' sg a]
          \<and> spawned w' = [(''npm'', [''run'', ''build''])])
   \<and> (\<exists>w'. buildProject sha256hex noMetadata ''t1'' exampleOptions
              (exampleWorkflow\<lparr>children := [[StderrData ''error TS1:'', Close (Some 1) None 7]]\<rparr>)
              = (Throws ''Build failed: error TS1:'', w')
          \<and> emitted' w' = [TaskLog ''t1'' ''Building project: npm run build'']
          \<and> spawned w' = [(''npm'', [''run'', ''build''])])"
proof (intro allI conjI)
  fix sha256hex :: "string \<Rightarrow> string"
  obtain sg a where p: "detectError sha256hex (initializeDetector newErrorDetector)
                          leftPadMessage [] = Some sg"
      "getRecoveryAction (initializeEngine newRecoveryEngine) sg = Some a"
      "action a = ''install_dependency''" "getParam (params a) ''package'' = JStr ''left-pad''"
      "confidence a = lit 0.95"
    using leftPad_pipeline [of sha256hex "[]"] by blast
  note pre = example_premises(1) [OF example_trim(1) p(1) p(2), where rest = "[[Close (Some 0) None 9], [Close (Some 0) None 12]]"]
    example_premises(2) [OF example_trim(1) p(1) p(2)]
    example_premises(3) [OF example_trim(1) p(1) p(2), where rest = "[[Close (Some 0) None 9], [Close (Some 0) None 12]]"]
    example_premises(4) [OF example_trim(1) p(1) p(2), where rest = "[[Close (Some 0) None 9], [Close (Some 0) None 12]]"]
  note main = buildProject_recovery_thresholds [where jsonBuildCommand = noMetadata
        and cmd = "''npm''" and args = "[''install'', ''left-pad'']"
        and logged = "''Installing missing dependency: left-pad''"
        and taskProject = "\<lparr>path = ''/srv/app''\<rparr>",
      OF example_facts(1) example_facts(2) example_facts(3) example_cmdline pre]
  have c: "gt (confidence a) (lit 0.9)"
    unfolding p(5) by (rule example_thresholds(1))
  have h: "gt (confidence a) (lit 0.9)
          \<and> getProject (database (exampleWorkflow\<lparr>children := [StderrData leftPadMessage, Close (Some 1) None 7] # [[Close (Some 0) None 9], [Close (Some 0) None 12]]\<rparr>)) (projectId' exampleTask)
              = Inr (Some \<lparr>path = ''/srv/app''\<rparr>)
          \<and> (action a, ''npm'', [''install'', ''left-pad''], ''Installing missing dependency: left-pad'')
              \<in> {(''install_dependency'', ''npm'',
                 [''install'', jsToString (getParam (params a) ''package'')],
                 ''Installing missing dependency: '' @ jsToString (getParam (params a) ''package'')),
                (''clear_cache'', ''npm'', [''run'', ''clean''], ''Clearing build cache...''),
                (''retry_with_clean'', ''rm'', [''-rf'', ''node_modules'', ''dist'', ''build''],
                 ''Cleaning and retrying...'')}"
    using c example_facts(4) example_handled [OF p(3) p(4)] by simp
  note retried = main [THEN conjunct1, THEN mp, OF h, THEN conjunct1, THEN spec, THEN spec,
      THEN mp, OF example_install_closes [where rest = "[[Close (Some 0) None 12]]"], THEN conjunct1]
  from example_last_build [of sha256hex sg a]
  show "\<exists>w'. buildProject sha256hex noMetadata ''t1'' exampleOptions
              (exampleWorkflow\<lparr>children := [[StderrData leftPadMessage, Close (Some 1) None 7], [Close (Some 0) None 9], [Close (Some 0) None 12]]\<rparr>)
              = (Returns (), w')
          \<and> spawned w' = [(''npm'', [''run'', ''build'']), (''npm'', [''install'', ''left-pad'']), (''npm'', [''run'', ''build''])]"
    unfolding retried by blast
next
  fix sha256hex :: "string \<Rightarrow> string"
  obtain sg a where p: "detectError sha256hex (initializeDetector newErrorDetector)
                          leftPadMessage [] = Some sg"
      "getRecoveryAction (initializeEngine newRecoveryEngine) sg = Some a"
      "action a = ''install_dependency''" "getParam (params a) ''package'' = JStr ''left-pad''"
      "confidence a = lit 0.95"
    using leftPad_pipeline [of sha256hex "[]"] by blast
  note pre = example_premises(1) [OF example_trim(1) p(1) p(2), where rest = "[[SpawnThrows ''spawn E2BIG''], [Close (Some 0) None 12]]"]
    example_premises(2) [OF example_trim(1) p(1) p(2)]
    example_premises(3) [OF example_trim(1) p(1) p(2), where rest = "[[SpawnThrows ''spawn E2BIG''], [Close (Some 0) None 12]]"]
    example_premises(4) [OF example_trim(1) p(1) p(2), where rest = "[[SpawnThrows ''spawn E2BIG''], [Close (Some 0) None 12]]"]
  note main = buildProject_recovery_thresholds [where jsonBuildCommand = noMetadata
        and cmd = "''npm''" and args = "[''install'', ''left-pad'']"
        and logged = "''Installing missing dependency: left-pad''"
        and taskProject = "\<lparr>path = ''/srv/app''\<rparr>",
      OF example_facts(1) example_facts(2) example_facts(3) example_cmdline pre]
  have c: "gt (confidence a) (lit 0.9)"
    unfolding p(5) by (rule example_thresholds(1))
  have h: "gt (confidence a) (lit 0.9)
          \<and> getProject (database (exampleWorkflow\<lparr>children := [StderrData leftPadMessage, Close (Some 1) None 7] # [[SpawnThrows ''spawn E2BIG''], [Close (Some 0) None 12]]\<rparr>)) (projectId' exampleTask)
              = Inr (Some \<lparr>path = ''/srv/app''\<rparr>)
          \<and> (action a, ''npm'', [''install'', ''left-pad''], ''Installing missing dependency: left-pad'')
              \<in> {(''install_dependency'', ''npm'',
                 [''install'', jsToString (getParam (params a) ''package'')],
                 ''Installing missing dependency: '' @ jsToString (getParam (params a) ''package'')),
                (''clear_cache'', ''npm'', [''run'', ''clean''], ''Clearing build cache...''),
                (''retry_with_clean'', ''rm'', [''-rf'', ''node_modules'', ''dist'', ''build''],
                 ''Cleaning and retrying...'')}"
    using c example_facts(4) example_handled [OF p(3) p(4)] by simp
  note faulted = main [THEN conjunct1, THEN mp, OF h, THEN conjunct2, THEN spec, THEN spec,
      THEN mp, OF example_install_throws [where rest = "[[Close (Some 0) None 12]]"]]
  show "\<exists>w'. buildProject sha256hex noMetadata ''t1'' exampleOptions
              (exampleWorkflow\<lparr>children := [[StderrData leftPadMessage, Close (Some 1) None 7], [SpawnThrows ''spawn E2BIG''], [Close (Some 0) None 12]]\<rparr>)
              = (Throws ''spawn E2BIG'', w')
          \<and> spawned w' = [(''npm'', [''run'', ''build'']), (''npm'', [''install'', ''left-pad''])]
          \<and> children w' = [[Close (Some 0) None 12]]"
    unfolding faulted by (simp add: exampleWorkflow_def)
next
  fix sha256hex :: "string \<Rightarrow> string"
  obtain sg a where p: "detectError sha256hex (initializeDetector newErrorDetector)
                          envMessage [] = Some sg"
      "getRecoveryAction (initializeEngine newRecoveryEngine) sg = Some a"
      "action a = ''set_env_variable''" "confidence a = lit 0.935"
    using env_pipeline [of sha256hex] by blast
  note pre = example_premises(1) [OF example_trim(3) p(1) p(2), where rest = "[[Close (Some 0) None 9]]"]
    example_premises(2) [OF example_trim(3) p(1) p(2)]
    example_premises(3) [OF example_trim(3) p(1) p(2), where rest = "[[Close (Some 0) None 9]]"]
    example_premises(4) [OF example_trim(3) p(1) p(2), where rest = "[[Close (Some 0) None 9]]"]
  note main = buildProject_recovery_thresholds [where jsonBuildCommand = noMetadata
        and taskProject = "\<lparr>path = ''/srv/app''\<rparr>",
      OF example_facts(1) example_facts(2) example_facts(3) example_cmdline pre]
  have c: "gt (confidence a) (lit 0.9)"
    unfolding p(4) by (rule example_thresholds(3))
  have h: "gt (confidence a) (lit 0.9)
          \<and> getProject (database (exampleWorkflow\<lparr>children := [StderrData envMessage, Close (Some 1) None 7] # [[Close (Some 0) None 9]]\<rparr>)) (projectId' exampleTask)
              = Inr (Some \<lparr>path = ''/srv/app''\<rparr>)
          \<and> action a \<notin> {''install_dependency'', ''clear_cache'', ''retry_with_clean''}"
    using c example_facts(4) by (simp add: p(3))
  note retried = main [THEN conjunct2, THEN conjunct1, THEN mp, OF h, THEN conjunct1]
  from example_second_build [of sha256hex sg a envMessage] p(3,4)
  show "\<exists>w' sg a. buildProject sha256hex noMetadata ''t1'' exampleOptions
              (exampleWorkflow\<lparr>children := [[StderrData envMessage, Close (Some 1) None 7], [Close (Some 0) None 9]]\<rparr>)
              = (Returns (), w')
          \<and> action a = ''set_env_variable'' \<and> confidence a = lit 0.935
          \<and> emitted' w' = [TaskLog ''t1'' ''Building project: npm run build'', TaskRecovery ''t1'' sg a,
                            TaskLog ''t1'' ''Building project: npm run build'',
                            TaskStatus ''t1'' ''running'' (Some 60) None,
                            TaskLog ''t1'' ''Build completed successfully'']
          \<and> spawned w' = [(''npm'', [''run'', ''build'']), (''npm'', [''run'', ''build''])]"
    unfolding retried by auto
next
  fix sha256hex :: "string \<Rightarrow> string"
  obtain sg a where p: "detectError sha256hex (initializeDetector newErrorDetector)
                          ''error TS2304:'' [] = Some sg"
      "getRecoveryAction (initializeEngine newRecoveryEngine) sg = Some a"
      "action a = ''fix_typescript_config''" "confidence a = lit 0.75"
    using ts2304_pipeline [of sha256hex] by blast
  note pre = example_premises(1) [OF example_trim(4) p(1) p(2), where rest = "[]"]
    example_premises(2) [OF example_trim(4) p(1) p(2)]
    example_premises(3) [OF example_trim(4) p(1) p(2), where rest = "[]"]
    example_premises(4) [OF example_trim(4) p(1) p(2), where rest = "[]"]
  note main = buildProject_recovery_thresholds [where jsonBuildCommand = noMetadata,
      OF example_facts(1) example_facts(2) example_facts(3) example_cmdline pre]
  have h: "gt (confidence a) (lit 0.7) \<and> \<not> gt (confidence a) (lit 0.9)"
    unfolding p(4) using example_thresholds(4,5) by simp
  from main [THEN conjunct2, THEN conjunct2, THEN conjunct1, THEN mp, OF h] p(4)
  show "\<exists>w' sg a. buildProject sha256hex noMetadata ''t1'' exampleOptions
              (exampleWorkflow\<lparr>children := [[StderrData ''error TS2304:'', Close (Some 1) None 7]]\<rparr>)
              = (Throws ''Build failed: error TS2304:'', w')
          \<and> confidence a = lit 0.75
          \<and> emitted' w' = [TaskLog ''t1'' ''Building project: npm run build'', TaskRecovery ''t1'' sg a]
          \<and> spawned w' = [(''npm'', [''run'', ''build''])]"
    by (auto simp: npm_run_build exampleWorkflow_def)
next
  fix sha256hex :: "string \<Rightarrow> string"
  obtain sg a where p: "detectError sha256hex (initializeDetector newErrorDetector)
                          ''error TS1:'' [] = Some sg"
      "getRecoveryAction (initializeEngine newRecoveryEngine) sg = Some a"
      "action a = ''fix_typescript_errors''" "confidence a = lit 0.6"
    using ts1_pipeline [of sha256hex] by blast
  note pre = example_premises(1) [OF example_trim(5) p(1) p(2), where rest = "[]"]
    example_premises(2) [OF example_trim(5) p(1) p(2)]
    example_premises(3) [OF example_trim(5) p(1) p(2), where rest = "[]"]
    example_premises(4) [OF example_trim(5) p(1) p(2), where rest = "[]"]
  note main = buildProject_recovery_thresholds [where jsonBuildCommand = noMetadata,
      OF example_facts(1) example_facts(2) example_facts(3) example_cmdline pre]
  have h: "\<not> gt (confidence a) (lit 0.7)"
    unfolding p(4) by (rule example_thresholds(6))
  from main [THEN conjunct2, THEN conjunct2, THEN conjunct2, THEN mp, OF h]
  show "\<exists>w'. buildProject sha256hex noMetadata ''t1'' exampleOptions
              (exampleWorkflow\<lparr>children := [[StderrData ''error TS1:'', Close (Some 1) None 7]]\<rparr>)
              = (Throws ''Build failed: error TS1:'', w')
          \<and> emitted' w' = [TaskLog ''t1'' ''Building project: npm run build'']
          \<and> spawned w' = [(''npm'', [''run'', ''build''])]"
    by (auto simp: npm_run_build exampleWorkflow_def)
qed

end
